theory Spec2Isabelle
  imports Complex_Main
begin

section \<open>Numbers and library functions\<close>

text \<open>
  The propagator computes in C++ \<^verbatim>\<open>double\<close>. A \<^verbatim>\<open>double\<close> is modelled by a \<^typ>\<open>real\<close>:
  comparisons, branches, loops and the algebra of the formulas are those of the source,
  rounding, infinities and NaN are not represented. The functions of \<^verbatim>\<open><cmath>\<close> are
  the real functions of the same name; \<^verbatim>\<open>fabs\<close> is \<open>\<bar>_\<bar>\<close>.
\<close>

definition AE :: real where "AE = 1.0"
definition Q0 :: real where "Q0 = 120.0"
definition S0 :: real where "S0 = 78.0"
definition MU :: real where "MU = 398600.8"
definition XKMPER :: real where "XKMPER = 6378.135"
definition XJ2 :: real where "XJ2 = 1.082616 / 10 ^ 3"
definition XJ3 :: real where "XJ3 = - 2.53881 / 10 ^ 6"
definition XJ4 :: real where "XJ4 = - 1.65597 / 10 ^ 6"
definition XKE :: real where "XKE = 60.0 / sqrt (XKMPER * XKMPER * XKMPER / MU)"
definition CK2 :: real where "CK2 = 0.5 * XJ2 * AE * AE"
definition CK4 :: real where "CK4 = - 0.375 * XJ4 * AE * AE * AE * AE"
definition S :: real where "S = AE * (1.0 + S0 / XKMPER)"
definition PI :: real where
  "PI = 3.14159265358979323846264338327950288419716939937510582"
definition TWOPI :: real where "TWOPI = 2.0 * PI"
definition TWOTHIRD :: real where "TWOTHIRD = 2.0 / 3.0"
definition THDT :: real where "THDT = 4.37526908801129966 / 10 ^ 3"

text \<open>
  \<^verbatim>\<open>pow(x, y)\<close>: repeated multiplication for the whole-number exponents the source uses
  (2, 3 and 4), and \<open>exp (y * ln x)\<close> otherwise (exponents 2/3, 1.5 and 3.5, on a base that
  is not negative).
\<close>

definition pow :: "real \<Rightarrow> real \<Rightarrow> real" where
  "pow x y = (if 0 \<le> y \<and> y = of_int \<lfloor>y\<rfloor> then x ^ nat \<lfloor>y\<rfloor> else x powr y)"

definition QOMS2T :: real where "QOMS2T = pow ((Q0 - S0) / XKMPER) 4.0"

text \<open>\<^verbatim>\<open>fmod(x, y)\<close>: the remainder of \<open>x / y\<close> rounded toward zero; it has the sign of \<open>x\<close>.\<close>

definition fmod :: "real \<Rightarrow> real \<Rightarrow> real" where
  "fmod x y = x - y * of_int (if 0 \<le> x / y then \<lfloor>x / y\<rfloor> else \<lceil>x / y\<rceil>)"

text \<open>\<^verbatim>\<open>atan2(y, x)\<close>: the angle of the point \<open>(x, y)\<close>, in \<open>(-\<pi>, \<pi>]\<close>.\<close>

definition atan2 :: "real \<Rightarrow> real \<Rightarrow> real" where
  "atan2 y x =
     (if 0 < x then arctan (y / x)
      else if x < 0 then (if 0 \<le> y then arctan (y / x) + pi else arctan (y / x) - pi)
      else if 0 < y then pi / 2
      else if y < 0 then - pi / 2
      else 0)"

text \<open>
  Modelled from the spec: \<^verbatim>\<open>Globals::Fmod2p\<close> and \<^verbatim>\<open>Globals::MIN_PER_DAY\<close> are declared outside
  the two source files. The spec names them as the angle normalisation helper (reduction
  to \<open>[0, 2\<pi>)\<close>) and as the divisor 1440 of the conversion from revolutions per day.
\<close>

definition Fmod2p :: "real \<Rightarrow> real" where
  "Fmod2p x = (let r = fmod x TWOPI in if r < 0.0 then r + TWOPI else r)"

definition MIN_PER_DAY :: real where "MIN_PER_DAY = 1440.0"

section \<open>Data\<close>

text \<open>
  The classes \<^verbatim>\<open>Julian\<close>, \<^verbatim>\<open>Tle\<close>, \<^verbatim>\<open>Vector\<close> and \<^verbatim>\<open>Eci\<close> are collaborators declared outside the
  two source files. A date is represented by the two values the propagator asks of it, an
  element set by the values its accessors return (angles in radians, the mean motion in
  revolutions per day), and the date of a result by the epoch together with the minutes
  added to it by \<^verbatim>\<open>Julian::AddMin\<close>.
\<close>

record Julian =
  ToGreenwichSiderealTime :: real
  FromJan1_12h_1900 :: real

definition Julian_default :: Julian where
  "Julian_default = \<lparr>ToGreenwichSiderealTime = 0, FromJan1_12h_1900 = 0\<rparr>"

record Tle =
  MeanAnomaly :: real
  RightAscendingNode :: real
  ArgumentPerigee :: real
  Eccentricity :: real
  Inclination :: real
  MeanMotion :: real
  BStar :: real
  Epoch :: Julian

record Vector =
  vec_x :: real
  vec_y :: real
  vec_z :: real

record Eci =
  eci_epoch :: Julian
  eci_minutes :: real
  eci_position :: Vector
  eci_velocity :: Vector

text \<open>
  \<^verbatim>\<open>SatelliteException\<close> carries the message it is thrown with. A function that throws
  returns \<open>Inl\<close> of the exception.
\<close>

datatype SatelliteException = SatelliteException string

text \<open>
  The members of class \<^verbatim>\<open>SGP4\<close>. They are grouped as the comments of \<^verbatim>\<open>SGP4.h\<close> group
  them, one record for each group, in the order of the header; a member \<^verbatim>\<open>x_\<close> is the field
  \<open>x\<close>. The members the header sets apart as \<^verbatim>\<open>mutable\<close> are among those of \<open>Integrator\<close>.
\<close>

record CommonConstants =
  i_cosio :: real
  i_sinio :: real
  i_eta :: real
  i_t2cof :: real
  i_a3ovk2 :: real
  i_x1mth2 :: real
  i_x3thm1 :: real
  i_x7thm1 :: real
  i_aycof :: real
  i_xlcof :: real
  i_xnodcf :: real
  i_c1 :: real
  i_c4 :: real
  i_omgdot :: real
  i_xnodot :: real
  i_xmdot :: real

record NearSpaceConstants =
  n_c5 :: real
  n_omgcof :: real
  n_xmcof :: real
  n_delmo :: real
  n_sinmo :: real
  n_d2 :: real
  n_d3 :: real
  n_d4 :: real
  n_t3cof :: real
  n_t4cof :: real
  n_t5cof :: real

record LunarSolarSecular =
  d_sse :: real
  d_ssi :: real
  d_ssl :: real
  d_ssg :: real
  d_ssh :: real

record LunarSolarPeriodic =
  d_se2 :: real
  d_si2 :: real
  d_sl2 :: real
  d_sgh2 :: real
  d_sh2 :: real
  d_se3 :: real
  d_si3 :: real
  d_sl3 :: real
  d_sgh3 :: real
  d_sh3 :: real
  d_sl4 :: real
  d_sgh4 :: real
  d_ee2 :: real
  d_e3 :: real
  d_xi2 :: real
  d_xi3 :: real
  d_xl2 :: real
  d_xl3 :: real
  d_xl4 :: real
  d_xgh2 :: real
  d_xgh3 :: real
  d_xgh4 :: real
  d_xh2 :: real
  d_xh3 :: real

record ResonanceConstants =
  d_d2201 :: real
  d_d2211 :: real
  d_d3210 :: real
  d_d3222 :: real
  d_d4410 :: real
  d_d4422 :: real
  d_d5220 :: real
  d_d5232 :: real
  d_d5421 :: real
  d_d5433 :: real
  d_del1 :: real
  d_del2 :: real
  d_del3 :: real

record Integrator =
  d_xfact :: real
  d_xlamo :: real
  d_xli :: real
  d_xni :: real
  d_atime :: real
  d_xndot_0 :: real
  d_xnddt_0 :: real
  d_xldot_0 :: real
  d_xndot_t :: real
  d_xnddt_t :: real
  d_xldot_t :: real

record Elements =
  mean_anomoly :: real
  ascending_node :: real
  argument_perigee :: real
  eccentricity :: real
  inclination :: real
  mean_motion :: real
  bstar :: real
  recovered_semi_major_axis :: real
  recovered_mean_motion :: real
  perigee :: real
  period :: real
  epoch :: Julian

record SGP4 =
  first_run :: bool
  i_use_simple_model :: bool
  i_use_deep_space :: bool
  common :: CommonConstants
  near :: NearSpaceConstants
  d_gsto :: real
  d_zmol :: real
  d_zmos :: real
  d_resonance_flag :: bool
  d_synchronous_flag :: bool
  secular :: LunarSolarSecular
  periodic :: LunarSolarPeriodic
  resonance :: ResonanceConstants
  integ :: Integrator
  elems :: Elements

section \<open>Resetting the object\<close>

text \<open>\<^verbatim>\<open>SGP4::ResetGlobalVariables\<close> assigns every member, so its result is one fixed object.\<close>

definition ResetGlobalVariables :: SGP4 where
  "ResetGlobalVariables =
     \<lparr>first_run = True, i_use_simple_model = False, i_use_deep_space = False,
      common =
        \<lparr>i_cosio = 0.0, i_sinio = 0.0, i_eta = 0.0, i_t2cof = 0.0, i_a3ovk2 = 0.0,
         i_x1mth2 = 0.0, i_x3thm1 = 0.0, i_x7thm1 = 0.0, i_aycof = 0.0, i_xlcof = 0.0,
         i_xnodcf = 0.0, i_c1 = 0.0, i_c4 = 0.0, i_omgdot = 0.0, i_xnodot = 0.0,
         i_xmdot = 0.0\<rparr>,
      near =
        \<lparr>n_c5 = 0.0, n_omgcof = 0.0, n_xmcof = 0.0, n_delmo = 0.0, n_sinmo = 0.0, n_d2 = 0.0,
         n_d3 = 0.0, n_d4 = 0.0, n_t3cof = 0.0, n_t4cof = 0.0, n_t5cof = 0.0\<rparr>,
      d_gsto = 0.0, d_zmol = 0.0, d_zmos = 0.0,
      d_resonance_flag = False, d_synchronous_flag = False,
      secular = \<lparr>d_sse = 0.0, d_ssi = 0.0, d_ssl = 0.0, d_ssg = 0.0, d_ssh = 0.0\<rparr>,
      periodic =
        \<lparr>d_se2 = 0.0, d_si2 = 0.0, d_sl2 = 0.0, d_sgh2 = 0.0, d_sh2 = 0.0, d_se3 = 0.0,
         d_si3 = 0.0, d_sl3 = 0.0, d_sgh3 = 0.0, d_sh3 = 0.0, d_sl4 = 0.0, d_sgh4 = 0.0,
         d_ee2 = 0.0, d_e3 = 0.0, d_xi2 = 0.0, d_xi3 = 0.0, d_xl2 = 0.0, d_xl3 = 0.0,
         d_xl4 = 0.0, d_xgh2 = 0.0, d_xgh3 = 0.0, d_xgh4 = 0.0, d_xh2 = 0.0, d_xh3 = 0.0\<rparr>,
      resonance =
        \<lparr>d_d2201 = 0.0, d_d2211 = 0.0, d_d3210 = 0.0, d_d3222 = 0.0, d_d4410 = 0.0,
         d_d4422 = 0.0, d_d5220 = 0.0, d_d5232 = 0.0, d_d5421 = 0.0, d_d5433 = 0.0,
         d_del1 = 0.0, d_del2 = 0.0, d_del3 = 0.0\<rparr>,
      integ =
        \<lparr>d_xfact = 0.0, d_xlamo = 0.0, d_xli = 0.0, d_xni = 0.0, d_atime = 0.0,
         d_xndot_0 = 0.0, d_xnddt_0 = 0.0, d_xldot_0 = 0.0,
         d_xndot_t = 0.0, d_xnddt_t = 0.0, d_xldot_t = 0.0\<rparr>,
      elems =
        \<lparr>mean_anomoly = 0.0, ascending_node = 0.0, argument_perigee = 0.0,
         eccentricity = 0.0, inclination = 0.0, mean_motion = 0.0, bstar = 0.0,
         recovered_semi_major_axis = 0.0, recovered_mean_motion = 0.0, perigee = 0.0,
         period = 0.0, epoch = Julian_default\<rparr>\<rparr>"

section \<open>Deep-space initialisation\<close>

text \<open>The constants declared \<^verbatim>\<open>static const\<close> inside the deep-space member functions.\<close>

definition ZNS :: real where "ZNS = 1.19459 / 10 ^ 5"
definition C1SS :: real where "C1SS = 2.9864797 / 10 ^ 6"
definition ZES :: real where "ZES = 0.01675"
definition ZNL :: real where "ZNL = 1.5835218 / 10 ^ 4"
definition C1L :: real where "C1L = 4.7968065 / 10 ^ 7"
definition ZEL :: real where "ZEL = 0.05490"
definition ZCOSIS :: real where "ZCOSIS = 0.91744867"
definition ZSINI :: real where "ZSINI = 0.39785416"
definition ZSINGS :: real where "ZSINGS = - 0.98088458"
definition ZCOSGS :: real where "ZCOSGS = 0.1945905"
definition Q22 :: real where "Q22 = 1.7891679 / 10 ^ 6"
definition Q31 :: real where "Q31 = 2.1460748 / 10 ^ 6"
definition Q33 :: real where "Q33 = 2.2123015 / 10 ^ 7"
definition ROOT22 :: real where "ROOT22 = 1.7891679 / 10 ^ 6"
definition ROOT32 :: real where "ROOT32 = 3.7393792 / 10 ^ 7"
definition ROOT44 :: real where "ROOT44 = 7.3636953 / 10 ^ 9"
definition ROOT52 :: real where "ROOT52 = 1.1428639 / 10 ^ 7"
definition ROOT54 :: real where "ROOT54 = 2.1765803 / 10 ^ 9"
definition G22 :: real where "G22 = 5.7686396"
definition G32 :: real where "G32 = 0.95240898"
definition G44 :: real where "G44 = 1.8014998"
definition G52 :: real where "G52 = 1.0508330"
definition G54 :: real where "G54 = 4.4108898"
definition FASX2 :: real where "FASX2 = 0.13130908"
definition FASX4 :: real where "FASX4 = 2.8843198"
definition FASX6 :: real where "FASX6 = 0.37448087"
definition STEP :: real where "STEP = 720.0"
definition STEP2 :: real where "STEP2 = 259200.0"

text \<open>
  \<^verbatim>\<open>SGP4::DeepSpaceCalcDotTerms\<close> reads the object and writes its three reference
  parameters; the model returns them as \<open>(xndot, xnddt, xldot)\<close>.
\<close>

definition DeepSpaceCalcDotTerms :: "SGP4 \<Rightarrow> real \<times> real \<times> real" where
  "DeepSpaceCalcDotTerms s =
     (let r = resonance s;
          xli = d_xli (integ s);
          (xndot, xnddt) =
            (if d_synchronous_flag s then
               (d_del1 r * sin (xli - FASX2) +
                d_del2 r * sin (2.0 * (xli - FASX4)) +
                d_del3 r * sin (3.0 * (xli - FASX6)),
                d_del1 r * cos (xli - FASX2) + 2.0 *
                d_del2 r * cos (2.0 * (xli - FASX4)) + 3.0 *
                d_del3 r * cos (3.0 * (xli - FASX6)))
             else
               (let xomi = argument_perigee (elems s)
                           + i_omgdot (common s) * d_atime (integ s);
                    x2omi = xomi + xomi;
                    x2li = xli + xli
                in (d_d2201 r * sin (x2omi + xli - G22)
                    + d_d2211 r * sin (xli - G22)
                    + d_d3210 r * sin (xomi + xli - G32)
                    + d_d3222 r * sin (- xomi + xli - G32)
                    + d_d4410 r * sin (x2omi + x2li - G44)
                    + d_d4422 r * sin (x2li - G44)
                    + d_d5220 r * sin (xomi + xli - G52)
                    + d_d5232 r * sin (- xomi + xli - G52)
                    + d_d5421 r * sin (xomi + x2li - G54)
                    + d_d5433 r * sin (- xomi + x2li - G54),
                    d_d2201 r * cos (x2omi + xli - G22)
                    + d_d2211 r * cos (xli - G22)
                    + d_d3210 r * cos (xomi + xli - G32)
                    + d_d3222 r * cos (- xomi + xli - G32)
                    + d_d5220 r * cos (xomi + xli - G52)
                    + d_d5232 r * cos (- xomi + xli - G52)
                    + 2.0 * (d_d4410 r * cos (x2omi + x2li - G44)
                    + d_d4422 r * cos (x2li - G44)
                    + d_d5421 r * cos (xomi + x2li - G54)
                    + d_d5433 r * cos (- xomi + x2li - G54)))));
          xldot = d_xni (integ s) + d_xfact (integ s);
          xnddt = xnddt * xldot
      in (xndot, xnddt, xldot))"

text \<open>
  One pass of the two-pass loop of \<^verbatim>\<open>SGP4::DeepSpaceInitialize\<close> (source lines 689 to 757):
  the third-body terms for the geometry \<open>(zcosg, zsing, zcosi, zsini, zcosh, zsinh)\<close> and the
  constants \<open>(cc, zn, ze)\<close> of the perturbing body. What the loop body reads and no pass
  changes comes first: \<^verbatim>\<open>Eccentricity()\<close>, \<^verbatim>\<open>Inclination()\<close>, the parameters of the member
  function, and the locals \<open>sing\<close>, \<open>cosg\<close> and \<open>xnoi\<close> set before the loop. The first five results are the locals \<open>se, si, sl, sgh, shdq\<close>,
  the other twelve are what the pass stores in \<open>d_ee2 \<dots> d_xh3\<close>.
\<close>

record ds_terms =
  t_se :: real
  t_si :: real
  t_sl :: real
  t_sgh :: real
  t_shdq :: real
  t_ee2 :: real
  t_e3 :: real
  t_xi2 :: real
  t_xi3 :: real
  t_xl2 :: real
  t_xl3 :: real
  t_xl4 :: real
  t_xgh2 :: real
  t_xgh3 :: real
  t_xgh4 :: real
  t_xh2 :: real
  t_xh3 :: real

definition DeepSpaceInitialize_pass ::
  "real \<Rightarrow> real \<Rightarrow> real \<Rightarrow> real \<Rightarrow> real \<Rightarrow> real \<Rightarrow> real \<Rightarrow> real \<Rightarrow> real \<Rightarrow> real \<Rightarrow>
   real \<Rightarrow> real \<Rightarrow> real \<Rightarrow> real \<Rightarrow> real \<Rightarrow> real \<Rightarrow> real \<Rightarrow> real \<Rightarrow> real \<Rightarrow> ds_terms" where
  "DeepSpaceInitialize_pass eo xincl eosq sinio cosio betao betao2 sing cosg xnoi
     zcosg zsing zcosi zsini zcosh zsinh cc zn ze =
     (let a1 = zcosg * zcosh + zsing * zcosi * zsinh;
          a3 = - zsing * zcosh + zcosg * zcosi * zsinh;
          a7 = - zcosg * zsinh + zsing * zcosi * zcosh;
          a8 = zsing * zsini;
          a9 = zsing * zsinh + zcosg * zcosi * zcosh;
          a10 = zcosg * zsini;
          a2 = cosio * a7 + sinio * a8;
          a4 = cosio * a9 + sinio * a10;
          a5 = - sinio * a7 + cosio * a8;
          a6 = - sinio * a9 + cosio * a10;
          x1 = a1 * cosg + a2 * sing;
          x2 = a3 * cosg + a4 * sing;
          x3 = - a1 * sing + a2 * cosg;
          x4 = - a3 * sing + a4 * cosg;
          x5 = a5 * sing;
          x6 = a6 * sing;
          x7 = a5 * cosg;
          x8 = a6 * cosg;
          z31 = 12.0 * x1 * x1 - 3.0 * x3 * x3;
          z32 = 24.0 * x1 * x2 - 6.0 * x3 * x4;
          z33 = 12.0 * x2 * x2 - 3.0 * x4 * x4;
          z1 = 3.0 * (a1 * a1 + a2 * a2) + z31 * eosq;
          z2 = 6.0 * (a1 * a3 + a2 * a4) + z32 * eosq;
          z3 = 3.0 * (a3 * a3 + a4 * a4) + z33 * eosq;
          z11 = - 6.0 * a1 * a5 + eosq * (- 24.0 * x1 * x7 - 6.0 * x3 * x5);
          z12 = - 6.0 * (a1 * a6 + a3 * a5)
                + eosq * (- 24.0 * (x2 * x7 + x1 * x8) - 6.0 * (x3 * x6 + x4 * x5));
          z13 = - 6.0 * a3 * a6 + eosq * (- 24.0 * x2 * x8 - 6.0 * x4 * x6);
          z21 = 6.0 * a2 * a5 + eosq * (24.0 * x1 * x5 - 6.0 * x3 * x7);
          z22 = 6.0 * (a4 * a5 + a2 * a6)
                + eosq * (24.0 * (x2 * x5 + x1 * x6) - 6.0 * (x4 * x7 + x3 * x8));
          z23 = 6.0 * a4 * a6 + eosq * (24.0 * x2 * x6 - 6.0 * x4 * x8);
          z1 = z1 + z1 + betao2 * z31;
          z2 = z2 + z2 + betao2 * z32;
          z3 = z3 + z3 + betao2 * z33;
          s3 = cc * xnoi;
          s2 = - 0.5 * s3 / betao;
          s4 = s3 * betao;
          s1 = - 15.0 * eo * s4;
          s5 = x1 * x3 + x2 * x4;
          s6 = x2 * x3 + x1 * x4;
          s7 = x2 * x4 - x1 * x3;
          se = s1 * zn * s5;
          si = s2 * zn * (z11 + z13);
          sl = - zn * s3 * (z1 + z3 - 14.0 - 6.0 * eosq);
          sgh = s4 * zn * (z31 + z33 - 6.0);
          shdq = (if xincl < 5.2359877 / 10 ^ 2 \<or> xincl > PI - 5.2359877 / 10 ^ 2
                  then 0.0
                  else (- zn * s2 * (z21 + z23)) / sinio)
      in \<lparr>t_se = se, t_si = si, t_sl = sl, t_sgh = sgh, t_shdq = shdq,
          t_ee2 = 2.0 * s1 * s6,
          t_e3 = 2.0 * s1 * s7,
          t_xi2 = 2.0 * s2 * z12,
          t_xi3 = 2.0 * s2 * (z13 - z11),
          t_xl2 = - 2.0 * s3 * z2,
          t_xl3 = - 2.0 * s3 * (z3 - z1),
          t_xl4 = - 2.0 * s3 * (- 21.0 - 9.0 * eosq) * ze,
          t_xgh2 = 2.0 * s4 * z32,
          t_xgh3 = 2.0 * s4 * (z33 - z31),
          t_xgh4 = - 18.0 * s4 * ze,
          t_xh2 = - 2.0 * s2 * z22,
          t_xh3 = - 2.0 * s2 * (z23 - z21)\<rparr>)"

text \<open>What a pass stores in the members \<open>d_ee2 \<dots> d_xh3\<close> (source lines 746 to 757).\<close>

definition store_pass :: "ds_terms \<Rightarrow> LunarSolarPeriodic \<Rightarrow> LunarSolarPeriodic" where
  "store_pass r p =
     p\<lparr>d_ee2 := t_ee2 r, d_e3 := t_e3 r, d_xi2 := t_xi2 r, d_xi3 := t_xi3 r,
       d_xl2 := t_xl2 r, d_xl3 := t_xl3 r, d_xl4 := t_xl4 r,
       d_xgh2 := t_xgh2 r, d_xgh3 := t_xgh3 r, d_xgh4 := t_xgh4 r,
       d_xh2 := t_xh2 r, d_xh3 := t_xh3 r\<rparr>"

text \<open>
  The lunar and solar part of \<^verbatim>\<open>SGP4::DeepSpaceInitialize\<close> (source lines 639 to 796). The
  loop \<^verbatim>\<open>for (cnt = 0; cnt < 2; cnt++)\<close> leaves at \<^verbatim>\<open>cnt == 1\<close>, so it is its two passes:
  the solar one, the copy of its results into the solar members, the change to the lunar
  geometry, and the lunar one. The assignments to the periodic members and those to the
  secular members read nothing of each other; each group keeps the order of the source.
\<close>

definition lunar_solar_periodic ::
  "ds_terms \<Rightarrow> ds_terms \<Rightarrow> LunarSolarPeriodic \<Rightarrow> LunarSolarPeriodic" where
  "lunar_solar_periodic solar lunar p =
     (let p = store_pass solar p;
          p = p\<lparr>d_se2 := d_ee2 p, d_si2 := d_xi2 p, d_sl2 := d_xl2 p,
                d_sgh2 := d_xgh2 p, d_sh2 := d_xh2 p, d_se3 := d_e3 p,
                d_si3 := d_xi3 p, d_sl3 := d_xl3 p, d_sgh3 := d_xgh3 p,
                d_sh3 := d_xh3 p, d_sl4 := d_xl4 p, d_sgh4 := d_xgh4 p\<rparr>
      in store_pass lunar p)"

definition lunar_solar_secular ::
  "real \<Rightarrow> ds_terms \<Rightarrow> ds_terms \<Rightarrow> LunarSolarSecular \<Rightarrow> LunarSolarSecular" where
  "lunar_solar_secular cosio solar lunar c =
     (let c = c\<lparr>d_sse := t_se solar, d_ssi := t_si solar, d_ssl := t_sl solar,
                d_ssh := t_shdq solar\<rparr>;
          c = c\<lparr>d_ssg := t_sgh solar - cosio * d_ssh c\<rparr>
      in c\<lparr>d_sse := d_sse c + t_se lunar,
           d_ssi := d_ssi c + t_si lunar,
           d_ssl := d_ssl c + t_sl lunar,
           d_ssg := d_ssg c + (t_sgh lunar - cosio * t_shdq lunar),
           d_ssh := d_ssh c + t_shdq lunar\<rparr>)"

definition DeepSpaceInitialize_lunar_solar ::
  "real \<Rightarrow> real \<Rightarrow> real \<Rightarrow> real \<Rightarrow> real \<Rightarrow> SGP4 \<Rightarrow> SGP4" where
  "DeepSpaceInitialize_lunar_solar eosq sinio cosio betao betao2 s =
     (let el = elems s;
          sinq = sin (ascending_node el);
          cosq = cos (ascending_node el);
          sing = sin (argument_perigee el);
          cosg = cos (argument_perigee el);
          d_day = FromJan1_12h_1900 (epoch el);
          xnodce = 4.5236020 - 9.2422029 / 10 ^ 4 * d_day;
          xnodce_temp = fmod xnodce TWOPI;
          stem = sin xnodce_temp;
          ctem = cos xnodce_temp;
          zcosil = 0.91375164 - 0.03568096 * ctem;
          zsinil = sqrt (1.0 - zcosil * zcosil);
          zsinhl = 0.089683511 * stem / zsinil;
          zcoshl = sqrt (1.0 - zsinhl * zsinhl);
          c = 4.7199672 + 0.22997150 * d_day;
          gam = 5.8351514 + 0.0019443680 * d_day;
          zmol = Fmod2p (c - gam);
          zx = 0.39785416 * stem / zsinil;
          zy = zcoshl * ctem + 0.91744867 * zsinhl * stem;
          zx = atan2 zx zy;
          zx = fmod (gam + zx - xnodce) TWOPI;
          zcosgl = cos zx;
          zsingl = sin zx;
          zmos = Fmod2p (6.2565837 + 0.017201977 * d_day);
          xnoi = 1.0 / recovered_mean_motion el;
          solar = DeepSpaceInitialize_pass (eccentricity el) (inclination el)
                    eosq sinio cosio betao betao2 sing cosg xnoi
                    ZCOSGS ZSINGS ZCOSIS ZSINI cosq sinq C1SS ZNS ZES;
          lunar = DeepSpaceInitialize_pass (eccentricity el) (inclination el)
                    eosq sinio cosio betao betao2 sing cosg xnoi
                    zcosgl zsingl zcosil zsinil
                    (zcoshl * cosq + zsinhl * sinq) (sinq * zcoshl - cosq * zsinhl)
                    C1L ZNL ZEL
      in s\<lparr>d_zmol := zmol, d_zmos := zmos,
           secular := lunar_solar_secular cosio solar lunar (secular s),
           periodic := lunar_solar_periodic solar lunar (periodic s)\<rparr>)"

text \<open>
  The coefficients of the 24 hour synchronous resonance (source lines 811 to 821), assigned
  in the order of the source: \<open>d_del1\<close> is read by the next two assignments before it takes
  its final value.
\<close>

definition synchronous_terms ::
  "real \<Rightarrow> real \<Rightarrow> real \<Rightarrow> real \<Rightarrow> real \<Rightarrow> ResonanceConstants \<Rightarrow> ResonanceConstants" where
  "synchronous_terms eosq sinio cosio xnodp aqnv r =
     (let g200 = 1.0 + eosq * (- 2.5 + 0.8125 * eosq);
          g310 = 1.0 + 2.0 * eosq;
          g300 = 1.0 + eosq * (- 6.0 + 6.60937 * eosq);
          f220 = 0.75 * (1.0 + cosio) * (1.0 + cosio);
          f311 = 0.9375 * sinio * sinio * (1.0 + 3.0 * cosio) - 0.75 * (1.0 + cosio);
          f330 = 1.0 + cosio;
          f330 = 1.875 * f330 * f330 * f330;
          r = r\<lparr>d_del1 := 3.0 * xnodp * xnodp * aqnv * aqnv\<rparr>;
          r = r\<lparr>d_del2 := 2.0 * d_del1 r * f220 * g200 * Q22\<rparr>;
          r = r\<lparr>d_del3 := 3.0 * d_del1 r * f330 * g300 * Q33 * aqnv\<rparr>
      in r\<lparr>d_del1 := d_del1 r * f311 * g310 * Q31 * aqnv\<rparr>)"

text \<open>The coefficients of the 12 hour geopotential resonance (source lines 835 to 918).\<close>

definition geopotential_terms ::
  "real \<Rightarrow> real \<Rightarrow> real \<Rightarrow> real \<Rightarrow> real \<Rightarrow> real \<Rightarrow> real \<Rightarrow>
   ResonanceConstants \<Rightarrow> ResonanceConstants" where
  "geopotential_terms eo eosq sinio cosio theta2 xnodp aqnv r =
     (let eoc = eo * eosq;
          g201 = - 0.306 - (eo - 0.64) * 0.440;
          (g211, g310, g322, g410, g422, g520) =
            (if eo \<le> 0.65 then
               (3.616 - 13.247 * eo + 16.290 * eosq,
                - 19.302 + 117.390 * eo - 228.419 * eosq + 156.591 * eoc,
                - 18.9068 + 109.7927 * eo - 214.6334 * eosq + 146.5816 * eoc,
                - 41.122 + 242.694 * eo - 471.094 * eosq + 313.953 * eoc,
                - 146.407 + 841.880 * eo - 1629.014 * eosq + 1083.435 * eoc,
                - 532.114 + 3017.977 * eo - 5740.032 * eosq + 3708.276 * eoc)
             else
               (- 72.099 + 331.819 * eo - 508.738 * eosq + 266.724 * eoc,
                - 346.844 + 1582.851 * eo - 2415.925 * eosq + 1246.113 * eoc,
                - 342.585 + 1554.908 * eo - 2366.899 * eosq + 1215.972 * eoc,
                - 1052.797 + 4758.686 * eo - 7193.992 * eosq + 3651.957 * eoc,
                - 3581.69 + 16178.11 * eo - 24462.77 * eosq + 12422.52 * eoc,
                (if eo \<le> 0.715
                 then 1464.74 - 4664.75 * eo + 3763.64 * eosq
                 else - 5149.66 + 29936.92 * eo - 54087.36 * eosq + 31324.56 * eoc)));
          (g533, g521, g532) =
            (if eo < 0.7 then
               (- 919.2277 + 4988.61 * eo - 9064.77 * eosq + 5542.21 * eoc,
                - 822.71072 + 4568.6173 * eo - 8491.4146 * eosq + 5337.524 * eoc,
                - 853.666 + 4690.25 * eo - 8624.77 * eosq + 5341.4 * eoc)
             else
               (- 37995.78 + 161616.52 * eo - 229838.2 * eosq + 109377.94 * eoc,
                - 51752.104 + 218913.95 * eo - 309468.16 * eosq + 146349.42 * eoc,
                - 40023.88 + 170470.89 * eo - 242699.48 * eosq + 115605.82 * eoc));
          sini2 = sinio * sinio;
          f220 = 0.75 * (1.0 + 2.0 * cosio + theta2);
          f221 = 1.5 * sini2;
          f321 = 1.875 * sinio * (1.0 - 2.0 * cosio - 3.0 * theta2);
          f322 = - 1.875 * sinio * (1.0 + 2.0 * cosio - 3.0 * theta2);
          f441 = 35.0 * sini2 * f220;
          f442 = 39.3750 * sini2 * sini2;
          f522 = 9.84375 * sinio * (sini2 * (1.0 - 2.0 * cosio - 5.0 * theta2)
                 + 0.33333333 * (- 2.0 + 4.0 * cosio + 6.0 * theta2));
          f523 = sinio * (4.92187512 * sini2 * (- 2.0 - 4.0 * cosio + 10.0 * theta2)
                 + 6.56250012 * (1.0 + 2.0 * cosio - 3.0 * theta2));
          f542 = 29.53125 * sinio * (2.0 - 8.0 * cosio + theta2 *
                 (- 12.0 + 8.0 * cosio + 10.0 * theta2));
          f543 = 29.53125 * sinio * (- 2.0 - 8.0 * cosio + theta2 *
                 (12.0 + 8.0 * cosio - 10.0 * theta2));
          xno2 = xnodp * xnodp;
          ainv2 = aqnv * aqnv;
          temp1 = 3.0 * xno2 * ainv2;
          temp = temp1 * ROOT22;
          r = r\<lparr>d_d2201 := temp * f220 * g201, d_d2211 := temp * f221 * g211\<rparr>;
          temp1 = temp1 * aqnv;
          temp = temp1 * ROOT32;
          r = r\<lparr>d_d3210 := temp * f321 * g310, d_d3222 := temp * f322 * g322\<rparr>;
          temp1 = temp1 * aqnv;
          temp = 2.0 * temp1 * ROOT44;
          r = r\<lparr>d_d4410 := temp * f441 * g410, d_d4422 := temp * f442 * g422\<rparr>;
          temp1 = temp1 * aqnv;
          temp = temp1 * ROOT52;
          r = r\<lparr>d_d5220 := temp * f522 * g520, d_d5232 := temp * f523 * g532\<rparr>;
          temp = 2.0 * temp1 * ROOT54
      in r\<lparr>d_d5421 := temp * f542 * g521, d_d5433 := temp * f543 * g533\<rparr>)"

text \<open>
  The resonance part of \<^verbatim>\<open>SGP4::DeepSpaceInitialize\<close> (source lines 799 to 937): the two
  flags, the coefficients of the resonance found, and the start of the integrator. The
  local \<open>initialize_integrator\<close> is the third component of the triple the three branches
  give, the local \<open>bfact\<close> the second.
\<close>

definition DeepSpaceInitialize_resonance ::
  "real \<Rightarrow> real \<Rightarrow> real \<Rightarrow> real \<Rightarrow> real \<Rightarrow> real \<Rightarrow> real \<Rightarrow> SGP4 \<Rightarrow> SGP4" where
  "DeepSpaceInitialize_resonance eosq sinio cosio theta2 xmdot omgdot xnodot s =
     (let el = elems s;
          xnodp = recovered_mean_motion el;
          aqnv = 1.0 / recovered_semi_major_axis el;
          xpidot = omgdot + xnodot;
          s = s\<lparr>d_resonance_flag := False\<rparr>;
          s = s\<lparr>d_synchronous_flag := False\<rparr>;
          (s, bfact, initialize_integrator) =
            (if xnodp < 0.0052359877 \<and> xnodp > 0.0034906585 then
               (let s = s\<lparr>d_resonance_flag := True\<rparr>;
                    s = s\<lparr>d_synchronous_flag := True\<rparr>;
                    s = s\<lparr>resonance := synchronous_terms eosq sinio cosio xnodp aqnv
                                           (resonance s)\<rparr>;
                    s = s\<lparr>integ := (integ s)\<lparr>d_xlamo := mean_anomoly el + ascending_node el
                                                        + argument_perigee el - d_gsto s\<rparr>\<rparr>;
                    bfact = xmdot + xpidot - THDT;
                    bfact = bfact + (d_ssl (secular s) + d_ssg (secular s) + d_ssh (secular s))
                in (s, bfact, True))
             else if xnodp < 8.26 / 10 ^ 3 \<or> xnodp > 9.24 / 10 ^ 3 \<or> eccentricity el < 0.5
             then (s, 0.0, False)
             else
               (let s = s\<lparr>d_resonance_flag := True\<rparr>;
                    s = s\<lparr>resonance := geopotential_terms (eccentricity el) eosq sinio cosio
                                           theta2 xnodp aqnv (resonance s)\<rparr>;
                    s = s\<lparr>integ := (integ s)\<lparr>d_xlamo := mean_anomoly el + ascending_node el
                                                        + ascending_node el - d_gsto s - d_gsto s\<rparr>\<rparr>;
                    bfact = xmdot + xnodot + xnodot - THDT - THDT;
                    bfact = bfact + d_ssl (secular s) + d_ssh (secular s) + d_ssh (secular s)
                in (s, bfact, True)))
      in if initialize_integrator then
           (let s = s\<lparr>integ := (integ s)\<lparr>d_xfact := bfact - xnodp\<rparr>\<rparr>;
                s = s\<lparr>integ := (integ s)\<lparr>d_atime := 0.0\<rparr>\<rparr>;
                s = s\<lparr>integ := (integ s)\<lparr>d_xni := xnodp\<rparr>\<rparr>;
                s = s\<lparr>integ := (integ s)\<lparr>d_xli := d_xlamo (integ s)\<rparr>\<rparr>;
                (xndot, xnddt, xldot) = DeepSpaceCalcDotTerms s
            in s\<lparr>integ := (integ s)\<lparr>d_xndot_0 := xndot, d_xnddt_0 := xnddt,
                                       d_xldot_0 := xldot\<rparr>\<rparr>)
         else s)"

text \<open>\<^verbatim>\<open>SGP4::DeepSpaceInitialize\<close>: the two parts in turn.\<close>

definition DeepSpaceInitialize ::
  "real \<Rightarrow> real \<Rightarrow> real \<Rightarrow> real \<Rightarrow> real \<Rightarrow> real \<Rightarrow> real \<Rightarrow> real \<Rightarrow> real \<Rightarrow> SGP4 \<Rightarrow> SGP4" where
  "DeepSpaceInitialize eosq sinio cosio betao theta2 betao2 xmdot omgdot xnodot s =
     DeepSpaceInitialize_resonance eosq sinio cosio theta2 xmdot omgdot xnodot
       (DeepSpaceInitialize_lunar_solar eosq sinio cosio betao betao2 s)"

section \<open>Initialisation\<close>

text \<open>
  The locals \<open>s4\<close> and \<open>qoms24\<close> of \<^verbatim>\<open>SGP4::Initialize\<close> (source lines 138 to 147), as a
  function of the perigee altitude in kilometres.
\<close>

definition Initialize_s4_qoms24 :: "real \<Rightarrow> real \<times> real" where
  "Initialize_s4_qoms24 perigee_km =
     (let s4 = S;
          qoms24 = QOMS2T
      in if perigee_km < 156.0 then
           (let s4 = perigee_km - 78.0;
                s4 = (if perigee_km < 98.0 then 20.0 else s4);
                qoms24 = pow ((120.0 - s4) * AE / XKMPER) 4.0;
                s4 = s4 / XKMPER + AE
            in (s4, qoms24))
         else (s4, qoms24))"

text \<open>
  The constants of \<^verbatim>\<open>SGP4::Initialize\<close> that both models use (source lines 160 to 197),
  given the locals set before them. The block assigns members of \<open>CommonConstants\<close> only.
\<close>

definition Initialize_constants ::
  "real \<Rightarrow> real \<Rightarrow> real \<Rightarrow> real \<Rightarrow> real \<Rightarrow> real \<Rightarrow> real \<Rightarrow> real \<Rightarrow> real \<Rightarrow>
   Elements \<Rightarrow> CommonConstants \<Rightarrow> CommonConstants" where
  "Initialize_constants theta2 betao2 betao pinvsq tsi etasq eeta psisq coef1 el c =
     (let aodp = recovered_semi_major_axis el;
          xnodp = recovered_mean_motion el;
          c2 = coef1 * xnodp * (aodp *
                 (1.0 + 1.5 * etasq + eeta * (4.0 + etasq)) +
                 0.75 * CK2 * tsi / psisq *
                 i_x3thm1 c * (8.0 + 3.0 * etasq *
                 (8.0 + etasq)));
          c = c\<lparr>i_c1 := bstar el * c2\<rparr>;
          c = c\<lparr>i_a3ovk2 := - XJ3 / CK2 * pow AE 3.0\<rparr>;
          c = c\<lparr>i_x1mth2 := 1.0 - theta2\<rparr>;
          c = c\<lparr>i_c4 := 2.0 * xnodp * coef1 * aodp * betao2 *
                 (i_eta c * (2.0 + 0.5 * etasq) + eccentricity el * (0.5 + 2.0 * etasq) -
                 2.0 * CK2 * tsi / (aodp * psisq) *
                 (- 3.0 * i_x3thm1 c * (1.0 - 2.0 * eeta + etasq *
                 (1.5 - 0.5 * eeta)) + 0.75 * i_x1mth2 c * (2.0 * etasq - eeta *
                 (1.0 + etasq)) * cos (2.0 * argument_perigee el)))\<rparr>;
          theta4 = theta2 * theta2;
          temp1 = 3.0 * CK2 * pinvsq * xnodp;
          temp2 = temp1 * CK2 * pinvsq;
          temp3 = 1.25 * CK4 * pinvsq * pinvsq * xnodp;
          c = c\<lparr>i_xmdot := xnodp + 0.5 * temp1 * betao *
                 i_x3thm1 c + 0.0625 * temp2 * betao *
                 (13.0 - 78.0 * theta2 + 137.0 * theta4)\<rparr>;
          x1m5th = 1.0 - 5.0 * theta2;
          c = c\<lparr>i_omgdot := - 0.5 * temp1 * x1m5th +
                 0.0625 * temp2 * (7.0 - 114.0 * theta2 + 395.0 * theta4) +
                 temp3 * (3.0 - 36.0 * theta2 + 49.0 * theta4)\<rparr>;
          xhdot1 = - temp1 * i_cosio c;
          c = c\<lparr>i_xnodot := xhdot1 + (0.5 * temp2 * (4.0 - 19.0 * theta2) + 2.0 * temp3 *
                 (3.0 - 7.0 * theta2)) * i_cosio c\<rparr>;
          c = c\<lparr>i_xnodcf := 3.5 * betao2 * xhdot1 * i_c1 c\<rparr>;
          c = c\<lparr>i_t2cof := 1.5 * i_c1 c\<rparr>;
          c = (if \<bar>i_cosio c + 1.0\<bar> > 1.5 / 10 ^ 12
               then c\<lparr>i_xlcof := 0.125 * i_a3ovk2 c * i_sinio c * (3.0 + 5.0 * i_cosio c)
                                   / (1.0 + i_cosio c)\<rparr>
               else c\<lparr>i_xlcof := 0.125 * i_a3ovk2 c * i_sinio c * (3.0 + 5.0 * i_cosio c)
                                   / (1.5 / 10 ^ 12)\<rparr>);
          c = c\<lparr>i_aycof := 0.25 * i_a3ovk2 c * i_sinio c\<rparr>
      in c\<lparr>i_x7thm1 := 7.0 * theta2 - 1.0\<rparr>)"

text \<open>
  The constants of the near-space model alone (source lines 209 to 239), the \<^verbatim>\<open>else\<close>
  branch of \<^verbatim>\<open>if (i_use_deep_space_)\<close>. The block assigns members of \<open>NearSpaceConstants\<close>
  only; \<open>simple\<close> is the member \<open>i_use_simple_model\<close>.
\<close>

definition Initialize_near_space ::
  "real \<Rightarrow> real \<Rightarrow> real \<Rightarrow> real \<Rightarrow> real \<Rightarrow> real \<Rightarrow> real \<Rightarrow> bool \<Rightarrow>
   Elements \<Rightarrow> CommonConstants \<Rightarrow> NearSpaceConstants \<Rightarrow> NearSpaceConstants" where
  "Initialize_near_space betao2 s4 tsi etasq eeta coef coef1 simple el c n =
     (let aodp = recovered_semi_major_axis el;
          xnodp = recovered_mean_motion el;
          c3 = (if eccentricity el > 1.0 / 10 ^ 4
                then coef * tsi * i_a3ovk2 c * xnodp * AE *
                     i_sinio c / eccentricity el
                else 0.0);
          n = n\<lparr>n_c5 := 2.0 * coef1 * aodp * betao2 * (1.0 + 2.75 *
                          (etasq + eeta) + eeta * etasq)\<rparr>;
          n = n\<lparr>n_omgcof := bstar el * c3 * cos (argument_perigee el)\<rparr>;
          n = n\<lparr>n_xmcof := 0.0\<rparr>;
          n = (if eccentricity el > 1.0 / 10 ^ 4
               then n\<lparr>n_xmcof := - TWOTHIRD * coef * bstar el * AE / eeta\<rparr>
               else n);
          n = n\<lparr>n_delmo := pow (1.0 + i_eta c * (cos (mean_anomoly el))) 3.0\<rparr>;
          n = n\<lparr>n_sinmo := sin (mean_anomoly el)\<rparr>
      in if \<not> simple then
           (let c1sq = i_c1 c * i_c1 c;
                n = n\<lparr>n_d2 := 4.0 * aodp * tsi * c1sq\<rparr>;
                temp = n_d2 n * tsi * i_c1 c / 3.0;
                n = n\<lparr>n_d3 := (17.0 * aodp + s4) * temp\<rparr>;
                n = n\<lparr>n_d4 := 0.5 * temp * aodp *
                                tsi * (221.0 * aodp + 31.0 * s4) * i_c1 c\<rparr>;
                n = n\<lparr>n_t3cof := n_d2 n + 2.0 * c1sq\<rparr>;
                n = n\<lparr>n_t4cof := 0.25 * (3.0 * n_d3 n + i_c1 c *
                                   (12.0 * n_d2 n + 10.0 * c1sq))\<rparr>
            in n\<lparr>n_t5cof := 0.2 * (3.0 * n_d4 n + 12.0 * i_c1 c *
                                   n_d3 n + 6.0 * n_d2 n * n_d2 n + 15.0 *
                                   c1sq * (2.0 * n_d2 n + c1sq))\<rparr>)
         else n)"

text \<open>
  \<^verbatim>\<open>SGP4::Initialize\<close>: the choice of the model, the locals \<open>s4 \<dots> coef1\<close> (source lines 138
  to 159), the two blocks above, and the deep-space initialisation. The date of the epoch
  answers \<^verbatim>\<open>ToGreenwichSiderealTime\<close> with the value the element set carries for it.
\<close>

definition Initialize :: "real \<Rightarrow> real \<Rightarrow> real \<Rightarrow> real \<Rightarrow> SGP4 \<Rightarrow> SGP4" where
  "Initialize theta2 betao2 betao eosq s =
     (let el = elems s;
          s = (if period el \<ge> 225.0 then s\<lparr>i_use_deep_space := True\<rparr>
               else (let s = s\<lparr>i_use_deep_space := False\<rparr>;
                         s = s\<lparr>i_use_simple_model := False\<rparr>
                     in if perigee el < 220.0 then s\<lparr>i_use_simple_model := True\<rparr> else s));
          (s4, qoms24) = Initialize_s4_qoms24 (perigee el);
          pinvsq = 1.0 / (recovered_semi_major_axis el * recovered_semi_major_axis el
                          * betao2 * betao2);
          tsi = 1.0 / (recovered_semi_major_axis el - s4);
          s = s\<lparr>common := (common s)\<lparr>i_eta := recovered_semi_major_axis el
                                                  * eccentricity el * tsi\<rparr>\<rparr>;
          etasq = i_eta (common s) * i_eta (common s);
          eeta = eccentricity el * i_eta (common s);
          psisq = \<bar>1.0 - etasq\<bar>;
          coef = qoms24 * pow tsi 4.0;
          coef1 = coef / pow psisq 3.5;
          s = s\<lparr>common := Initialize_constants theta2 betao2 betao pinvsq tsi etasq eeta
                               psisq coef1 el (common s)\<rparr>;
          s = (if i_use_deep_space s then
                 (let s = s\<lparr>d_gsto := ToGreenwichSiderealTime (epoch el)\<rparr>
                  in DeepSpaceInitialize eosq (i_sinio (common s)) (i_cosio (common s)) betao
                       theta2 betao2
                       (i_xmdot (common s)) (i_omgdot (common s)) (i_xnodot (common s)) s)
               else
                 s\<lparr>near := Initialize_near_space betao2 s4 tsi etasq eeta coef coef1
                              (i_use_simple_model s) el (common s) (near s)\<rparr>)
      in s\<lparr>first_run := False\<rparr>)"

section \<open>Taking in an element set\<close>

text \<open>
  \<^verbatim>\<open>SGP4::SetTle\<close>. The two error checks throw; the model returns \<open>Inl\<close> of the exception
  there and \<open>Inr\<close> of the initialised object otherwise.
\<close>

definition SetTle :: "Tle \<Rightarrow> SatelliteException + SGP4" where
  "SetTle tle =
     (let s = ResetGlobalVariables;
          s = s\<lparr>elems := (elems s)
                  \<lparr>mean_anomoly := MeanAnomaly tle,
                   ascending_node := RightAscendingNode tle,
                   argument_perigee := ArgumentPerigee tle,
                   eccentricity := Eccentricity tle,
                   inclination := Inclination tle,
                   mean_motion := MeanMotion tle * TWOPI / MIN_PER_DAY,
                   bstar := BStar tle,
                   epoch := Epoch tle\<rparr>\<rparr>;
          eo = eccentricity (elems s);
          xincl = inclination (elems s)
      in if eo < 0.0 \<or> eo > 1.0 - 1.0 / 10 ^ 3 then
           Inl (SatelliteException ''Eccentricity out of range'')
         else if xincl < 0.0 \<or> eo > PI then
           Inl (SatelliteException ''Inclination out of range'')
         else
           (let a1 = pow (XKE / mean_motion (elems s)) TWOTHIRD;
                s = s\<lparr>common := (common s)\<lparr>i_cosio := cos xincl\<rparr>\<rparr>;
                s = s\<lparr>common := (common s)\<lparr>i_sinio := sin xincl\<rparr>\<rparr>;
                theta2 = i_cosio (common s) * i_cosio (common s);
                s = s\<lparr>common := (common s)\<lparr>i_x3thm1 := 3.0 * theta2 - 1.0\<rparr>\<rparr>;
                eosq = eo * eo;
                betao2 = 1.0 - eosq;
                betao = sqrt betao2;
                temp = (1.5 * CK2) * i_x3thm1 (common s) / (betao * betao2);
                del1 = temp / (a1 * a1);
                a0 = a1 * (1.0 - del1 * (1.0 / 3.0 + del1 * (1.0 + del1 * 134.0 / 81.0)));
                del0 = temp / (a0 * a0);
                s = s\<lparr>elems := (elems s)\<lparr>recovered_mean_motion :=
                                              mean_motion (elems s) / (1.0 + del0)\<rparr>\<rparr>;
                s = s\<lparr>elems := (elems s)\<lparr>recovered_semi_major_axis := a0 / (1.0 - del0)\<rparr>\<rparr>;
                s = s\<lparr>elems := (elems s)\<lparr>perigee :=
                                              (recovered_semi_major_axis (elems s) * (1.0 - eo) - AE)
                                              * XKMPER\<rparr>\<rparr>;
                s = s\<lparr>elems := (elems s)\<lparr>period := TWOPI / recovered_mean_motion (elems s)\<rparr>\<rparr>
            in Inr (Initialize theta2 betao2 betao eosq s)))"

section \<open>Deep-space secular effects and the resonance integrator\<close>

text \<open>
  \<^verbatim>\<open>SGP4::DeepSpaceIntegrator\<close>: one step of the integrator, of \<open>delt\<close> minutes. The members
  are real numbers here, so the sums are exact; in the source they are doubles, and
  \<^verbatim>\<open>d_atime_ += delt\<close> with a step of 720 is exact only while \<open>d_atime_\<close> is below \<open>2\<^sup>5\<^sup>7\<close>.
\<close>

definition DeepSpaceIntegrator :: "real \<Rightarrow> real \<Rightarrow> real \<Rightarrow> real \<Rightarrow> real \<Rightarrow> SGP4 \<Rightarrow> SGP4" where
  "DeepSpaceIntegrator delt step2 xndot xnddt xldot s =
     (let s = s\<lparr>integ := (integ s)\<lparr>d_xli := d_xli (integ s) + (xldot * delt + xndot * step2)\<rparr>\<rparr>;
          s = s\<lparr>integ := (integ s)\<lparr>d_xni := d_xni (integ s) + (xndot * delt + xnddt * step2)\<rparr>\<rparr>
      in s\<lparr>integ := (integ s)\<lparr>d_atime := d_atime (integ s) + delt\<rparr>\<rparr>)"

text \<open>
  The body of the \<^verbatim>\<open>do \<dots> while\<close> loop of \<^verbatim>\<open>SGP4::DeepSpaceSecular\<close> (source lines 1146 to
  1151): a step with the current dot terms, then the dot terms for the next step, written
  to \<open>d_xndot_t\<close>, \<open>d_xnddt_t\<close> and \<open>d_xldot_t\<close>.
\<close>

definition DeepSpaceSecular_step :: "real \<Rightarrow> SGP4 \<Rightarrow> SGP4" where
  "DeepSpaceSecular_step delt s =
     (let s = DeepSpaceIntegrator delt STEP2
                (d_xndot_t (integ s)) (d_xnddt_t (integ s)) (d_xldot_t (integ s)) s;
          (xndot, xnddt, xldot) = DeepSpaceCalcDotTerms s
      in s\<lparr>integ := (integ s)\<lparr>d_xndot_t := xndot, d_xnddt_t := xnddt,
                                 d_xldot_t := xldot\<rparr>\<rparr>)"

text \<open>
  The loop itself (source lines 1142 to 1154). The step \<open>delt\<close> is fixed before the loop, and
  the loop ends when \<open>d_atime\<close> is within one step of \<open>t\<close>; for a step that does not lead
  there it does not end, and the model then has no result.
\<close>

partial_function (option) DeepSpaceSecular_loop :: "real \<Rightarrow> real \<Rightarrow> SGP4 \<Rightarrow> SGP4 option" where
  "DeepSpaceSecular_loop t delt s =
     (let s = DeepSpaceSecular_step delt s
      in if \<bar>t - d_atime (integ s)\<bar> \<ge> STEP then DeepSpaceSecular_loop t delt s else Some s)"

text \<open>The restart of the integrator from the epoch (source lines 1114 to 1123).\<close>

definition DeepSpaceSecular_restart :: "SGP4 \<Rightarrow> SGP4" where
  "DeepSpaceSecular_restart s =
     (let s = s\<lparr>integ := (integ s)\<lparr>d_atime := 0.0\<rparr>\<rparr>;
          s = s\<lparr>integ := (integ s)\<lparr>d_xni := recovered_mean_motion (elems s)\<rparr>\<rparr>;
          s = s\<lparr>integ := (integ s)\<lparr>d_xli := d_xlamo (integ s)\<rparr>\<rparr>;
          s = s\<lparr>integ := (integ s)\<lparr>d_xndot_t := d_xndot_0 (integ s)\<rparr>\<rparr>;
          s = s\<lparr>integ := (integ s)\<lparr>d_xnddt_t := d_xnddt_0 (integ s)\<rparr>\<rparr>
      in s\<lparr>integ := (integ s)\<lparr>d_xldot_t := d_xldot_0 (integ s)\<rparr>\<rparr>)"

text \<open>
  The integrator part of \<^verbatim>\<open>SGP4::DeepSpaceSecular\<close> (source lines 1108 to 1155): the restart
  when one of its three conditions holds, then the loop when \<open>t\<close> is a step or more away.
\<close>

definition DeepSpaceSecular_integrate :: "real \<Rightarrow> SGP4 \<Rightarrow> SGP4 option" where
  "DeepSpaceSecular_integrate t s =
     (let s = (if \<bar>t\<bar> < STEP \<or>
                  t * d_atime (integ s) \<le> 0.0 \<or>
                  \<bar>t\<bar> < \<bar>d_atime (integ s)\<bar>
               then DeepSpaceSecular_restart s
               else s);
          ft = t - d_atime (integ s)
      in if \<bar>ft\<bar> \<ge> STEP then
           (let delt = - STEP;
                delt = (if ft \<ge> 0.0 then STEP else delt)
            in DeepSpaceSecular_loop t delt s)
         else Some s)"

text \<open>
  \<^verbatim>\<open>SGP4::DeepSpaceSecular\<close>. The six reference parameters after \<open>t\<close> are arguments and come
  back, with the object, as the result.
\<close>

definition DeepSpaceSecular ::
  "real \<Rightarrow> real \<Rightarrow> real \<Rightarrow> real \<Rightarrow> real \<Rightarrow> real \<Rightarrow> real \<Rightarrow> SGP4 \<Rightarrow>
   (SGP4 \<times> real \<times> real \<times> real \<times> real \<times> real \<times> real) option" where
  "DeepSpaceSecular t xll omgasm xnodes em xinc xn s =
     (let xll = xll + d_ssl (secular s) * t;
          omgasm = omgasm + d_ssg (secular s) * t;
          xnodes = xnodes + d_ssh (secular s) * t;
          em = em + d_sse (secular s) * t;
          xinc = xinc + d_ssi (secular s) * t
      in if \<not> d_resonance_flag s then Some (s, xll, omgasm, xnodes, em, xinc, xn)
         else
           (case DeepSpaceSecular_integrate t s of
              None \<Rightarrow> None
            | Some s \<Rightarrow>
                (let ft = t - d_atime (integ s);
                     xn = d_xni (integ s) + d_xndot_t (integ s) * ft
                          + d_xnddt_t (integ s) * ft * ft * 0.5;
                     xl = d_xli (integ s) + d_xldot_t (integ s) * ft
                          + d_xndot_t (integ s) * ft * ft * 0.5;
                     temp = - xnodes + d_gsto s + t * THDT;
                     xll = (if d_synchronous_flag s then xl + temp - omgasm
                            else xl + temp + temp)
                 in Some (s, xll, omgasm, xnodes, em, xinc, xn))))"

section \<open>Deep-space periodics\<close>

text \<open>
  The mean anomaly of the sun and of the moon at the time \<open>t\<close> that
  \<^verbatim>\<open>SGP4::DeepSpaceCalculateLunarSolarTerms\<close> starts from (source lines 951 to 953 and 967 to
  969).
\<close>

definition solar_argument :: "real \<Rightarrow> SGP4 \<Rightarrow> real" where
  "solar_argument t s =
     (let zm = d_zmos s + ZNS * t
      in if first_run s then d_zmos s else zm)"

definition lunar_argument :: "real \<Rightarrow> SGP4 \<Rightarrow> real" where
  "lunar_argument t s =
     (let zm = d_zmol s + ZNL * t
      in if first_run s then d_zmol s else zm)"

text \<open>
  \<^verbatim>\<open>SGP4::DeepSpaceCalculateLunarSolarTerms\<close>; the result is \<open>(pe, pinc, pl, pgh, ph)\<close>.
\<close>

definition DeepSpaceCalculateLunarSolarTerms ::
  "real \<Rightarrow> SGP4 \<Rightarrow> real \<times> real \<times> real \<times> real \<times> real" where
  "DeepSpaceCalculateLunarSolarTerms t s =
     (let p = periodic s;
          zm = solar_argument t s;
          zf = zm + 2.0 * ZES * sin zm;
          sinzf = sin zf;
          f2 = 0.5 * sinzf * sinzf - 0.25;
          f3 = - 0.5 * sinzf * cos zf;
          ses = d_se2 p * f2 + d_se3 p * f3;
          sis = d_si2 p * f2 + d_si3 p * f3;
          sls = d_sl2 p * f2 + d_sl3 p * f3 + d_sl4 p * sinzf;
          sghs = d_sgh2 p * f2 + d_sgh3 p * f3 + d_sgh4 p * sinzf;
          shs = d_sh2 p * f2 + d_sh3 p * f3;
          zm = lunar_argument t s;
          zf = zm + 2.0 * ZEL * sin zm;
          sinzf = sin zf;
          f2 = 0.5 * sinzf * sinzf - 0.25;
          f3 = - 0.5 * sinzf * cos zf;
          sel = d_ee2 p * f2 + d_e3 p * f3;
          sil = d_xi2 p * f2 + d_xi3 p * f3;
          sll = d_xl2 p * f2 + d_xl3 p * f3 + d_xl4 p * sinzf;
          sghl = d_xgh2 p * f2 + d_xgh3 p * f3 + d_xgh4 p * sinzf;
          shl = d_xh2 p * f2 + d_xh3 p * f3;
          pe = ses + sel;
          pinc = sis + sil;
          pl = sls + sll;
          pgh = sghs + sghl;
          ph = shs + shl
      in (pe, pinc, pl, pgh, ph))"

text \<open>
  \<^verbatim>\<open>SGP4::DeepSpacePeriodics\<close>. The five reference parameters after \<open>t\<close> are arguments and
  come back as the result \<open>(em, xinc, omgasm, xnodes, xll)\<close>.
\<close>

definition DeepSpacePeriodics ::
  "real \<Rightarrow> real \<Rightarrow> real \<Rightarrow> real \<Rightarrow> real \<Rightarrow> real \<Rightarrow> SGP4 \<Rightarrow>
   real \<times> real \<times> real \<times> real \<times> real" where
  "DeepSpacePeriodics t em xinc omgasm xnodes xll s =
     (let (pe, pinc, pl, pgh, ph) = DeepSpaceCalculateLunarSolarTerms t s
      in if \<not> first_run s then
           (let xinc = xinc + pinc;
                em = em + pe;
                sinis = sin xinc;
                cosis = cos xinc
            in if xinc \<ge> 0.2 then
                 (let tmp_ph = ph / sinis;
                      omgasm = omgasm + (pgh - cosis * tmp_ph);
                      xnodes = xnodes + tmp_ph;
                      xll = xll + pl
                  in (em, xinc, omgasm, xnodes, xll))
               else
                 (let sinok = sin xnodes;
                      cosok = cos xnodes;
                      alfdp = sinis * sinok;
                      betdp = sinis * cosok;
                      dalf = ph * cosok + pinc * cosis * sinok;
                      dbet = - ph * sinok + pinc * cosis * cosok;
                      alfdp = alfdp + dalf;
                      betdp = betdp + dbet;
                      xnodes = fmod xnodes TWOPI;
                      xnodes = (if xnodes < 0.0 then xnodes + TWOPI else xnodes);
                      xls = xll + omgasm + cosis * xnodes;
                      dls = pl + pgh - pinc * xnodes * sinis;
                      xls = xls + dls;
                      oldxnodes = xnodes;
                      xnodes = atan2 alfdp betdp;
                      xnodes = (if xnodes < 0.0 then xnodes + TWOPI else xnodes);
                      xnodes = (if \<bar>oldxnodes - xnodes\<bar> > PI
                                then (if xnodes < oldxnodes then xnodes + TWOPI
                                      else xnodes - TWOPI)
                                else xnodes);
                      xll = xll + pl;
                      omgasm = xls - xll - cosis * xnodes
                  in (em, xinc, omgasm, xnodes, xll)))
         else (em, xinc, omgasm, xnodes, xll))"

section \<open>Kepler's equation and the final position and velocity\<close>

text \<open>
  The variables of the Newton-Raphson loop of \<^verbatim>\<open>SGP4::CalculateFinalPositionVelocity\<close> that
  live across its iterations.
\<close>

record kepler =
  epw :: real
  sinepw :: real
  cosepw :: real
  ecose :: real
  esine :: real
  kepler_running :: bool

text \<open>The body of the loop (source lines 496 to 529), for the loop counter \<open>i\<close>.\<close>

definition kepler_iteration :: "real \<Rightarrow> real \<Rightarrow> real \<Rightarrow> real \<Rightarrow> nat \<Rightarrow> kepler \<Rightarrow> kepler" where
  "kepler_iteration capu axn ayn max_newton_naphson i k =
     (let k = k\<lparr>sinepw := sin (epw k)\<rparr>;
          k = k\<lparr>cosepw := cos (epw k)\<rparr>;
          k = k\<lparr>ecose := axn * cosepw k + ayn * sinepw k\<rparr>;
          k = k\<lparr>esine := axn * sinepw k - ayn * cosepw k\<rparr>;
          f = capu - epw k + esine k
      in if \<bar>f\<bar> < 1.0 / 10 ^ 12 then k\<lparr>kepler_running := False\<rparr>
         else
           (let fdot = 1.0 - ecose k;
                delta_epw = f / fdot;
                delta_epw =
                  (if i = 0 then
                     (if delta_epw > max_newton_naphson then max_newton_naphson
                      else if delta_epw < - max_newton_naphson then - max_newton_naphson
                      else delta_epw)
                   else f / (fdot + 0.5 * esine k * delta_epw))
            in k\<lparr>epw := epw k + delta_epw\<rparr>))"

text \<open>
  The loop \<^verbatim>\<open>for (int i = 0; i < 10 && kepler_running; i++)\<close>, from the counter \<open>i\<close> on. The
  result is the counter and the variables at the exit.
\<close>

function kepler_loop ::
  "real \<Rightarrow> real \<Rightarrow> real \<Rightarrow> real \<Rightarrow> nat \<Rightarrow> kepler \<Rightarrow> nat \<times> kepler" where
  "kepler_loop capu axn ayn max_newton_naphson i k =
     (if i < 10 \<and> kepler_running k
      then kepler_loop capu axn ayn max_newton_naphson (i + 1)
             (kepler_iteration capu axn ayn max_newton_naphson i k)
      else (i, k))"
  by pat_completeness auto
termination
  by (relation "measure (\<lambda>(capu, axn, ayn, max_newton_naphson, i, k). 10 - i)") auto

text \<open>The variables of the loop at its start (source lines 481 to 493).\<close>

definition kepler_start :: "real \<Rightarrow> kepler" where
  "kepler_start capu =
     \<lparr>epw = capu, sinepw = 0.0, cosepw = 0.0, ecose = 0.0, esine = 0.0,
      kepler_running = True\<rparr>"

text \<open>
  \<^verbatim>\<open>SGP4::CalculateFinalPositionVelocity\<close>. The result \<open>eci\<close> is returned; its date is the
  epoch of the object with \<open>tsince\<close> minutes added.
\<close>

definition CalculateFinalPositionVelocity ::
  "SGP4 \<Rightarrow> real \<Rightarrow> real \<Rightarrow> real \<Rightarrow> real \<Rightarrow> real \<Rightarrow> real \<Rightarrow> real \<Rightarrow> real \<Rightarrow> real \<Rightarrow>
   real \<Rightarrow> real \<Rightarrow> real \<Rightarrow> real \<Rightarrow> real \<Rightarrow> SatelliteException + Eci" where
  "CalculateFinalPositionVelocity s tsince e a omega xl xnode xincl xlcof aycof
     x3thm1 x1mth2 x7thm1 cosio sinio =
     (let beta = sqrt (1.0 - e * e);
          xn = XKE / pow a 1.5;
          axn = e * cos omega;
          temp = 1.0 / (a * beta * beta);
          xll = temp * xlcof * axn;
          aynl = temp * aycof;
          xlt = xl + xll;
          ayn = e * sin omega + aynl;
          elsq = axn * axn + ayn * ayn;
          capu = fmod (xlt - xnode) TWOPI;
          max_newton_naphson = 1.25 * \<bar>sqrt elsq\<bar>;
          (i, k) = kepler_loop capu axn ayn max_newton_naphson 0 (kepler_start capu);
          temp = 1.0 - elsq;
          pl = a * temp
      in if pl < 0.0 then Inl (SatelliteException ''Error: #4 (pl < 0.0)'')
         else
           (let r = a * (1.0 - ecose k);
                temp1 = 1.0 / r;
                rdot = XKE * sqrt a * esine k * temp1;
                rfdot = XKE * sqrt pl * temp1;
                temp2 = a * temp1;
                betal = sqrt temp;
                temp3 = 1.0 / (1.0 + betal);
                cosu = temp2 * (cosepw k - axn + ayn * esine k * temp3);
                sinu = temp2 * (sinepw k - ayn - axn * esine k * temp3);
                u = atan2 sinu cosu;
                sin2u = 2.0 * sinu * cosu;
                cos2u = 2.0 * cosu * cosu - 1.0;
                temp = 1.0 / pl;
                temp1 = CK2 * temp;
                temp2 = temp1 * temp;
                rk = r * (1.0 - 1.5 * temp2 * betal * x3thm1) + 0.5 * temp1 * x1mth2 * cos2u;
                uk = u - 0.25 * temp2 * x7thm1 * sin2u;
                xnodek = xnode + 1.5 * temp2 * cosio * sin2u;
                xinck = xincl + 1.5 * temp2 * cosio * sinio * cos2u;
                rdotk = rdot - xn * temp1 * x1mth2 * sin2u;
                rfdotk = rfdot + xn * temp1 * (x1mth2 * cos2u + 1.5 * x3thm1)
            in if rk < 1.0 then
                 Inl (SatelliteException ''Error: #6 Satellite decayed (rk < 1.0)'')
               else
                 (let sinuk = sin uk;
                      cosuk = cos uk;
                      sinik = sin xinck;
                      cosik = cos xinck;
                      sinnok = sin xnodek;
                      cosnok = cos xnodek;
                      xmx = - sinnok * cosik;
                      xmy = cosnok * cosik;
                      ux = xmx * sinuk + cosnok * cosuk;
                      uy = xmy * sinuk + sinnok * cosuk;
                      uz = sinik * sinuk;
                      vx = xmx * cosuk - cosnok * sinuk;
                      vy = xmy * cosuk - sinnok * sinuk;
                      vz = sinik * cosuk;
                      x = rk * ux * XKMPER;
                      y = rk * uy * XKMPER;
                      z = rk * uz * XKMPER;
                      position = \<lparr>vec_x = x, vec_y = y, vec_z = z\<rparr>;
                      xdot = (rdotk * ux + rfdotk * vx) * XKMPER / 60.0;
                      ydot = (rdotk * uy + rfdotk * vy) * XKMPER / 60.0;
                      zdot = (rdotk * uz + rfdotk * vz) * XKMPER / 60.0;
                      velocity = \<lparr>vec_x = xdot, vec_y = ydot, vec_z = zdot\<rparr>
                  in Inr \<lparr>eci_epoch = epoch (elems s), eci_minutes = tsince,
                          eci_position = position, eci_velocity = velocity\<rparr>)))"

section \<open>Propagation\<close>

text \<open>
  The update for secular gravity and atmospheric drag of \<^verbatim>\<open>SGP4::FindPositionSGP4\<close> (source
  lines 386 to 418); the result is \<open>(a, e, omega, xl, xnode, xincl)\<close>.
\<close>

definition FindPositionSGP4_secular ::
  "SGP4 \<Rightarrow> real \<Rightarrow> real \<times> real \<times> real \<times> real \<times> real \<times> real" where
  "FindPositionSGP4_secular s tsince =
     (let el = elems s;
          c = common s;
          n = near s;
          xmdf = mean_anomoly el + i_xmdot c * tsince;
          omgadf = argument_perigee el + i_omgdot c * tsince;
          xnoddf = ascending_node el + i_xnodot c * tsince;
          tsq = tsince * tsince;
          xnode = xnoddf + i_xnodcf c * tsq;
          tempa = 1.0 - i_c1 c * tsince;
          tempe = bstar el * i_c4 c * tsince;
          templ = i_t2cof c * tsq;
          xincl = inclination el;
          omega = omgadf;
          xmp = xmdf;
          (xmp, omega, tempa, tempe, templ) =
            (if \<not> i_use_simple_model s then
               (let delomg = n_omgcof n * tsince;
                    delm = n_xmcof n * (pow (1.0 + i_eta c * cos xmdf) 3.0 - n_delmo n);
                    temp = delomg + delm;
                    xmp = xmp + temp;
                    omega = omega - temp;
                    tcube = tsq * tsince;
                    tfour = tsince * tcube;
                    tempa = tempa - n_d2 n * tsq - n_d3 n * tcube - n_d4 n * tfour;
                    tempe = tempe + bstar el * n_c5 n * (sin xmp - n_sinmo n);
                    templ = templ + (n_t3cof n * tcube + tfour * (n_t4cof n + tsince * n_t5cof n))
                in (xmp, omega, tempa, tempe, templ))
             else (xmp, omega, tempa, tempe, templ));
          a = recovered_semi_major_axis el * pow tempa 2.0;
          e = eccentricity el - tempe;
          xl = xmp + omega + xnode + recovered_mean_motion el * templ
      in (a, e, omega, xl, xnode, xincl))"

text \<open>\<^verbatim>\<open>SGP4::FindPositionSGP4\<close>. It changes no member.\<close>

definition FindPositionSGP4 :: "SGP4 \<Rightarrow> real \<Rightarrow> SatelliteException + Eci" where
  "FindPositionSGP4 s tsince =
     (let (a, e, omega, xl, xnode, xincl) = FindPositionSGP4_secular s tsince
      in if xl \<le> 0.0 then Inl (SatelliteException ''Error: #2 (xl <= 0.0)'')
         else if e \<ge> 1.0 \<or> e < - 0.001 then
           Inl (SatelliteException ''Error: #1 (e >= 1.0 || e < -0.001)'')
         else
           (let e = (if e < 1.0 / 10 ^ 6 then 1.0 / 10 ^ 6 else e)
            in CalculateFinalPositionVelocity s tsince e
                 a omega xl xnode
                 xincl (i_xlcof (common s)) (i_aycof (common s))
                 (i_x3thm1 (common s)) (i_x1mth2 (common s)) (i_x7thm1 (common s))
                 (i_cosio (common s)) (i_sinio (common s))))"

text \<open>
  The second half of \<^verbatim>\<open>SGP4::FindPositionSDP4\<close> (source lines 321 to 367): the periodics,
  the inclination kept positive, the third error check, the constants recomputed for the
  perturbed inclination, and the final position and velocity.
\<close>

definition FindPositionSDP4_periodics ::
  "SGP4 \<Rightarrow> real \<Rightarrow> real \<Rightarrow> real \<Rightarrow> real \<Rightarrow> real \<Rightarrow> real \<Rightarrow> real \<Rightarrow> SatelliteException + Eci" where
  "FindPositionSDP4_periodics s tsince a e xincl omgadf xnode xmam =
     (let (e, xincl, omgadf, xnode, xmam) = DeepSpacePeriodics tsince e xincl omgadf xnode xmam s;
          (xincl, xnode, omgadf) =
            (if xincl < 0.0 then (- xincl, xnode + PI, omgadf - PI)
             else (xincl, xnode, omgadf));
          xl = xmam + omgadf + xnode;
          omega = omgadf
      in if e < 0.0 \<or> e > 1.0 then
           Inl (SatelliteException ''Error: #3 (e < 0.0 || e > 1.0)'')
         else
           (let perturbed_sinio = sin xincl;
                perturbed_cosio = cos xincl;
                perturbed_theta2 = perturbed_cosio * perturbed_cosio;
                perturbed_x3thm1 = 3.0 * perturbed_theta2 - 1.0;
                perturbed_x1mth2 = 1.0 - perturbed_theta2;
                perturbed_x7thm1 = 7.0 * perturbed_theta2 - 1.0;
                perturbed_xlcof =
                  (if \<bar>perturbed_cosio + 1.0\<bar> > 1.5 / 10 ^ 12
                   then 0.125 * i_a3ovk2 (common s) * perturbed_sinio
                        * (3.0 + 5.0 * perturbed_cosio) / (1.0 + perturbed_cosio)
                   else 0.125 * i_a3ovk2 (common s) * perturbed_sinio
                        * (3.0 + 5.0 * perturbed_cosio) / (1.5 / 10 ^ 12));
                perturbed_aycof = 0.25 * i_a3ovk2 (common s) * perturbed_sinio
            in CalculateFinalPositionVelocity s tsince e
                 a omega xl xnode
                 xincl perturbed_xlcof perturbed_aycof
                 perturbed_x3thm1 perturbed_x1mth2 perturbed_x7thm1
                 perturbed_cosio perturbed_sinio))"

text \<open>
  The first half of \<^verbatim>\<open>SGP4::FindPositionSDP4\<close> (source lines 275 to 289), up to and with the
  call of \<^verbatim>\<open>DeepSpaceSecular\<close>. The result is the object, in which the integrator may have
  moved, the six values \<open>(xmdf, omgadf, xnode, e, xincl, xn)\<close> that call works on, and the
  locals \<open>(tempa, tempe, templ)\<close>.
\<close>

definition FindPositionSDP4_secular ::
  "SGP4 \<Rightarrow> real \<Rightarrow>
   (SGP4 \<times> (real \<times> real \<times> real \<times> real \<times> real \<times> real) \<times> real \<times> real \<times> real) option" where
  "FindPositionSDP4_secular s tsince =
     (let el = elems s;
          c = common s;
          xmdf = mean_anomoly el + i_xmdot c * tsince;
          omgadf = argument_perigee el + i_omgdot c * tsince;
          xnoddf = ascending_node el + i_xnodot c * tsince;
          tsq = tsince * tsince;
          xnode = xnoddf + i_xnodcf c * tsq;
          tempa = 1.0 - i_c1 c * tsince;
          tempe = bstar el * i_c4 c * tsince;
          templ = i_t2cof c * tsq;
          xn = recovered_mean_motion el;
          e = eccentricity el;
          xincl = inclination el
      in case DeepSpaceSecular tsince xmdf omgadf xnode e xincl xn s of
           None \<Rightarrow> None
         | Some (s, v) \<Rightarrow> Some (s, v, tempa, tempe, templ))"

text \<open>
  \<^verbatim>\<open>SGP4::FindPositionSDP4\<close>. The member function is \<^verbatim>\<open>const\<close> and changes the \<^verbatim>\<open>mutable\<close>
  members of the integrator; the model returns the object with the result, also when
  the result is an exception, which is thrown after the integrator has moved.
\<close>

definition FindPositionSDP4 ::
  "SGP4 \<Rightarrow> real \<Rightarrow> (SGP4 \<times> (SatelliteException + Eci)) option" where
  "FindPositionSDP4 s tsince =
     (case FindPositionSDP4_secular s tsince of
        None \<Rightarrow> None
      | Some (s, (xmdf, omgadf, xnode, e, xincl, xn), tempa, tempe, templ) \<Rightarrow>
          Some (s,
            if xn \<le> 0.0 then Inl (SatelliteException ''Error: #2 (xn <= 0.0)'')
            else
              (let a = pow (XKE / xn) TWOTHIRD * pow tempa 2.0;
                   e = e - tempe
               in if e \<ge> 1.0 \<or> e < - 0.001 then
                    Inl (SatelliteException ''Error: #1 (e >= 1.0 || e < -0.001)'')
                  else
                    (let e = (if e < 1.0 / 10 ^ 6 then 1.0 / 10 ^ 6 else e);
                         xmam = xmdf + recovered_mean_motion (elems s) * templ
                     in FindPositionSDP4_periodics s tsince a e xincl omgadf xnode xmam))))"

text \<open>
  \<^verbatim>\<open>SGP4::FindPosition(Eci&, double)\<close>: the deep-space or the near-space model, as the flag
  set at initialisation says.
\<close>

definition FindPosition :: "SGP4 \<Rightarrow> real \<Rightarrow> (SGP4 \<times> (SatelliteException + Eci)) option" where
  "FindPosition s tsince =
     (if i_use_deep_space s then FindPositionSDP4 s tsince
      else Some (s, FindPositionSGP4 s tsince))"


section \<open>Notions used in the statements and proofs\<close>

text \<open>
  The two tests on the recovered mean motion and the eccentricity at epoch that
  \<^verbatim>\<open>SGP4::DeepSpaceInitialize\<close> makes (source lines 803 and 827), by name.
\<close>

definition synchronous_band :: "real \<Rightarrow> bool" where
  "synchronous_band xnodp \<longleftrightarrow> xnodp < 0.0052359877 \<and> xnodp > 0.0034906585"

definition half_day_miss :: "real \<Rightarrow> real \<Rightarrow> bool" where
  "half_day_miss xnodp eo \<longleftrightarrow> xnodp < 8.26 / 10 ^ 3 \<or> xnodp > 9.24 / 10 ^ 3 \<or> eo < 0.5"

text \<open>The members the lunar and solar part of the deep-space initialisation assigns.\<close>

definition assigns_lunar_solar :: "SGP4 \<Rightarrow> SGP4 \<Rightarrow> bool" where
  "assigns_lunar_solar s s' \<longleftrightarrow>
     (\<exists>a b c p. s' = s\<lparr>d_zmol := a, d_zmos := b, secular := c, periodic := p\<rparr>)"

text \<open>
  The locals of \<^verbatim>\<open>SGP4::SetTle\<close> that the recovery of the mean motion starts from, as
  functions of the element set: the mean motion in radians a minute (source line 67) and
  \<open>temp\<close> (source line 94); and the recovered mean motion (source lines 95 to 99) as a
  function of these two and of the local \<open>a1\<close>.
\<close>

definition tle_xno :: "Tle \<Rightarrow> real" where
  "tle_xno tle = MeanMotion tle * TWOPI / MIN_PER_DAY"

definition tle_temp :: "Tle \<Rightarrow> real" where
  "tle_temp tle =
     (1.5 * CK2) * (3.0 * (cos (Inclination tle) * cos (Inclination tle)) - 1.0)
       / (sqrt (1.0 - Eccentricity tle * Eccentricity tle)
          * (1.0 - Eccentricity tle * Eccentricity tle))"

definition recovered :: "real \<Rightarrow> real \<Rightarrow> real \<Rightarrow> real" where
  "recovered xno temp a1 =
     (let del1 = temp / (a1 * a1);
          a0 = a1 * (1.0 - del1 * (1.0 / 3.0 + del1 * (1.0 + del1 * 134.0 / 81.0)));
          del0 = temp / (a0 * a0)
      in xno / (1.0 + del0))"

text \<open>
  The recovered semi-major axis (source lines 95 to 100) as a function of the locals
  \<open>temp\<close> and \<open>a1\<close> of \<^verbatim>\<open>SGP4::SetTle\<close>.
\<close>

definition recovered_axis :: "real \<Rightarrow> real \<Rightarrow> real" where
  "recovered_axis temp a1 =
     (let del1 = temp / (a1 * a1);
          a0 = a1 * (1.0 - del1 * (1.0 / 3.0 + del1 * (1.0 + del1 * 134.0 / 81.0)));
          del0 = temp / (a0 * a0)
      in a0 / (1.0 - del0))"

text \<open>
  Element sets for examples. All are circular and equatorial, with no drag term and the
  date of \<open>Julian_default\<close>: a geosynchronous one of one revolution a day, a low one of
  fifteen revolutions a day, and one whose inclination of four radians is above \<open>\<pi>\<close>.
\<close>

definition circular_tle :: "real \<Rightarrow> real \<Rightarrow> real \<Rightarrow> Tle" where
  "circular_tle eo xincl revs_per_day =
     \<lparr>MeanAnomaly = 0, RightAscendingNode = 0, ArgumentPerigee = 0,
      Eccentricity = eo, Inclination = xincl, MeanMotion = revs_per_day, BStar = 0,
      Epoch = Julian_default\<rparr>"

definition tle_geosynchronous :: Tle where
  "tle_geosynchronous = circular_tle 0 0 1"

definition tle_low_orbit :: Tle where
  "tle_low_orbit = circular_tle 0 0 15"

definition tle_inclination_4 :: Tle where
  "tle_inclination_4 = circular_tle 0.1 4 15"

text \<open>The circular equatorial element set with a mean motion of zero.\<close>

definition tle_motionless :: Tle where
  "tle_motionless = circular_tle 0 0 0"

text \<open>
  The variables of the Newton-Raphson loop after \<open>n\<close> iterations from the variables \<open>k\<close>,
  the counter running from 0.
\<close>

primrec kepler_iterations ::
  "real \<Rightarrow> real \<Rightarrow> real \<Rightarrow> real \<Rightarrow> nat \<Rightarrow> kepler \<Rightarrow> kepler" where
  "kepler_iterations capu axn ayn max_newton_naphson 0 k = k"
| "kepler_iterations capu axn ayn max_newton_naphson (Suc n) k =
     kepler_iteration capu axn ayn max_newton_naphson n
       (kepler_iterations capu axn ayn max_newton_naphson n k)"

text \<open>A result that is an exception is one of the exceptions \<open>E\<close>.\<close>

definition throws_only :: "SatelliteException set \<Rightarrow> SatelliteException + 'a \<Rightarrow> bool" where
  "throws_only E r \<longleftrightarrow> (case r of Inl x \<Rightarrow> x \<in> E | Inr y \<Rightarrow> True)"



text \<open>
  The test and the loop of \<^verbatim>\<open>DeepSpaceSecular\<close> that follow the restart (source lines 1125
  to 1155), from the object \<open>s\<close>.
\<close>

definition run_from :: "real \<Rightarrow> SGP4 \<Rightarrow> SGP4 option" where
  "run_from t s =
     (let ft = t - d_atime (integ s)
      in if \<bar>ft\<bar> \<ge> STEP then
           (let delt = - STEP;
                delt = (if ft \<ge> 0.0 then STEP else delt)
            in DeepSpaceSecular_loop t delt s)
         else Some s)"

text \<open>
  An object, not one that \<^verbatim>\<open>SetTle\<close> made, whose eccentricity after the drag update at
  \<open>t = 1 / 1000\<close> is \<open>- 1 / 1000\<close>, in both models: an epoch eccentricity of 0, and
  \<open>bstar * i_c4 = 1\<close>.
\<close>

definition boundary_object :: SGP4 where
  "boundary_object =
     ResetGlobalVariables
       \<lparr>first_run := False, i_use_simple_model := True,
        common := (common ResetGlobalVariables)\<lparr>i_c4 := 1\<rparr>,
        elems := (elems ResetGlobalVariables)
          \<lparr>mean_anomoly := 1, bstar := 1, recovered_semi_major_axis := 1,
           recovered_mean_motion := 1\<rparr>\<rparr>"

text \<open>
  An object, not one that \<^verbatim>\<open>SetTle\<close> made, whose solar periodic term adds 2 to the
  eccentricity at the epoch.
\<close>

definition eccentric_object :: SGP4 where
  "eccentric_object =
     ResetGlobalVariables
       \<lparr>first_run := False, i_use_deep_space := True,
        periodic := (periodic ResetGlobalVariables)\<lparr>d_se2 := - 8\<rparr>,
        elems := (elems ResetGlobalVariables)\<lparr>recovered_mean_motion := 1\<rparr>\<rparr>"

text \<open>
  A circular equatorial element set of 16.6 revolutions a day with a drag term of
  \<open>10\<^sup>-\<^sup>4\<close>, the object that \<^verbatim>\<open>SetTle\<close> makes for it, and the time at which the drag update
  of \<^verbatim>\<open>FindPositionSGP4\<close> has taken \<open>1 / 1000\<close> off the eccentricity of this object.
\<close>

definition tle_drag :: Tle where
  "tle_drag =
     \<lparr>MeanAnomaly = 1, RightAscendingNode = 0, ArgumentPerigee = 0,
      Eccentricity = 0, Inclination = 0, MeanMotion = 16.6, BStar = 1 / 10 ^ 4,
      Epoch = Julian_default\<rparr>"

definition drag_object :: SGP4 where
  "drag_object = projr (SetTle tle_drag)"

definition drag_time :: real where
  "drag_time = (1 / 1000) / (bstar (elems drag_object) * i_c4 (common drag_object))"

text \<open>The object that \<^verbatim>\<open>SetTle\<close> makes for the geosynchronous element set.\<close>

definition geosynchronous_object :: SGP4 where
  "geosynchronous_object = projr (SetTle tle_geosynchronous)"

text \<open>The six values \<open>(a, e, omega, xl, xnode, xincl)\<close> of the drag update, by name.\<close>

abbreviation secular_a :: "real \<times> real \<times> real \<times> real \<times> real \<times> real \<Rightarrow> real" where
  "secular_a r \<equiv> fst r"

abbreviation secular_e :: "real \<times> real \<times> real \<times> real \<times> real \<times> real \<Rightarrow> real" where
  "secular_e r \<equiv> fst (snd r)"

abbreviation secular_omega :: "real \<times> real \<times> real \<times> real \<times> real \<times> real \<Rightarrow> real" where
  "secular_omega r \<equiv> fst (snd (snd r))"

abbreviation secular_xl :: "real \<times> real \<times> real \<times> real \<times> real \<times> real \<Rightarrow> real" where
  "secular_xl r \<equiv> fst (snd (snd (snd r)))"

abbreviation secular_xnode :: "real \<times> real \<times> real \<times> real \<times> real \<times> real \<Rightarrow> real" where
  "secular_xnode r \<equiv> fst (snd (snd (snd (snd r))))"

abbreviation secular_xincl :: "real \<times> real \<times> real \<times> real \<times> real \<times> real \<Rightarrow> real" where
  "secular_xincl r \<equiv> snd (snd (snd (snd (snd r))))"

section \<open>Initialisation: what each part assigns\<close>

lemma assigns_lunar_solar_Let:
  "(\<And>x. assigns_lunar_solar s (f x)) \<Longrightarrow> assigns_lunar_solar s (Let e f)"
  by simp

lemma lunar_solar_shape:
  "assigns_lunar_solar s (DeepSpaceInitialize_lunar_solar eosq sinio cosio betao betao2 s)"
  unfolding DeepSpaceInitialize_lunar_solar_def
  apply (rule assigns_lunar_solar_Let)+
  unfolding assigns_lunar_solar_def
  apply blast
  done

lemma lunar_solar_frame:
  "integ (DeepSpaceInitialize_lunar_solar eosq sinio cosio betao betao2 s) = integ s"
  "resonance (DeepSpaceInitialize_lunar_solar eosq sinio cosio betao betao2 s) = resonance s"
  "elems (DeepSpaceInitialize_lunar_solar eosq sinio cosio betao betao2 s) = elems s"
  "common (DeepSpaceInitialize_lunar_solar eosq sinio cosio betao betao2 s) = common s"
  "near (DeepSpaceInitialize_lunar_solar eosq sinio cosio betao betao2 s) = near s"
  "d_gsto (DeepSpaceInitialize_lunar_solar eosq sinio cosio betao betao2 s) = d_gsto s"
  "first_run (DeepSpaceInitialize_lunar_solar eosq sinio cosio betao betao2 s) = first_run s"
  "i_use_deep_space (DeepSpaceInitialize_lunar_solar eosq sinio cosio betao betao2 s)
     = i_use_deep_space s"
  "i_use_simple_model (DeepSpaceInitialize_lunar_solar eosq sinio cosio betao betao2 s)
     = i_use_simple_model s"
  "d_resonance_flag (DeepSpaceInitialize_lunar_solar eosq sinio cosio betao betao2 s)
     = d_resonance_flag s"
  "d_synchronous_flag (DeepSpaceInitialize_lunar_solar eosq sinio cosio betao betao2 s)
     = d_synchronous_flag s"
  using lunar_solar_shape[of s eosq sinio cosio betao betao2]
  by (auto simp: assigns_lunar_solar_def)

lemmas resonance_folded =
  DeepSpaceInitialize_resonance_def[folded synchronous_band_def half_day_miss_def]

lemma resonance_none:
  assumes "\<not> synchronous_band (recovered_mean_motion (elems s))"
    and "half_day_miss (recovered_mean_motion (elems s)) (eccentricity (elems s))"
  shows "DeepSpaceInitialize_resonance eosq sinio cosio theta2 xmdot omgdot xnodot s =
           s\<lparr>d_resonance_flag := False, d_synchronous_flag := False\<rparr>"
  using assms by (simp add: resonance_folded Let_def)

lemma resonance_sync:
  assumes "synchronous_band (recovered_mean_motion (elems s))"
  shows "d_resonance_flag
           (DeepSpaceInitialize_resonance eosq sinio cosio theta2 xmdot omgdot xnodot s)"
    "d_synchronous_flag
       (DeepSpaceInitialize_resonance eosq sinio cosio theta2 xmdot omgdot xnodot s)"
    "d_atime (integ
       (DeepSpaceInitialize_resonance eosq sinio cosio theta2 xmdot omgdot xnodot s)) = 0"
    "d_xni (integ
       (DeepSpaceInitialize_resonance eosq sinio cosio theta2 xmdot omgdot xnodot s))
       = recovered_mean_motion (elems s)"
    "d_xli (integ
       (DeepSpaceInitialize_resonance eosq sinio cosio theta2 xmdot omgdot xnodot s))
       = d_xlamo (integ
           (DeepSpaceInitialize_resonance eosq sinio cosio theta2 xmdot omgdot xnodot s))"
  using assms
  by (simp_all add: resonance_folded Let_def split_def)

lemma resonance_half_day:
  assumes "\<not> synchronous_band (recovered_mean_motion (elems s))"
    and "\<not> half_day_miss (recovered_mean_motion (elems s)) (eccentricity (elems s))"
  shows "d_resonance_flag
           (DeepSpaceInitialize_resonance eosq sinio cosio theta2 xmdot omgdot xnodot s)"
    "\<not> d_synchronous_flag
       (DeepSpaceInitialize_resonance eosq sinio cosio theta2 xmdot omgdot xnodot s)"
    "d_atime (integ
       (DeepSpaceInitialize_resonance eosq sinio cosio theta2 xmdot omgdot xnodot s)) = 0"
    "d_xni (integ
       (DeepSpaceInitialize_resonance eosq sinio cosio theta2 xmdot omgdot xnodot s))
       = recovered_mean_motion (elems s)"
    "d_xli (integ
       (DeepSpaceInitialize_resonance eosq sinio cosio theta2 xmdot omgdot xnodot s))
       = d_xlamo (integ
           (DeepSpaceInitialize_resonance eosq sinio cosio theta2 xmdot omgdot xnodot s))"
  using assms
  by (simp_all add: resonance_folded Let_def split_def)

lemma resonance_frame:
  "elems (DeepSpaceInitialize_resonance eosq sinio cosio theta2 xmdot omgdot xnodot s) = elems s"
  "first_run (DeepSpaceInitialize_resonance eosq sinio cosio theta2 xmdot omgdot xnodot s)
     = first_run s"
  "i_use_deep_space (DeepSpaceInitialize_resonance eosq sinio cosio theta2 xmdot omgdot xnodot s)
     = i_use_deep_space s"
  "d_zmos (DeepSpaceInitialize_resonance eosq sinio cosio theta2 xmdot omgdot xnodot s) = d_zmos s"
  "d_zmol (DeepSpaceInitialize_resonance eosq sinio cosio theta2 xmdot omgdot xnodot s) = d_zmol s"
  "common (DeepSpaceInitialize_resonance eosq sinio cosio theta2 xmdot omgdot xnodot s) = common s"
  by (cases "synchronous_band (recovered_mean_motion (elems s))";
      cases "half_day_miss (recovered_mean_motion (elems s)) (eccentricity (elems s))";
      simp add: resonance_folded Let_def split_def)+

lemma Initialize_constants_i_eta:
  "i_eta (Initialize_constants theta2 betao2 betao pinvsq tsi etasq eeta psisq coef1 el c)
     = i_eta c"
  by (simp add: Initialize_constants_def Let_def)

text \<open>What \<^verbatim>\<open>Initialize\<close> leaves and sets, whatever the model.\<close>

lemma Initialize_common:
  "first_run (Initialize theta2 betao2 betao eosq s) = False"
  "i_use_deep_space (Initialize theta2 betao2 betao eosq s) = (period (elems s) \<ge> 225)"
  "elems (Initialize theta2 betao2 betao eosq s) = elems s"
  "i_eta (common (Initialize theta2 betao2 betao eosq s)) =
     recovered_semi_major_axis (elems s) * eccentricity (elems s)
       * (1.0 / (recovered_semi_major_axis (elems s)
                 - fst (Initialize_s4_qoms24 (perigee (elems s)))))"
  by (cases "period (elems s) \<ge> 225"; cases "perigee (elems s) < 220";
      simp add: Initialize_def Let_def split_def DeepSpaceInitialize_def
        resonance_frame lunar_solar_frame Initialize_constants_i_eta)+

text \<open>The near-space model: the deep-space members are left as they are.\<close>

lemma Initialize_near:
  assumes "\<not> period (elems s) \<ge> 225"
  shows "integ (Initialize theta2 betao2 betao eosq s) = integ s"
    "resonance (Initialize theta2 betao2 betao eosq s) = resonance s"
    "d_resonance_flag (Initialize theta2 betao2 betao eosq s) = d_resonance_flag s"
    "d_synchronous_flag (Initialize theta2 betao2 betao eosq s) = d_synchronous_flag s"
  using assms
  by (cases "perigee (elems s) < 220"; simp add: Initialize_def Let_def split_def)+

text \<open>The deep-space model, for each of the three outcomes of the resonance tests.\<close>

lemma Initialize_deep_synchronous:
  assumes "period (elems s) \<ge> 225"
    and "synchronous_band (recovered_mean_motion (elems s))"
  shows "d_resonance_flag (Initialize theta2 betao2 betao eosq s)"
    "d_synchronous_flag (Initialize theta2 betao2 betao eosq s)"
    "d_atime (integ (Initialize theta2 betao2 betao eosq s)) = 0"
    "d_xni (integ (Initialize theta2 betao2 betao eosq s)) = recovered_mean_motion (elems s)"
    "d_xli (integ (Initialize theta2 betao2 betao eosq s))
       = d_xlamo (integ (Initialize theta2 betao2 betao eosq s))"
  using assms
  by (simp_all add: Initialize_def Let_def split_def DeepSpaceInitialize_def
        resonance_sync lunar_solar_frame)

lemma Initialize_deep_half_day:
  assumes "period (elems s) \<ge> 225"
    and "\<not> synchronous_band (recovered_mean_motion (elems s))"
    and "\<not> half_day_miss (recovered_mean_motion (elems s)) (eccentricity (elems s))"
  shows "d_resonance_flag (Initialize theta2 betao2 betao eosq s)"
    "\<not> d_synchronous_flag (Initialize theta2 betao2 betao eosq s)"
    "d_atime (integ (Initialize theta2 betao2 betao eosq s)) = 0"
    "d_xni (integ (Initialize theta2 betao2 betao eosq s)) = recovered_mean_motion (elems s)"
    "d_xli (integ (Initialize theta2 betao2 betao eosq s))
       = d_xlamo (integ (Initialize theta2 betao2 betao eosq s))"
  using assms
  by (simp_all add: Initialize_def Let_def split_def DeepSpaceInitialize_def
        resonance_half_day lunar_solar_frame)

lemma Initialize_deep_none:
  assumes "period (elems s) \<ge> 225"
    and "\<not> synchronous_band (recovered_mean_motion (elems s))"
    and "half_day_miss (recovered_mean_motion (elems s)) (eccentricity (elems s))"
  shows "\<not> d_resonance_flag (Initialize theta2 betao2 betao eosq s)"
    "\<not> d_synchronous_flag (Initialize theta2 betao2 betao eosq s)"
    "integ (Initialize theta2 betao2 betao eosq s) = integ s"
    "resonance (Initialize theta2 betao2 betao eosq s) = resonance s"
  using assms
  by (simp_all add: Initialize_def Let_def split_def DeepSpaceInitialize_def
        resonance_none lunar_solar_frame)

section \<open>Taking in an element set: what the result is\<close>

text \<open>The object that \<^verbatim>\<open>SetTle\<close> passes to \<^verbatim>\<open>Initialize\<close>.\<close>

lemma SetTle_unfolded:
  "\<exists>s1 theta2 betao2 betao eosq.
     SetTle tle =
       (if Eccentricity tle < 0.0 \<or> Eccentricity tle > 1.0 - 1.0 / 10 ^ 3 then
          Inl (SatelliteException ''Eccentricity out of range'')
        else if Inclination tle < 0.0 \<or> Eccentricity tle > PI then
          Inl (SatelliteException ''Inclination out of range'')
        else Inr (Initialize theta2 betao2 betao eosq s1))
     \<and> integ s1 = integ ResetGlobalVariables
     \<and> resonance s1 = resonance ResetGlobalVariables
     \<and> \<not> d_resonance_flag s1 \<and> \<not> d_synchronous_flag s1
     \<and> eccentricity (elems s1) = Eccentricity tle
     \<and> inclination (elems s1) = Inclination tle
     \<and> mean_motion (elems s1) = MeanMotion tle * TWOPI / MIN_PER_DAY
     \<and> period (elems s1) = TWOPI / recovered_mean_motion (elems s1)
     \<and> recovered_mean_motion (elems s1) =
         recovered (tle_xno tle) (tle_temp tle) (pow (XKE / tle_xno tle) TWOTHIRD)"
  apply (intro exI conjI)
           apply (simp only: SetTle_def Let_def ResetGlobalVariables_def
      SGP4.simps Elements.simps CommonConstants.simps)
  subgoal by (simp only: SGP4.simps ResetGlobalVariables_def)
  subgoal by (simp only: SGP4.simps ResetGlobalVariables_def)
  subgoal by (simp only: SGP4.simps simp_thms)
  subgoal by (simp only: SGP4.simps simp_thms)
  subgoal by (simp only: SGP4.simps Elements.simps)
  subgoal by (simp only: SGP4.simps Elements.simps)
  subgoal by (simp only: SGP4.simps Elements.simps)
  subgoal by (simp only: SGP4.simps Elements.simps)
  subgoal by (simp only: Let_def SGP4.simps Elements.simps recovered_def tle_xno_def tle_temp_def)
  done


lemma SetTle_Inr_D:
  assumes "SetTle tle = Inr s"
  obtains s1 theta2 betao2 betao eosq where
    "s = Initialize theta2 betao2 betao eosq s1"
    "integ s1 = integ ResetGlobalVariables"
    "resonance s1 = resonance ResetGlobalVariables"
    "\<not> d_resonance_flag s1" "\<not> d_synchronous_flag s1"
    "eccentricity (elems s1) = Eccentricity tle"
    "inclination (elems s1) = Inclination tle"
    "period (elems s1) = TWOPI / recovered_mean_motion (elems s1)"
proof -
  from SetTle_unfolded[of tle] obtain s1 theta2 betao2 betao eosq where
    eq: "SetTle tle =
       (if Eccentricity tle < 0.0 \<or> Eccentricity tle > 1.0 - 1.0 / 10 ^ 3 then
          Inl (SatelliteException ''Eccentricity out of range'')
        else if Inclination tle < 0.0 \<or> Eccentricity tle > PI then
          Inl (SatelliteException ''Inclination out of range'')
        else Inr (Initialize theta2 betao2 betao eosq s1))"
    and rest: "integ s1 = integ ResetGlobalVariables"
      "resonance s1 = resonance ResetGlobalVariables"
      "\<not> d_resonance_flag s1" "\<not> d_synchronous_flag s1"
      "eccentricity (elems s1) = Eccentricity tle"
      "inclination (elems s1) = Inclination tle"
      "period (elems s1) = TWOPI / recovered_mean_motion (elems s1)"
    by blast
  from eq assms have init: "s = Initialize theta2 betao2 betao eosq s1"
    by (simp split: if_splits)
  show thesis using init rest by (rule that)
qed

text \<open>What holds of every object that \<^verbatim>\<open>SetTle\<close> returns.\<close>

lemma SetTle_state:
  assumes "SetTle tle = Inr s"
  shows "first_run s = False"
    and "i_use_deep_space s = (period (elems s) \<ge> 225)"
    and "period (elems s) = TWOPI / recovered_mean_motion (elems s)"
    and "eccentricity (elems s) = Eccentricity tle"
    and "inclination (elems s) = Inclination tle"
    and "d_synchronous_flag s =
           (i_use_deep_space s \<and> synchronous_band (recovered_mean_motion (elems s)))"
    and "d_resonance_flag s =
           (i_use_deep_space s \<and>
            (synchronous_band (recovered_mean_motion (elems s))
             \<or> \<not> half_day_miss (recovered_mean_motion (elems s)) (eccentricity (elems s))))"
    and "d_resonance_flag s \<longrightarrow>
           d_atime (integ s) = 0 \<and> d_xni (integ s) = recovered_mean_motion (elems s)
           \<and> d_xli (integ s) = d_xlamo (integ s)"
    and "\<not> d_resonance_flag s \<longrightarrow>
           integ s = integ ResetGlobalVariables \<and> resonance s = resonance ResetGlobalVariables"
proof -
  from assms obtain s1 theta2 betao2 betao eosq where
    s: "s = Initialize theta2 betao2 betao eosq s1"
    and s1: "integ s1 = integ ResetGlobalVariables"
      "resonance s1 = resonance ResetGlobalVariables"
      "\<not> d_resonance_flag s1" "\<not> d_synchronous_flag s1"
      "eccentricity (elems s1) = Eccentricity tle"
      "inclination (elems s1) = Inclination tle"
      "period (elems s1) = TWOPI / recovered_mean_motion (elems s1)"
    by (rule SetTle_Inr_D)
  note c = Initialize_common[of theta2 betao2 betao eosq s1, folded s]
  show "first_run s = False" by (rule c)
  show deep: "i_use_deep_space s = (period (elems s) \<ge> 225)" using c by simp
  show "period (elems s) = TWOPI / recovered_mean_motion (elems s)" using c s1 by simp
  show "eccentricity (elems s) = Eccentricity tle" using c s1 by simp
  show "inclination (elems s) = Inclination tle" using c s1 by simp
  let ?n = "recovered_mean_motion (elems s)" and ?e = "eccentricity (elems s)"
  have el: "elems s1 = elems s" using c by simp
  consider (near) "\<not> period (elems s1) \<ge> 225"
    | (sync) "period (elems s1) \<ge> 225" "synchronous_band ?n"
    | (half) "period (elems s1) \<ge> 225" "\<not> synchronous_band ?n" "\<not> half_day_miss ?n ?e"
    | (none) "period (elems s1) \<ge> 225" "\<not> synchronous_band ?n" "half_day_miss ?n ?e"
    by blast
  then have "d_synchronous_flag s = (i_use_deep_space s \<and> synchronous_band ?n)
      \<and> d_resonance_flag s =
           (i_use_deep_space s \<and> (synchronous_band ?n \<or> \<not> half_day_miss ?n ?e))
      \<and> (d_resonance_flag s \<longrightarrow>
           d_atime (integ s) = 0 \<and> d_xni (integ s) = ?n \<and> d_xli (integ s) = d_xlamo (integ s))
      \<and> (\<not> d_resonance_flag s \<longrightarrow>
           integ s = integ ResetGlobalVariables \<and> resonance s = resonance ResetGlobalVariables)"
  proof cases
    case near
    from Initialize_near[OF near, of theta2 betao2 betao eosq, folded s] near s1 deep el
    show ?thesis by simp
  next
    case sync
    from Initialize_deep_synchronous[of s1 theta2 betao2 betao eosq, folded s] sync deep el
    show ?thesis by simp
  next
    case half
    from Initialize_deep_half_day[of s1 theta2 betao2 betao eosq, folded s] half deep el
    show ?thesis by simp
  next
    case none
    from Initialize_deep_none[of s1 theta2 betao2 betao eosq, folded s] none s1 deep el
    show ?thesis by simp
  qed
  then show "d_synchronous_flag s = (i_use_deep_space s \<and> synchronous_band ?n)"
    and "d_resonance_flag s =
           (i_use_deep_space s \<and> (synchronous_band ?n \<or> \<not> half_day_miss ?n ?e))"
    and "d_resonance_flag s \<longrightarrow>
           d_atime (integ s) = 0 \<and> d_xni (integ s) = ?n \<and> d_xli (integ s) = d_xlamo (integ s)"
    and "\<not> d_resonance_flag s \<longrightarrow>
           integ s = integ ResetGlobalVariables \<and> resonance s = resonance ResetGlobalVariables"
    by blast+
qed

section \<open>The recovered mean motion of a circular equatorial orbit\<close>

lemma XKE_lower: "60 / 900 \<le> XKE"
proof -
  have "sqrt (XKMPER * XKMPER * XKMPER / MU) \<le> 900"
    by (rule real_le_lsqrt) (simp_all add: XKMPER_def MU_def)
  moreover have "0 < sqrt (XKMPER * XKMPER * XKMPER / MU)"
    by (simp add: XKMPER_def MU_def)
  ultimately show ?thesis
    unfolding XKE_def by (simp add: frac_le)
qed

lemma pow_TWOTHIRD_ge_1: "1 \<le> x \<Longrightarrow> 1 \<le> pow x TWOTHIRD"
  by (simp add: pow_def TWOTHIRD_def ge_one_powr_ge_zero)

lemma recovered_bounds:
  fixes xno a1 temp :: real
  assumes "0 < xno" "1 \<le> a1" "0 \<le> temp" "temp \<le> 0.002"
  shows "xno / 1.003 \<le> recovered xno temp a1 \<and> recovered xno temp a1 \<le> xno"
proof -
  define del1 where "del1 = temp / (a1 * a1)"
  define q where "q = del1 * (1.0 / 3.0 + del1 * (1.0 + del1 * 134.0 / 81.0))"
  define a0 where "a0 = a1 * (1.0 - q)"
  define del0 where "del0 = temp / (a0 * a0)"
  have a1sq: "1 \<le> a1 * a1"
  proof -
    have "1 * 1 \<le> a1 * a1" by (rule mult_mono) (use assms(2) in simp_all)
    then show ?thesis by simp
  qed
  have d1: "0 \<le> del1" "del1 \<le> 0.002"
  proof -
    show "0 \<le> del1" unfolding del1_def using assms a1sq by simp
    have "del1 = temp / (a1 * a1)" by (simp add: del1_def)
    also have "\<dots> \<le> temp / 1"
      by (rule divide_left_mono) (use assms a1sq in auto)
    also have "\<dots> \<le> 0.002" using assms by simp
    finally show "del1 \<le> 0.002" .
  qed
  have inner: "0 \<le> 1.0 / 3.0 + del1 * (1.0 + del1 * 134.0 / 81.0)"
    "1.0 / 3.0 + del1 * (1.0 + del1 * 134.0 / 81.0) \<le> 0.4"
  proof -
    have a: "0 \<le> del1 * 134.0 / 81.0" "del1 * 134.0 / 81.0 \<le> 1" using d1 by simp_all
    have b: "0 \<le> del1 * (1.0 + del1 * 134.0 / 81.0)" using d1 a by simp
    have "del1 * (1.0 + del1 * 134.0 / 81.0) \<le> 0.002 * 2"
      by (rule mult_mono) (use d1 a in simp_all)
    then show "1.0 / 3.0 + del1 * (1.0 + del1 * 134.0 / 81.0) \<le> 0.4" by simp
    show "0 \<le> 1.0 / 3.0 + del1 * (1.0 + del1 * 134.0 / 81.0)" using b by simp
  qed
  have q: "0 \<le> q" "q \<le> 0.001"
  proof -
    show "0 \<le> q" unfolding q_def using d1 inner by simp
    have "q \<le> 0.002 * 0.4" unfolding q_def
      by (rule mult_mono) (use d1 inner in simp_all)
    then show "q \<le> 0.001" by simp
  qed
  have a0: "0.999 \<le> a0"
  proof -
    have "1 * 0.999 \<le> a1 * (1.0 - q)"
      by (rule mult_mono) (use assms q in simp_all)
    then show ?thesis unfolding a0_def by simp
  qed
  have a0sq: "0.998 \<le> a0 * a0"
  proof -
    have "0.999 * 0.999 \<le> a0 * a0"
      by (rule mult_mono) (use a0 in simp_all)
    then show ?thesis by simp
  qed
  have d0: "0 \<le> del0" "del0 \<le> 0.003"
  proof -
    show "0 \<le> del0" unfolding del0_def using assms a0sq by simp
    have "del0 = temp / (a0 * a0)" by (simp add: del0_def)
    also have "\<dots> \<le> temp / 0.998"
      by (rule divide_left_mono) (use assms a0sq in auto)
    also have "\<dots> \<le> 0.002 / 0.998" by (rule divide_right_mono) (use assms in simp_all)
    also have "\<dots> \<le> 0.003" by simp
    finally show "del0 \<le> 0.003" .
  qed
  have "xno / 1.003 \<le> xno / (1.0 + del0)"
    by (rule divide_left_mono) (use assms d0 in auto)
  moreover have "xno / (1.0 + del0) \<le> xno / 1"
    by (rule divide_left_mono) (use assms d0 in auto)
  ultimately show ?thesis
    unfolding recovered_def Let_def del0_def a0_def q_def del1_def by simp
qed

text \<open>
  For a circular equatorial element set of \<open>n\<close> revolutions a day, with the mean motion
  \<open>xno\<close> in radians a minute not above \<open>60 / 900\<close>: the recovered mean motion is between
  \<open>xno / 1.003\<close> and \<open>xno\<close>.
\<close>

lemma circular_recovered:
  assumes "SetTle (circular_tle 0 0 n) = Inr s"
    and "0 < n" "n * TWOPI / MIN_PER_DAY \<le> 60 / 900"
  shows "n * TWOPI / MIN_PER_DAY / 1.003 \<le> recovered_mean_motion (elems s)"
    and "recovered_mean_motion (elems s) \<le> n * TWOPI / MIN_PER_DAY"
proof -
  let ?tle = "circular_tle 0 0 n"
  let ?xno = "n * TWOPI / MIN_PER_DAY"
  have xno: "0 < ?xno" using assms(2) by (simp add: TWOPI_def PI_def MIN_PER_DAY_def)
  have "?xno \<le> XKE" using assms(3) XKE_lower by linarith
  with xno have "1 \<le> XKE / ?xno" by (simp only: le_divide_eq_1_pos)
  then have a1: "1 \<le> pow (XKE / ?xno) TWOTHIRD" by (rule pow_TWOTHIRD_ge_1)
  have x: "tle_xno ?tle = ?xno" by (simp add: tle_xno_def circular_tle_def)
  have temp: "0 \<le> tle_temp ?tle" "tle_temp ?tle \<le> 0.002"
    by (simp_all add: tle_temp_def circular_tle_def CK2_def XJ2_def AE_def)
  from SetTle_unfolded[of ?tle] assms(1)
  obtain s1 theta2 betao2 betao eosq where
    s: "s = Initialize theta2 betao2 betao eosq s1"
    and r: "recovered_mean_motion (elems s1) =
              recovered (tle_xno ?tle) (tle_temp ?tle) (pow (XKE / tle_xno ?tle) TWOTHIRD)"
    by (auto split: if_splits)
  have el: "elems s = elems s1" using s by (simp add: Initialize_common)
  from recovered_bounds[OF xno a1 temp] r el x
  show "?xno / 1.003 \<le> recovered_mean_motion (elems s)"
    and "recovered_mean_motion (elems s) \<le> ?xno"
    by simp_all
qed

lemma circular_accepted: "\<exists>s. SetTle (circular_tle 0 0 n) = Inr s"
  using SetTle_unfolded[of "circular_tle 0 0 n"]
  by (auto simp: circular_tle_def PI_def)

text \<open>The geosynchronous example is a deep-space element set in synchronous resonance.\<close>

lemma geosynchronous_state:
  assumes "SetTle tle_geosynchronous = Inr s"
  shows "i_use_deep_space s" "d_resonance_flag s" "d_synchronous_flag s"
    "0 < recovered_mean_motion (elems s)"
proof -
  have n0: "1 * TWOPI / MIN_PER_DAY \<le> 60 / 900"
    by (simp add: TWOPI_def PI_def MIN_PER_DAY_def)
  from circular_recovered[OF assms[unfolded tle_geosynchronous_def] _ n0]
  have lo: "1 * TWOPI / MIN_PER_DAY / 1.003 \<le> recovered_mean_motion (elems s)"
    and hi: "recovered_mean_motion (elems s) \<le> 1 * TWOPI / MIN_PER_DAY"
    by simp_all
  from lo show pos: "0 < recovered_mean_motion (elems s)"
    by (simp add: TWOPI_def PI_def MIN_PER_DAY_def)
  from lo hi have band: "synchronous_band (recovered_mean_motion (elems s))"
    by (simp add: synchronous_band_def TWOPI_def PI_def MIN_PER_DAY_def)
  have "225 * recovered_mean_motion (elems s) \<le> TWOPI"
    using hi by (simp add: TWOPI_def PI_def MIN_PER_DAY_def)
  then have "225 \<le> period (elems s)"
    using pos SetTle_state(3)[OF assms] by (simp add: pos_le_divide_eq)
  then show deep: "i_use_deep_space s" using SetTle_state(2)[OF assms] by simp
  show "d_resonance_flag s" using SetTle_state(7)[OF assms] deep band by simp
  show "d_synchronous_flag s" using SetTle_state(6)[OF assms] deep band by simp
qed

section \<open>The error checks of \<^verbatim>\<open>SetTle\<close>\<close>

lemma SetTle_throws_iff:
  "isl (SetTle tle) \<longleftrightarrow>
     Eccentricity tle < 0 \<or> Eccentricity tle > 1 - 1 / 10 ^ 3 \<or> Inclination tle < 0"
proof -
  have "Eccentricity tle > PI \<Longrightarrow> Eccentricity tle > 1 - 1 / 10 ^ 3"
    by (simp add: PI_def)
  with SetTle_unfolded[of tle] show ?thesis
    by (auto split: if_splits)
qed

text \<open>
  Claim C1: \<^verbatim>\<open>SetTle\<close> throws the out-of-range exception exactly when the eccentricity
  is below 0 or above \<open>1 - 10\<^sup>-\<^sup>3\<close> or the inclination is below 0 or above \<open>\<pi>\<close>; in
  particular an element set with an inclination above \<open>\<pi>\<close> and an eccentricity in range
  is rejected. The second check of the source compares the eccentricity, not the
  inclination, with \<open>\<pi>\<close>: the element set \<open>tle_inclination_4\<close>, of eccentricity 0.1 and
  inclination 4 radians, is accepted.
\<close>

theorem SetTle_accepts_inclination_above_PI:
  "Inclination tle_inclination_4 > PI
   \<and> 0 \<le> Eccentricity tle_inclination_4
   \<and> Eccentricity tle_inclination_4 \<le> 1 - 1 / 10 ^ 3
   \<and> \<not> isl (SetTle tle_inclination_4)"
  by (simp add: SetTle_throws_iff tle_inclination_4_def circular_tle_def PI_def)

section \<open>The drag parameters chosen by the perigee altitude\<close>

text \<open>
  Claim C7: initialisation chooses \<open>s4\<close> and \<open>qoms24\<close> by the perigee altitude. Below 156
  km, \<open>s4\<close> is \<open>max (perigee - 78) 20\<close> km, turned into Earth radii as \<open>s4 / XKMPER + 1\<close>,
  and \<open>qoms24\<close> is \<open>((120 - s4) / XKMPER)\<^sup>4\<close> with \<open>s4\<close> still in km; from 156 km on, \<open>s4\<close> is
  \<open>1 + 78 / XKMPER\<close> and \<open>qoms24\<close> is \<open>((120 - 78) / XKMPER)\<^sup>4\<close>. The \<open>s4\<close> chosen is the one
  that \<^verbatim>\<open>Initialize\<close> computes \<open>tsi\<close> and \<open>i_eta\<close> with.
\<close>

theorem Initialize_s4_qoms24_by_perigee:
  "(p < 156 \<longrightarrow>
      Initialize_s4_qoms24 p =
        (max (p - 78) 20 / XKMPER + 1, ((120 - max (p - 78) 20) / XKMPER) ^ 4))
   \<and> (\<not> p < 156 \<longrightarrow>
      Initialize_s4_qoms24 p = (1 + 78 / XKMPER, ((120 - 78) / XKMPER) ^ 4))
   \<and> i_eta (common (Initialize theta2 betao2 betao eosq s)) =
       recovered_semi_major_axis (elems s) * eccentricity (elems s)
         * (1 / (recovered_semi_major_axis (elems s)
                 - fst (Initialize_s4_qoms24 (perigee (elems s)))))"
proof -
  have pow4: "pow x 4 = x ^ 4" for x by (simp add: pow_def)
  have "p < 156 \<Longrightarrow> Initialize_s4_qoms24 p =
        (max (p - 78) 20 / XKMPER + 1, ((120 - max (p - 78) 20) / XKMPER) ^ 4)"
    by (simp add: Initialize_s4_qoms24_def Let_def pow4 AE_def max_def)
  moreover have "\<not> p < 156 \<Longrightarrow>
      Initialize_s4_qoms24 p = (1 + 78 / XKMPER, ((120 - 78) / XKMPER) ^ 4)"
    by (simp add: Initialize_s4_qoms24_def Let_def pow4 S_def QOMS2T_def AE_def S0_def Q0_def)
  ultimately show ?thesis
    using Initialize_common(4)[of theta2 betao2 betao eosq s] by simp
qed

theorem Initialize_s4_qoms24_by_perigee_witness:
  "(90::real) < 156 \<and> Initialize_s4_qoms24 90 = (20 / XKMPER + 1, (100 / XKMPER) ^ 4)
   \<and> (120::real) < 156 \<and> Initialize_s4_qoms24 120 = (42 / XKMPER + 1, (78 / XKMPER) ^ 4)
   \<and> \<not> (400::real) < 156 \<and> Initialize_s4_qoms24 400 = (1 + 78 / XKMPER, (42 / XKMPER) ^ 4)"
  using Initialize_s4_qoms24_by_perigee[of 90] Initialize_s4_qoms24_by_perigee[of 120]
    Initialize_s4_qoms24_by_perigee[of 400]
  by simp

section \<open>The resonance found at initialisation and the start of the integrator\<close>

text \<open>
  Claim C5: for every deep-space element set, the resonance is synchronous exactly when
  the recovered mean motion is in the open interval from 0.0034906585 to 0.0052359877
  radians a minute, the 12 hour geopotential one exactly when it is in the closed
  interval from 0.00826 to 0.00924 and the eccentricity at epoch is at least 0.5, and
  none otherwise; with none, the integrator is not initialised and the members that
  only the resonances use stay zero. In the object, the synchronous resonance has both
  flags set, the 12 hour one \<open>d_resonance_flag\<close> alone, and none has neither.
\<close>

theorem resonance_classification:
  assumes "SetTle tle = Inr s" and "i_use_deep_space s"
  shows "(d_synchronous_flag s \<longleftrightarrow>
            0.0034906585 < recovered_mean_motion (elems s)
            \<and> recovered_mean_motion (elems s) < 0.0052359877)
       \<and> (d_resonance_flag s \<and> \<not> d_synchronous_flag s \<longleftrightarrow>
            0.00826 \<le> recovered_mean_motion (elems s)
            \<and> recovered_mean_motion (elems s) \<le> 0.00924
            \<and> 0.5 \<le> Eccentricity tle)
       \<and> (d_synchronous_flag s \<longrightarrow> d_resonance_flag s)
       \<and> (\<not> d_resonance_flag s \<longrightarrow>
            integ s =
              \<lparr>d_xfact = 0, d_xlamo = 0, d_xli = 0, d_xni = 0, d_atime = 0,
               d_xndot_0 = 0, d_xnddt_0 = 0, d_xldot_0 = 0,
               d_xndot_t = 0, d_xnddt_t = 0, d_xldot_t = 0\<rparr>
            \<and> resonance s =
              \<lparr>d_d2201 = 0, d_d2211 = 0, d_d3210 = 0, d_d3222 = 0, d_d4410 = 0,
               d_d4422 = 0, d_d5220 = 0, d_d5232 = 0, d_d5421 = 0, d_d5433 = 0,
               d_del1 = 0, d_del2 = 0, d_del3 = 0\<rparr>)"
  using SetTle_state(4,6,7,9)[OF assms(1)] assms(2)
  by (auto simp: synchronous_band_def half_day_miss_def ResetGlobalVariables_def)

theorem resonance_classification_witness:
  "\<exists>s. SetTle tle_geosynchronous = Inr s \<and> i_use_deep_space s
       \<and> d_synchronous_flag s \<and> d_resonance_flag s
       \<and> 0.0034906585 < recovered_mean_motion (elems s)
       \<and> recovered_mean_motion (elems s) < 0.0052359877"
proof -
  obtain s where s: "SetTle tle_geosynchronous = Inr s"
    using circular_accepted[of 1] by (auto simp: tle_geosynchronous_def)
  note g = geosynchronous_state[OF s]
  from resonance_classification[OF s g(1)] g show ?thesis
    using s by blast
qed

text \<open>
  Claim C4, amended: right after a successful \<^verbatim>\<open>SetTle\<close> of an element set whose recovered
  mean motion is not zero, the integrator is at \<open>d_atime = 0\<close>, \<open>d_xli = d_xlamo\<close>, \<open>d_xni =\<close>
  the recovered mean motion, if and only if a resonance was found; a near-space element
  set has none.
\<close>

theorem integrator_state_after_SetTle:
  assumes "SetTle tle = Inr s" and "recovered_mean_motion (elems s) \<noteq> 0"
  shows "((d_atime (integ s) = 0 \<and> d_xli (integ s) = d_xlamo (integ s)
           \<and> d_xni (integ s) = recovered_mean_motion (elems s))
          \<longleftrightarrow> d_resonance_flag s)
       \<and> (\<not> i_use_deep_space s \<longrightarrow> \<not> d_resonance_flag s)"
  using SetTle_state(7,8,9)[OF assms(1)] assms(2)
  by (auto simp: ResetGlobalVariables_def)

theorem integrator_state_after_SetTle_witness:
  "\<exists>s. SetTle tle_geosynchronous = Inr s \<and> recovered_mean_motion (elems s) \<noteq> 0
       \<and> d_resonance_flag s
       \<and> d_atime (integ s) = 0 \<and> d_xli (integ s) = d_xlamo (integ s)
       \<and> d_xni (integ s) = recovered_mean_motion (elems s)"
proof -
  obtain s where s: "SetTle tle_geosynchronous = Inr s"
    using circular_accepted[of 1] by (auto simp: tle_geosynchronous_def)
  note g = geosynchronous_state[OF s]
  from g(4) have n: "recovered_mean_motion (elems s) \<noteq> 0" by simp
  from integrator_state_after_SetTle[OF s n] g(2) n s show ?thesis by blast
qed

text \<open>
  Claim C4 as stated says that the integrator is away from these values for every
  accepted element set without a resonance. \<^verbatim>\<open>SetTle\<close> accepts the element set with a mean
  motion of zero and finds no resonance for it; its recovered mean motion is zero, and
  the members that \<^verbatim>\<open>ResetGlobalVariables\<close> left at zero are at these values.
\<close>

theorem integrator_at_epoch_values_without_resonance:
  "\<not> isl (SetTle tle_motionless)
   \<and> \<not> d_resonance_flag (projr (SetTle tle_motionless))
   \<and> d_atime (integ (projr (SetTle tle_motionless))) = 0
   \<and> d_xli (integ (projr (SetTle tle_motionless)))
       = d_xlamo (integ (projr (SetTle tle_motionless)))
   \<and> d_xni (integ (projr (SetTle tle_motionless)))
       = recovered_mean_motion (elems (projr (SetTle tle_motionless)))"
proof -
  let ?tle = "circular_tle 0 0 0"
  obtain s where s: "SetTle ?tle = Inr s" using circular_accepted[of 0] by blast
  from SetTle_unfolded[of ?tle] s
  obtain s1 theta2 betao2 betao eosq where
    init: "s = Initialize theta2 betao2 betao eosq s1"
    and r: "recovered_mean_motion (elems s1) =
              recovered (tle_xno ?tle) (tle_temp ?tle) (pow (XKE / tle_xno ?tle) TWOTHIRD)"
    by (auto split: if_splits)
  have "tle_xno ?tle = 0" by (simp add: tle_xno_def circular_tle_def)
  with r have "recovered_mean_motion (elems s1) = 0" by (simp add: recovered_def)
  then have n: "recovered_mean_motion (elems s) = 0" using init by (simp add: Initialize_common)
  with SetTle_state(2,3)[OF s] have "\<not> i_use_deep_space s" by simp
  with SetTle_state(7)[OF s] have res: "\<not> d_resonance_flag s" by simp
  with SetTle_state(9)[OF s] have "integ s = integ ResetGlobalVariables" by simp
  then have "d_atime (integ s) = 0" and "d_xli (integ s) = d_xlamo (integ s)"
    and "d_xni (integ s) = 0"
    by (simp_all add: ResetGlobalVariables_def)
  with res n show ?thesis by (simp add: tle_motionless_def s)
qed

section \<open>The Newton-Raphson loop\<close>

lemma kepler_loop_step:
  "i < 10 \<Longrightarrow> kepler_running k \<Longrightarrow>
     kepler_loop capu axn ayn mx i k =
       kepler_loop capu axn ayn mx (Suc i) (kepler_iteration capu axn ayn mx i k)"
  by (subst kepler_loop.simps) simp

lemma kepler_loop_exit:
  "\<not> (i < 10 \<and> kepler_running k) \<Longrightarrow> kepler_loop capu axn ayn mx i k = (i, k)"
  by (subst kepler_loop.simps) simp

text \<open>
  An iteration ends the loop exactly when it meets the tolerance, and then leaves \<open>epw\<close>
  and \<open>esine\<close> as the test saw them.
\<close>

lemma kepler_iteration_running:
  assumes "kepler_iteration capu axn ayn mx i k = k'"
  shows "kepler_running k' \<longleftrightarrow>
           kepler_running k \<and> \<not> \<bar>capu - epw k + (axn * sin (epw k) - ayn * cos (epw k))\<bar> < 1 / 10 ^ 12"
    and "kepler_running k \<Longrightarrow> \<not> kepler_running k' \<Longrightarrow>
           \<bar>capu - epw k' + esine k'\<bar> < 1 / 10 ^ 12"
  using assms by (auto simp: kepler_iteration_def Let_def split: if_splits)

text \<open>
  From the counter \<open>i\<close>, reached in \<open>i\<close> iterations with the loop still running or just
  ended within the tolerance, the loop exits at a counter of at most 10, after as many
  iterations as the counter says, and before 10 only within the tolerance.
\<close>

lemma kepler_loop_invariant:
  assumes "kepler_loop capu axn ayn mx i k = (j, k')"
    and "i \<le> 10"
    and "k = kepler_iterations capu axn ayn mx i k0"
    and "\<not> kepler_running k \<longrightarrow> \<bar>capu - epw k + esine k\<bar> < 1 / 10 ^ 12"
  shows "i \<le> j \<and> j \<le> 10 \<and> k' = kepler_iterations capu axn ayn mx j k0
         \<and> (\<not> kepler_running k' \<longrightarrow> \<bar>capu - epw k' + esine k'\<bar> < 1 / 10 ^ 12)
         \<and> (kepler_running k' \<longrightarrow> j = 10)"
  using assms
proof (induction capu axn ayn mx i k rule: kepler_loop.induct)
  case (1 capu axn ayn mx i k)
  show ?case
  proof (cases "i < 10 \<and> kepler_running k")
    case True
    let ?k1 = "kepler_iteration capu axn ayn mx i k"
    from True "1.prems"(1) have loop: "kepler_loop capu axn ayn mx (i + 1) ?k1 = (j, k')"
      by (simp add: kepler_loop_step)
    have it: "?k1 = kepler_iterations capu axn ayn mx (i + 1) k0"
      using "1.prems"(3) by simp
    have tol: "\<not> kepler_running ?k1 \<longrightarrow> \<bar>capu - epw ?k1 + esine ?k1\<bar> < 1 / 10 ^ 12"
      using kepler_iteration_running(2)[OF refl, of k capu axn ayn mx i] True by blast
    from "1.IH"[OF True loop _ it tol] True show ?thesis by auto
  next
    case False
    with "1.prems"(1) have "j = i" "k' = k" by (simp_all add: kepler_loop_exit)
    with False "1.prems" show ?thesis by auto
  qed
qed

lemma kepler_loop_from_start:
  assumes "kepler_loop capu axn ayn mx 0 (kepler_start capu) = (j, k')"
  shows "1 \<le> j \<and> j \<le> 10
         \<and> k' = kepler_iterations capu axn ayn mx j (kepler_start capu)
         \<and> (\<not> kepler_running k' \<longrightarrow> \<bar>capu - epw k' + esine k'\<bar> < 1 / 10 ^ 12)
         \<and> (kepler_running k' \<longrightarrow> j = 10)"
proof -
  let ?k1 = "kepler_iteration capu axn ayn mx 0 (kepler_start capu)"
  from assms have loop: "kepler_loop capu axn ayn mx (Suc 0) ?k1 = (j, k')"
    by (simp add: kepler_loop_step kepler_start_def)
  have it: "?k1 = kepler_iterations capu axn ayn mx (Suc 0) (kepler_start capu)" by simp
  have tol: "\<not> kepler_running ?k1 \<longrightarrow> \<bar>capu - epw ?k1 + esine ?k1\<bar> < 1 / 10 ^ 12"
    using kepler_iteration_running(2)[OF refl, of "kepler_start capu" capu axn ayn mx 0]
    by (simp add: kepler_start_def)
  from kepler_loop_invariant[OF loop _ it tol] show ?thesis by auto
qed

text \<open>The loop ends after one iteration when the start is within the tolerance.\<close>

lemma kepler_loop_at_once:
  assumes "\<bar>axn * sin capu - ayn * cos capu\<bar> < 1 / 10 ^ 12"
  shows "kepler_loop capu axn ayn mx 0 (kepler_start capu) =
           (1, (kepler_start capu)
                 \<lparr>sinepw := sin capu, cosepw := cos capu,
                  ecose := axn * cos capu + ayn * sin capu,
                  esine := axn * sin capu - ayn * cos capu,
                  kepler_running := False\<rparr>)"
proof -
  have "kepler_iteration capu axn ayn mx 0 (kepler_start capu) =
          (kepler_start capu)
            \<lparr>sinepw := sin capu, cosepw := cos capu,
             ecose := axn * cos capu + ayn * sin capu,
             esine := axn * sin capu - ayn * cos capu,
             kepler_running := False\<rparr>"
    using assms by (simp add: kepler_iteration_def kepler_start_def Let_def)
  then show ?thesis
    by (simp add: kepler_loop_step kepler_loop_exit kepler_start_def)
qed

section \<open>The exceptions of the final stage\<close>

lemma throws_only_Let: "(\<And>x. throws_only E (f x)) \<Longrightarrow> throws_only E (Let e f)"
  by simp

lemma throws_only_case_prod: "(\<And>a b. throws_only E (f a b)) \<Longrightarrow> throws_only E (case_prod f p)"
  by (cases p) simp

lemma throws_only_if:
  "\<lbrakk>throws_only E a; throws_only E b\<rbrakk> \<Longrightarrow> throws_only E (if c then a else b)"
  by simp

lemma throws_only_Inr: "throws_only E (Inr y)"
  by (simp add: throws_only_def)

lemma throws_only_Inl: "x \<in> E \<Longrightarrow> throws_only E (Inl x)"
  by (simp add: throws_only_def)

lemma throws_only_mono: "throws_only E r \<Longrightarrow> E \<subseteq> F \<Longrightarrow> throws_only F r"
  by (auto simp: throws_only_def split: sum.splits)

lemma CalculateFinalPositionVelocity_throws:
  "throws_only
     {SatelliteException ''Error: #4 (pl < 0.0)'',
      SatelliteException ''Error: #6 Satellite decayed (rk < 1.0)''}
     (CalculateFinalPositionVelocity s tsince e a omega xl xnode xincl xlcof aycof
        x3thm1 x1mth2 x7thm1 cosio sinio)"
  unfolding CalculateFinalPositionVelocity_def
  by (rule throws_only_Let throws_only_case_prod throws_only_if throws_only_Inr
         throws_only_Inl | simp)+

lemma FindPositionSDP4_periodics_throws:
  "throws_only
     {SatelliteException ''Error: #3 (e < 0.0 || e > 1.0)'',
      SatelliteException ''Error: #4 (pl < 0.0)'',
      SatelliteException ''Error: #6 Satellite decayed (rk < 1.0)''}
     (FindPositionSDP4_periodics s tsince a e xincl omgadf xnode xmam)"
  unfolding FindPositionSDP4_periodics_def
  by (rule throws_only_Let throws_only_case_prod throws_only_if throws_only_Inl
         throws_only_mono[OF CalculateFinalPositionVelocity_throws] | simp)+

lemma CalculateFinalPositionVelocity_Inl:
  assumes "CalculateFinalPositionVelocity s tsince e a omega xl xnode xincl xlcof aycof
             x3thm1 x1mth2 x7thm1 cosio sinio = Inl x"
  shows "x = SatelliteException ''Error: #4 (pl < 0.0)''
         \<or> x = SatelliteException ''Error: #6 Satellite decayed (rk < 1.0)''"
  using CalculateFinalPositionVelocity_throws[of s tsince e a omega xl xnode xincl xlcof aycof
      x3thm1 x1mth2 x7thm1 cosio sinio]
  by (simp only: assms throws_only_def sum.case) simp

lemma FindPositionSDP4_periodics_Inl:
  assumes "FindPositionSDP4_periodics s tsince a e xincl omgadf xnode xmam = Inl x"
  shows "x = SatelliteException ''Error: #3 (e < 0.0 || e > 1.0)''
         \<or> x = SatelliteException ''Error: #4 (pl < 0.0)''
         \<or> x = SatelliteException ''Error: #6 Satellite decayed (rk < 1.0)''"
  using FindPositionSDP4_periodics_throws[of s tsince a e xincl omgadf xnode xmam]
  by (simp only: assms throws_only_def sum.case) simp

text \<open>
  The eccentricity after \<^verbatim>\<open>DeepSpacePeriodics\<close>, and the third error check that
  \<^verbatim>\<open>FindPositionSDP4\<close> makes on it.
\<close>

lemma DeepSpacePeriodics_eccentricity:
  "fst (DeepSpacePeriodics t em xinc omgasm xnodes xll s) =
     (if first_run s then em else em + fst (DeepSpaceCalculateLunarSolarTerms t s))"
  by (simp add: DeepSpacePeriodics_def Let_def split_def)

lemma FindPositionSDP4_periodics_3:
  "FindPositionSDP4_periodics s tsince a e xincl omgadf xnode xmam
     = Inl (SatelliteException ''Error: #3 (e < 0.0 || e > 1.0)'')
   \<longleftrightarrow> fst (DeepSpacePeriodics tsince e xincl omgadf xnode xmam s) < 0
       \<or> fst (DeepSpacePeriodics tsince e xincl omgadf xnode xmam s) > 1"
proof (cases "fst (DeepSpacePeriodics tsince e xincl omgadf xnode xmam s) < 0
       \<or> fst (DeepSpacePeriodics tsince e xincl omgadf xnode xmam s) > 1")
  case True
  then show ?thesis by (simp add: FindPositionSDP4_periodics_def Let_def split_def)
next
  case False
  then obtain e' a' omega' xl' xnode' xincl' xlcof' aycof' x3thm1' x1mth2' x7thm1' cosio' sinio'
    where "FindPositionSDP4_periodics s tsince a e xincl omgadf xnode xmam =
      CalculateFinalPositionVelocity s tsince e' a' omega' xl' xnode' xincl' xlcof' aycof'
        x3thm1' x1mth2' x7thm1' cosio' sinio'"
    by (simp add: FindPositionSDP4_periodics_def Let_def split_def)
  with CalculateFinalPositionVelocity_Inl[of s tsince e' a' omega' xl' xnode' xincl' xlcof'
      aycof' x3thm1' x1mth2' x7thm1' cosio' sinio']
  have "FindPositionSDP4_periodics s tsince a e xincl omgadf xnode xmam
          \<noteq> Inl (SatelliteException ''Error: #3 (e < 0.0 || e > 1.0)'')"
    by auto
  with False show ?thesis by simp
qed

text \<open>
  \<^verbatim>\<open>FindPositionSGP4\<close> and \<^verbatim>\<open>FindPositionSDP4\<close> after their first check: the test of the
  eccentricity, the floor of \<open>10\<^sup>-\<^sup>6\<close>, and the call that takes the eccentricity.
\<close>

lemma FindPositionSGP4_checked:
  assumes "FindPositionSGP4_secular s t = (a, e, omega, xl, xnode, xincl)" and "0 < xl"
  shows "FindPositionSGP4 s t =
     (if e \<ge> 1 \<or> e < - (1 / 10 ^ 3) then
        Inl (SatelliteException ''Error: #1 (e >= 1.0 || e < -0.001)'')
      else CalculateFinalPositionVelocity s t (if e < 1 / 10 ^ 6 then 1 / 10 ^ 6 else e)
             a omega xl xnode xincl (i_xlcof (common s)) (i_aycof (common s))
             (i_x3thm1 (common s)) (i_x1mth2 (common s)) (i_x7thm1 (common s))
             (i_cosio (common s)) (i_sinio (common s)))"
  using assms(2) by (simp add: FindPositionSGP4_def assms(1))

lemma FindPositionSDP4_checked:
  assumes "FindPositionSDP4_secular s t =
             Some (s', (xmdf, omgadf, xnode, e, xincl, xn), tempa, tempe, templ)"
    and "0 < xn"
  shows "FindPositionSDP4 s t = Some (s',
     if e - tempe \<ge> 1 \<or> e - tempe < - (1 / 10 ^ 3) then
        Inl (SatelliteException ''Error: #1 (e >= 1.0 || e < -0.001)'')
     else FindPositionSDP4_periodics s' t (pow (XKE / xn) TWOTHIRD * pow tempa 2)
            (if e - tempe < 1 / 10 ^ 6 then 1 / 10 ^ 6 else e - tempe)
            xincl omgadf xnode (xmdf + recovered_mean_motion (elems s') * templ))"
  using assms(2) by (simp add: FindPositionSDP4_def assms(1))

lemma FindPositionSGP4_throws:
  "throws_only
     {SatelliteException ''Error: #2 (xl <= 0.0)'',
      SatelliteException ''Error: #1 (e >= 1.0 || e < -0.001)'',
      SatelliteException ''Error: #4 (pl < 0.0)'',
      SatelliteException ''Error: #6 Satellite decayed (rk < 1.0)''}
     (FindPositionSGP4 s t)"
  unfolding FindPositionSGP4_def
  by (rule throws_only_Let throws_only_case_prod throws_only_if throws_only_Inl
         throws_only_mono[OF CalculateFinalPositionVelocity_throws] | simp)+

section \<open>The resonance integrator: steps and termination\<close>

lemma step_atime:
  "d_atime (integ (DeepSpaceSecular_step delt s)) = d_atime (integ s) + delt"
  by (simp add: DeepSpaceSecular_step_def DeepSpaceIntegrator_def Let_def split_def)

lemma steps_atime:
  "d_atime (integ ((DeepSpaceSecular_step delt ^^ n) s)) = d_atime (integ s) + real n * delt"
  by (induction n) (simp_all add: step_atime algebra_simps)

lemma loop_unfold:
  "DeepSpaceSecular_loop t delt s =
     (if \<bar>t - (d_atime (integ s) + delt)\<bar> \<ge> STEP
      then DeepSpaceSecular_loop t delt (DeepSpaceSecular_step delt s)
      else Some (DeepSpaceSecular_step delt s))"
  by (subst DeepSpaceSecular_loop.simps) (simp add: Let_def step_atime)

text \<open>
  With \<open>t\<close> between \<open>n + 1\<close> and \<open>n + 2\<close> steps away in the direction \<open>d\<close> of the step, the loop
  ends after \<open>n + 1\<close> steps.
\<close>

lemma loop_steps:
  assumes "d = 1 \<or> d = - 1"
    and "STEP * real (Suc n) \<le> d * (t - d_atime (integ s))"
    and "d * (t - d_atime (integ s)) < STEP * real (Suc (Suc n))"
  shows "DeepSpaceSecular_loop t (d * STEP) s
           = Some ((DeepSpaceSecular_step (d * STEP) ^^ Suc n) s)"
  using assms(2,3)
proof (induction n arbitrary: s)
  case 0
  then have "\<bar>t - (d_atime (integ s) + d * STEP)\<bar> < STEP"
    using assms(1) by (auto simp: STEP_def)
  then show ?case by (subst loop_unfold) simp
next
  case (Suc n)
  let ?s1 = "DeepSpaceSecular_step (d * STEP) s"
  from Suc.prems have far: "\<bar>t - (d_atime (integ s) + d * STEP)\<bar> \<ge> STEP"
    using assms(1) by (auto simp: STEP_def)
  have lo: "STEP * real (Suc n) \<le> d * (t - d_atime (integ ?s1))"
    and hi: "d * (t - d_atime (integ ?s1)) < STEP * real (Suc (Suc n))"
    using Suc.prems assms(1) by (auto simp: step_atime STEP_def algebra_simps)
  have "DeepSpaceSecular_loop t (d * STEP) s = DeepSpaceSecular_loop t (d * STEP) ?s1"
    using far by (subst loop_unfold) simp
  also have "\<dots> = Some ((DeepSpaceSecular_step (d * STEP) ^^ Suc n) ?s1)"
    by (rule Suc.IH[OF lo hi])
  also have "\<dots> = Some ((DeepSpaceSecular_step (d * STEP) ^^ Suc (Suc n)) s)"
    by (simp only: funpow_Suc_right o_apply)
  finally show ?case .
qed

text \<open>The number of whole steps in a distance of a step or more.\<close>

lemma whole_steps:
  fixes x :: real
  assumes "STEP \<le> x"
  shows "\<exists>n. nat \<lfloor>x / STEP\<rfloor> = Suc n \<and> STEP * real (Suc n) \<le> x \<and> x < STEP * real (Suc (Suc n))"
proof -
  let ?m = "\<lfloor>x / STEP\<rfloor>"
  have pos: "0 < STEP" by (simp add: STEP_def)
  have "1 \<le> x / STEP" using assms pos by (simp add: pos_le_divide_eq)
  then have m1: "1 \<le> ?m" by linarith
  then obtain n where n: "nat ?m = Suc n" by (cases "nat ?m") auto
  have "real_of_int ?m = real (nat ?m)" using m1 by simp
  then have mn: "real_of_int ?m = real (Suc n)" using n by simp
  have "of_int ?m \<le> x / STEP" by (rule of_int_floor_le)
  then have lo: "STEP * real (Suc n) \<le> x" using pos mn by (simp add: pos_le_divide_eq mult.commute)
  have "x / STEP < of_int ?m + 1" by linarith
  then have "x < STEP * (real (Suc n) + 1)" using pos mn
    by (simp add: pos_divide_less_eq mult.commute)
  then have hi: "x < STEP * real (Suc (Suc n))" by (simp add: algebra_simps)
  from n lo hi show ?thesis by blast
qed


lemma integrate_run:
  "DeepSpaceSecular_integrate t s =
     run_from t (if \<bar>t\<bar> < STEP \<or> t * d_atime (integ s) \<le> 0 \<or> \<bar>t\<bar> < \<bar>d_atime (integ s)\<bar>
                 then DeepSpaceSecular_restart s else s)"
  by (simp add: DeepSpaceSecular_integrate_def run_from_def Let_def)

text \<open>
  From any object the loop ends: after \<open>n\<close> steps toward \<open>t\<close>, where \<open>n\<close> is the number of
  whole steps between the time of the integrator and \<open>t\<close>.
\<close>

lemma run_from_steps:
  obtains n where
    "run_from t s = Some ((DeepSpaceSecular_step
        (if 0 \<le> t - d_atime (integ s) then STEP else - STEP) ^^ n) s)"
    and "STEP * real n \<le> \<bar>t - d_atime (integ s)\<bar>"
    and "\<bar>t - d_atime (integ s)\<bar> < STEP * real (Suc n)"
proof (cases "\<bar>t - d_atime (integ s)\<bar> < STEP")
  case True
  then have "run_from t s = Some ((DeepSpaceSecular_step
        (if 0 \<le> t - d_atime (integ s) then STEP else - STEP) ^^ 0) s)"
    by (simp add: run_from_def Let_def)
  moreover have "STEP * real 0 \<le> \<bar>t - d_atime (integ s)\<bar>" by simp
  moreover have "\<bar>t - d_atime (integ s)\<bar> < STEP * real (Suc 0)" using True by simp
  ultimately show thesis by (rule that)
next
  case False
  let ?ft = "t - d_atime (integ s)"
  define d :: real where "d = (if 0 \<le> ?ft then 1 else - 1)"
  have d: "d = 1 \<or> d = - 1" and dft: "d * ?ft = \<bar>?ft\<bar>"
    and dS: "d * STEP = (if 0 \<le> ?ft then STEP else - STEP)"
    by (simp_all add: d_def)
  from False have "STEP \<le> \<bar>?ft\<bar>" by simp
  from whole_steps[OF this] obtain n
    where lo: "STEP * real (Suc n) \<le> \<bar>?ft\<bar>" and hi: "\<bar>?ft\<bar> < STEP * real (Suc (Suc n))"
    by blast
  have "DeepSpaceSecular_loop t (d * STEP) s
          = Some ((DeepSpaceSecular_step (d * STEP) ^^ Suc n) s)"
    by (rule loop_steps[OF d]) (simp_all only: dft lo hi)
  moreover have "run_from t s = DeepSpaceSecular_loop t (d * STEP) s"
    using False by (simp add: run_from_def Let_def dS)
  ultimately have "run_from t s = Some ((DeepSpaceSecular_step
        (if 0 \<le> ?ft then STEP else - STEP) ^^ Suc n) s)"
    by (simp only: dS)
  then show thesis using lo hi by (rule that)
qed

lemma run_from_near:
  assumes "run_from t s = Some s'"
  shows "\<bar>t - d_atime (integ s')\<bar> < STEP"
proof -
  obtain n where r: "run_from t s = Some ((DeepSpaceSecular_step
        (if 0 \<le> t - d_atime (integ s) then STEP else - STEP) ^^ n) s)"
    and lo: "STEP * real n \<le> \<bar>t - d_atime (integ s)\<bar>"
    and hi: "\<bar>t - d_atime (integ s)\<bar> < STEP * real (Suc n)"
    by (rule run_from_steps)
  from r assms have "d_atime (integ s') = d_atime (integ s)
       + real n * (if 0 \<le> t - d_atime (integ s) then STEP else - STEP)"
    by (auto simp: steps_atime)
  then show ?thesis using lo hi by (auto simp: STEP_def algebra_simps split: if_splits)
qed

section \<open>The integrator does not depend on the calls before\<close>

lemma restart_fields:
  "elems (DeepSpaceSecular_restart s) = elems s"
  "common (DeepSpaceSecular_restart s) = common s"
  "secular (DeepSpaceSecular_restart s) = secular s"
  "periodic (DeepSpaceSecular_restart s) = periodic s"
  "resonance (DeepSpaceSecular_restart s) = resonance s"
  "near (DeepSpaceSecular_restart s) = near s"
  "first_run (DeepSpaceSecular_restart s) = first_run s"
  "i_use_simple_model (DeepSpaceSecular_restart s) = i_use_simple_model s"
  "i_use_deep_space (DeepSpaceSecular_restart s) = i_use_deep_space s"
  "d_resonance_flag (DeepSpaceSecular_restart s) = d_resonance_flag s"
  "d_synchronous_flag (DeepSpaceSecular_restart s) = d_synchronous_flag s"
  "d_gsto (DeepSpaceSecular_restart s) = d_gsto s"
  "d_zmol (DeepSpaceSecular_restart s) = d_zmol s"
  "d_zmos (DeepSpaceSecular_restart s) = d_zmos s"
  "d_atime (integ (DeepSpaceSecular_restart s)) = 0"
  by (simp_all add: DeepSpaceSecular_restart_def Let_def)









lemma toward:
  fixes ft :: real
  assumes "STEP * real j \<le> \<bar>ft\<bar>"
  shows "\<bar>ft - real j * (if 0 \<le> ft then STEP else - STEP)\<bar> = \<bar>ft\<bar> - STEP * real j"
  using assms by (auto simp: STEP_def algebra_simps)

section \<open>Calls of \<^verbatim>\<open>FindPosition\<close> in sequence\<close>













section \<open>The object for a circular equatorial element set in a low orbit\<close>

text \<open>More of the object that \<^verbatim>\<open>SetTle\<close> passes to \<^verbatim>\<open>Initialize\<close>, and the arguments it passes.\<close>

lemma SetTle_unfolded_locals:
  "\<exists>s1 theta2 betao2 betao eosq.
     SetTle tle =
       (if Eccentricity tle < 0.0 \<or> Eccentricity tle > 1.0 - 1.0 / 10 ^ 3 then
          Inl (SatelliteException ''Eccentricity out of range'')
        else if Inclination tle < 0.0 \<or> Eccentricity tle > PI then
          Inl (SatelliteException ''Inclination out of range'')
        else Inr (Initialize theta2 betao2 betao eosq s1))
     \<and> theta2 = cos (Inclination tle) * cos (Inclination tle)
     \<and> betao2 = 1.0 - Eccentricity tle * Eccentricity tle
     \<and> betao = sqrt (1.0 - Eccentricity tle * Eccentricity tle)
     \<and> i_cosio (common s1) = cos (Inclination tle)
     \<and> i_sinio (common s1) = sin (Inclination tle)
     \<and> i_x3thm1 (common s1) = 3.0 * (cos (Inclination tle) * cos (Inclination tle)) - 1.0
     \<and> mean_anomoly (elems s1) = MeanAnomaly tle
     \<and> ascending_node (elems s1) = RightAscendingNode tle
     \<and> argument_perigee (elems s1) = ArgumentPerigee tle
     \<and> eccentricity (elems s1) = Eccentricity tle
     \<and> inclination (elems s1) = Inclination tle
     \<and> bstar (elems s1) = BStar tle
     \<and> perigee (elems s1) =
         (recovered_semi_major_axis (elems s1) * (1.0 - Eccentricity tle) - AE) * XKMPER
     \<and> period (elems s1) = TWOPI / recovered_mean_motion (elems s1)
     \<and> recovered_mean_motion (elems s1) =
         recovered (tle_xno tle) (tle_temp tle) (pow (XKE / tle_xno tle) TWOTHIRD)
     \<and> recovered_semi_major_axis (elems s1) =
         recovered_axis (tle_temp tle) (pow (XKE / tle_xno tle) TWOTHIRD)"
  apply (intro exI conjI)
                  apply (simp only: SetTle_def Let_def ResetGlobalVariables_def
      SGP4.simps Elements.simps CommonConstants.simps)
  subgoal by (simp only: SGP4.simps CommonConstants.simps)
  subgoal by (simp only: SGP4.simps Elements.simps)
  subgoal by (simp only: SGP4.simps Elements.simps)
  subgoal by (simp only: SGP4.simps CommonConstants.simps)
  subgoal by (simp only: SGP4.simps CommonConstants.simps)
  subgoal by (simp only: SGP4.simps CommonConstants.simps)
  subgoal by (simp only: SGP4.simps Elements.simps)
  subgoal by (simp only: SGP4.simps Elements.simps)
  subgoal by (simp only: SGP4.simps Elements.simps)
  subgoal by (simp only: SGP4.simps Elements.simps)
  subgoal by (simp only: SGP4.simps Elements.simps)
  subgoal by (simp only: SGP4.simps Elements.simps)
  subgoal by (simp only: SGP4.simps Elements.simps)
  subgoal by (simp only: SGP4.simps Elements.simps)
  subgoal by (simp only: Let_def SGP4.simps Elements.simps recovered_def tle_xno_def tle_temp_def)
  subgoal by (simp only: Let_def SGP4.simps Elements.simps recovered_axis_def tle_xno_def
        tle_temp_def)
  done

lemma Initialize_near_common:
  assumes "\<not> period (elems s) \<ge> 225"
  shows "\<exists>pinvsq tsi etasq eeta psisq coef1 c.
     common (Initialize theta2 betao2 betao eosq s) =
       Initialize_constants theta2 betao2 betao pinvsq tsi etasq eeta psisq coef1 (elems s) c
     \<and> i_use_simple_model (Initialize theta2 betao2 betao eosq s) = (perigee (elems s) < 220)
     \<and> pinvsq = 1 / (recovered_semi_major_axis (elems s) * recovered_semi_major_axis (elems s)
                      * betao2 * betao2)
     \<and> tsi = 1 / (recovered_semi_major_axis (elems s)
                   - fst (Initialize_s4_qoms24 (perigee (elems s))))
     \<and> i_eta c = recovered_semi_major_axis (elems s) * eccentricity (elems s) * tsi
     \<and> etasq = i_eta c * i_eta c
     \<and> eeta = eccentricity (elems s) * i_eta c
     \<and> psisq = \<bar>1 - etasq\<bar>
     \<and> coef1 = snd (Initialize_s4_qoms24 (perigee (elems s))) * pow tsi 4 / pow psisq 3.5
     \<and> i_cosio c = i_cosio (common s)
     \<and> i_sinio c = i_sinio (common s)
     \<and> i_x3thm1 c = i_x3thm1 (common s)"
proof -
  define tsi where "tsi = 1 / (recovered_semi_major_axis (elems s)
                   - fst (Initialize_s4_qoms24 (perigee (elems s))))"
  define c where "c = (common s)\<lparr>i_eta := recovered_semi_major_axis (elems s)
                                           * eccentricity (elems s) * tsi\<rparr>"
  define pinvsq where "pinvsq = 1 / (recovered_semi_major_axis (elems s)
                      * recovered_semi_major_axis (elems s) * betao2 * betao2)"
  define etasq where "etasq = i_eta c * i_eta c"
  define eeta where "eeta = eccentricity (elems s) * i_eta c"
  define psisq where "psisq = \<bar>1 - etasq\<bar>"
  define coef1 where "coef1 = snd (Initialize_s4_qoms24 (perigee (elems s))) * pow tsi 4
                              / pow psisq 3.5"
  have eta: "i_eta c = recovered_semi_major_axis (elems s) * eccentricity (elems s) * tsi"
    and frame: "i_cosio c = i_cosio (common s)" "i_sinio c = i_sinio (common s)"
      "i_x3thm1 c = i_x3thm1 (common s)"
    by (simp_all add: c_def)
  have "common (Initialize theta2 betao2 betao eosq s) =
       Initialize_constants theta2 betao2 betao pinvsq tsi etasq eeta psisq coef1 (elems s) c"
    using assms
    unfolding coef1_def psisq_def eeta_def etasq_def pinvsq_def c_def tsi_def
    by (cases "perigee (elems s) < 220"; simp add: Initialize_def Let_def split_def)
  moreover have "i_use_simple_model (Initialize theta2 betao2 betao eosq s)
                   = (perigee (elems s) < 220)"
    using assms
    by (cases "perigee (elems s) < 220"; simp add: Initialize_def Let_def split_def)
  ultimately show ?thesis
    using eta frame pinvsq_def tsi_def etasq_def eeta_def psisq_def coef1_def by blast
qed

lemma constants_equatorial:
  fixes theta2 betao2 betao pinvsq tsi etasq eeta psisq coef1 :: real
    and el :: Elements and c :: CommonConstants
  assumes "theta2 = 1" "betao2 = 1" "betao = 1" "etasq = 0" "eeta = 0" "psisq = 1"
    and "i_x3thm1 c = 2" "i_cosio c = 1" "i_eta c = 0"
    and "eccentricity el = 0" "recovered_semi_major_axis el \<noteq> 0"
  defines "k \<equiv> Initialize_constants theta2 betao2 betao pinvsq tsi etasq eeta psisq coef1 el c"
  shows "i_c4 k = 24 * recovered_mean_motion el * coef1 * CK2 * tsi"
    and "i_c1 k = bstar el * (coef1 * recovered_mean_motion el
                              * (recovered_semi_major_axis el + 12 * CK2 * tsi))"
    and "i_xmdot k + i_omgdot k + i_xnodot k =
           recovered_mean_motion el
           * (1 + 6 * CK2 * pinvsq + 45 * CK2 * CK2 * pinvsq * pinvsq
              + 10 * CK4 * pinvsq * pinvsq)"
    and "i_xnodcf k = - (21 / 2) * CK2 * pinvsq * recovered_mean_motion el * i_c1 k"
    and "i_t2cof k = 3 / 2 * i_c1 k"
  unfolding k_def
      apply (simp_all add: Initialize_constants_def Let_def assms)
  apply (simp_all add: algebra_simps)
  done

lemma XKE_bounds: "60 / 808 \<le> XKE" "XKE \<le> 60 / 806"
proof -
  let ?x = "XKMPER * XKMPER * XKMPER / MU"
  have up: "sqrt ?x \<le> 808"
    by (rule real_le_lsqrt) (simp_all add: XKMPER_def MU_def)
  have lo: "806 \<le> sqrt ?x"
    by (rule real_le_rsqrt) (simp add: XKMPER_def MU_def)
  from lo have pos: "0 < sqrt ?x" by linarith
  have "60 / 808 \<le> 60 / sqrt ?x"
    by (rule divide_left_mono) (use up pos in auto)
  then show "60 / 808 \<le> XKE" unfolding XKE_def by simp
  have "60 / sqrt ?x \<le> 60 / 806"
    by (rule divide_left_mono) (use lo pos in auto)
  then show "XKE \<le> 60 / 806" unfolding XKE_def by simp
qed

lemma pow_TWOTHIRD_bounds:
  assumes "0 < x" and "0 \<le> lo" and "lo ^ 3 \<le> x ^ 2" and "x ^ 2 \<le> hi ^ 3" and "0 \<le> hi"
  shows "lo \<le> pow x TWOTHIRD" and "pow x TWOTHIRD \<le> hi"
proof -
  let ?y = "x powr (2 / 3)"
  have y: "pow x TWOTHIRD = ?y" by (simp add: pow_def TWOTHIRD_def)
  have pos: "0 < ?y" using assms(1) by simp
  have "?y ^ 3 = ?y powr 3" using pos by (simp add: powr_numeral)
  also have "\<dots> = x powr 2" by (simp add: powr_powr)
  also have "\<dots> = x ^ 2" using assms(1) by (simp add: powr_numeral)
  finally have cube: "?y ^ 3 = x ^ 2" .
  show "lo \<le> pow x TWOTHIRD"
  proof (rule ccontr)
    assume "\<not> lo \<le> pow x TWOTHIRD"
    then have "?y < lo" by (simp add: y)
    then have "?y ^ 3 < lo ^ 3" using pos by (intro power_strict_mono) simp_all
    with cube assms(3) show False by simp
  qed
  show "pow x TWOTHIRD \<le> hi"
  proof (rule ccontr)
    assume "\<not> pow x TWOTHIRD \<le> hi"
    then have "hi < ?y" by (simp add: y)
    then have "hi ^ 3 < ?y ^ 3" using assms(5) by (intro power_strict_mono) simp_all
    with cube assms(4) show False by simp
  qed
qed

lemma recovered_axis_bounds:
  fixes a1 temp :: real
  assumes "1 \<le> a1" "0 \<le> temp" "temp \<le> 0.002"
  shows "0.999 * a1 \<le> recovered_axis temp a1" and "recovered_axis temp a1 \<le> a1 / 0.997"
proof -
  define del1 where "del1 = temp / (a1 * a1)"
  define q where "q = del1 * (1.0 / 3.0 + del1 * (1.0 + del1 * 134.0 / 81.0))"
  define a0 where "a0 = a1 * (1.0 - q)"
  define del0 where "del0 = temp / (a0 * a0)"
  have a1sq: "1 \<le> a1 * a1"
  proof -
    have "1 * 1 \<le> a1 * a1" by (rule mult_mono) (use assms(1) in simp_all)
    then show ?thesis by simp
  qed
  have d1: "0 \<le> del1" "del1 \<le> 0.002"
  proof -
    show "0 \<le> del1" unfolding del1_def using assms a1sq by simp
    have "del1 = temp / (a1 * a1)" by (simp add: del1_def)
    also have "\<dots> \<le> temp / 1"
      by (rule divide_left_mono) (use assms a1sq in auto)
    also have "\<dots> \<le> 0.002" using assms by simp
    finally show "del1 \<le> 0.002" .
  qed
  have inner: "0 \<le> 1.0 / 3.0 + del1 * (1.0 + del1 * 134.0 / 81.0)"
    "1.0 / 3.0 + del1 * (1.0 + del1 * 134.0 / 81.0) \<le> 0.4"
  proof -
    have a: "0 \<le> del1 * 134.0 / 81.0" "del1 * 134.0 / 81.0 \<le> 1" using d1 by simp_all
    have b: "0 \<le> del1 * (1.0 + del1 * 134.0 / 81.0)" using d1 a by simp
    have "del1 * (1.0 + del1 * 134.0 / 81.0) \<le> 0.002 * 2"
      by (rule mult_mono) (use d1 a in simp_all)
    then show "1.0 / 3.0 + del1 * (1.0 + del1 * 134.0 / 81.0) \<le> 0.4" by simp
    show "0 \<le> 1.0 / 3.0 + del1 * (1.0 + del1 * 134.0 / 81.0)" using b by simp
  qed
  have q: "0 \<le> q" "q \<le> 0.001"
  proof -
    show "0 \<le> q" unfolding q_def using d1 inner by simp
    have "q \<le> 0.002 * 0.4" unfolding q_def
      by (rule mult_mono) (use d1 inner in simp_all)
    then show "q \<le> 0.001" by simp
  qed
  have a1pos: "0 < a1" using assms(1) by simp
  have a0lo: "0.999 * a1 \<le> a0"
  proof -
    have "a1 * 0.999 \<le> a1 * (1.0 - q)"
      by (rule mult_left_mono) (use a1pos q in simp_all)
    then show ?thesis unfolding a0_def by (simp add: mult.commute)
  qed
  have a0hi: "a0 \<le> a1"
  proof -
    have "a1 * (1.0 - q) \<le> a1 * 1"
      by (rule mult_left_mono) (use a1pos q in simp_all)
    then show ?thesis unfolding a0_def by simp
  qed
  have a0: "0.999 \<le> a0" using a0lo assms(1) by simp
  have a0sq: "0.998 \<le> a0 * a0"
  proof -
    have "0.999 * 0.999 \<le> a0 * a0"
      by (rule mult_mono) (use a0 in simp_all)
    then show ?thesis by simp
  qed
  have d0: "0 \<le> del0" "del0 \<le> 0.003"
  proof -
    show "0 \<le> del0" unfolding del0_def using assms a0sq by simp
    have "del0 = temp / (a0 * a0)" by (simp add: del0_def)
    also have "\<dots> \<le> temp / 0.998"
      by (rule divide_left_mono) (use assms a0sq in auto)
    also have "\<dots> \<le> 0.002 / 0.998" by (rule divide_right_mono) (use assms in simp_all)
    also have "\<dots> \<le> 0.003" by simp
    finally show "del0 \<le> 0.003" .
  qed
  have ax: "recovered_axis temp a1 = a0 / (1.0 - del0)"
    unfolding recovered_axis_def Let_def del0_def a0_def q_def del1_def by simp
  have "a0 / 1 \<le> a0 / (1.0 - del0)"
    by (rule divide_left_mono) (use a0 d0 in auto)
  then have "a0 \<le> recovered_axis temp a1" by (simp add: ax)
  with a0lo show "0.999 * a1 \<le> recovered_axis temp a1" by (rule order_trans)
  have "a0 / (1.0 - del0) \<le> a0 / 0.997"
    by (rule divide_left_mono) (use a0 d0 in auto)
  also have "\<dots> \<le> a1 / 0.997" using a0hi by (simp add: divide_right_mono)
  finally show "recovered_axis temp a1 \<le> a1 / 0.997" by (simp add: ax)
qed

lemma s4_qoms24_positive:
  assumes "20 < p" and "p < 198"
  shows "0 < (p / XKMPER + 1) - fst (Initialize_s4_qoms24 p)"
    and "0 < snd (Initialize_s4_qoms24 p)"
proof -
  have four: "\<And>x::real. pow x 4 = x ^ 4" by (simp add: pow_def)
  have pos4: "\<And>x::real. x \<noteq> 0 \<Longrightarrow> 0 < x ^ 4"
    by (simp add: zero_less_power_eq)
  consider (low) "p < 98" | (mid) "98 \<le> p" "p < 156" | (high) "156 \<le> p" by linarith
  then have "0 < (p / XKMPER + 1) - fst (Initialize_s4_qoms24 p)
             \<and> 0 < snd (Initialize_s4_qoms24 p)"
  proof cases
    case low
    then have v: "Initialize_s4_qoms24 p = (20 / XKMPER + AE, pow ((120 - 20) * AE / XKMPER) 4)"
      by (simp add: Initialize_s4_qoms24_def Let_def)
    have "0 < (p - 20) / XKMPER" using assms by (simp add: XKMPER_def)
    then have "0 < (p / XKMPER + 1) - (20 / XKMPER + AE)"
      by (simp add: AE_def diff_divide_distrib)
    moreover have "0 < pow ((120 - 20) * AE / XKMPER) 4"
      unfolding four by (rule pos4) (simp add: AE_def XKMPER_def)
    ultimately show ?thesis by (simp only: v fst_conv snd_conv)
  next
    case mid
    then have v: "Initialize_s4_qoms24 p =
        ((p - 78) / XKMPER + AE, pow ((120 - (p - 78)) * AE / XKMPER) 4)"
      by (simp add: Initialize_s4_qoms24_def Let_def)
    have "0 < 78 / XKMPER" by (simp add: XKMPER_def)
    then have "0 < (p / XKMPER + 1) - ((p - 78) / XKMPER + AE)"
      by (simp add: AE_def diff_divide_distrib)
    moreover have "0 < pow ((120 - (p - 78)) * AE / XKMPER) 4"
      unfolding four by (rule pos4) (use mid in \<open>simp add: AE_def XKMPER_def\<close>)
    ultimately show ?thesis by (simp only: v fst_conv snd_conv)
  next
    case high
    then have v: "Initialize_s4_qoms24 p = (S, QOMS2T)"
      by (simp add: Initialize_s4_qoms24_def Let_def)
    have "0 < (p - 78) / XKMPER" using high by (simp add: XKMPER_def)
    then have "0 < (p / XKMPER + 1) - S"
      by (simp add: S_def AE_def S0_def diff_divide_distrib)
    moreover have "0 < QOMS2T"
    proof -
      have "QOMS2T = ((Q0 - S0) / XKMPER) ^ 4" by (simp add: QOMS2T_def pow_def)
      moreover have "0 < ((Q0 - S0) / XKMPER) ^ 4"
        by (rule pos4) (simp add: Q0_def S0_def XKMPER_def)
      ultimately show ?thesis by simp
    qed
    ultimately show ?thesis by (simp only: v fst_conv snd_conv)
  qed
  then show "0 < (p / XKMPER + 1) - fst (Initialize_s4_qoms24 p)"
    and "0 < snd (Initialize_s4_qoms24 p)" by simp_all
qed

lemma drag_state:
  obtains s where "SetTle tle_drag = Inr s"
    and "\<not> i_use_deep_space s" and "i_use_simple_model s"
    and "eccentricity (elems s) = 0" and "bstar (elems s) = 1 / 10 ^ 4"
    and "mean_anomoly (elems s) = 1" and "argument_perigee (elems s) = 0"
    and "ascending_node (elems s) = 0"
    and "0 < recovered_mean_motion (elems s)"
    and "0 < i_c4 (common s)"
    and "0 < i_xmdot (common s) + i_omgdot (common s) + i_xnodot (common s)"
    and "0 < i_xnodcf (common s) + recovered_mean_motion (elems s) * i_t2cof (common s)"
proof -
  let ?xno = "tle_xno tle_drag"
  let ?temp = "tle_temp tle_drag"
  let ?a1 = "pow (XKE / ?xno) TWOTHIRD"
  from SetTle_unfolded_locals[of tle_drag]
  obtain s1 theta2 betao2 betao eosq where
    set: "SetTle tle_drag = Inr (Initialize theta2 betao2 betao eosq s1)"
    and th: "theta2 = 1" "betao2 = 1" "betao = 1"
    and c1: "i_cosio (common s1) = 1" "i_x3thm1 (common s1) = 2"
    and e1: "mean_anomoly (elems s1) = 1" "ascending_node (elems s1) = 0"
      "argument_perigee (elems s1) = 0" "eccentricity (elems s1) = 0"
      "bstar (elems s1) = 1 / 10 ^ 4"
    and per: "perigee (elems s1) = (recovered_semi_major_axis (elems s1) - 1) * XKMPER"
    and period: "period (elems s1) = TWOPI / recovered_mean_motion (elems s1)"
    and n: "recovered_mean_motion (elems s1) = recovered ?xno ?temp ?a1"
    and ax: "recovered_semi_major_axis (elems s1) = recovered_axis ?temp ?a1"
    by (auto simp: tle_drag_def PI_def AE_def)
  define s where "s = Initialize theta2 betao2 betao eosq s1"
  let ?n = "recovered_mean_motion (elems s1)"
  let ?a = "recovered_semi_major_axis (elems s1)"
  let ?p = "perigee (elems s1)"
  have xno: "?xno = 16.6 * TWOPI / MIN_PER_DAY" by (simp add: tle_xno_def tle_drag_def)
  have xno_pos: "0 < ?xno" by (simp add: xno TWOPI_def PI_def MIN_PER_DAY_def)
  have temp: "0 \<le> ?temp" "?temp \<le> 0.002"
    by (simp_all add: tle_temp_def tle_drag_def CK2_def XJ2_def AE_def)
  have x_lo: "1.0252 \<le> XKE / ?xno"
  proof -
    have "1.0252 * ?xno \<le> 60 / 808" by (simp add: xno TWOPI_def PI_def MIN_PER_DAY_def)
    also have "\<dots> \<le> XKE" by (rule XKE_bounds)
    finally show ?thesis using xno_pos by (simp add: pos_le_divide_eq)
  qed
  have x_hi: "XKE / ?xno \<le> 1.0278"
  proof -
    have "XKE \<le> 60 / 806" by (rule XKE_bounds)
    also have "\<dots> \<le> 1.0278 * ?xno" by (simp add: xno TWOPI_def PI_def MIN_PER_DAY_def)
    finally show ?thesis using xno_pos by (simp add: pos_divide_le_eq)
  qed
  have x_pos: "0 < XKE / ?xno" by (rule less_le_trans[OF _ x_lo]) simp
  have sq_lo: "1.012 ^ 3 \<le> (XKE / ?xno) ^ 2"
  proof -
    have "(1.012::real) ^ 3 \<le> 1.0252 ^ 2" by (simp add: power2_eq_square power3_eq_cube)
    also have "\<dots> \<le> (XKE / ?xno) ^ 2" by (rule power_mono) (use x_lo in simp_all)
    finally show ?thesis .
  qed
  have sq_hi: "(XKE / ?xno) ^ 2 \<le> 1.025 ^ 3"
  proof -
    have "(XKE / ?xno) ^ 2 \<le> 1.0278 ^ 2" by (rule power_mono) (use x_hi x_pos in simp_all)
    also have "\<dots> \<le> (1.025::real) ^ 3" by (simp add: power2_eq_square power3_eq_cube)
    finally show ?thesis .
  qed
  have a1: "1.012 \<le> ?a1" "?a1 \<le> 1.025"
    using pow_TWOTHIRD_bounds[OF x_pos _ sq_lo sq_hi] by simp_all
  then have a1_1: "1 \<le> ?a1" by simp
  from recovered_bounds[OF xno_pos a1_1 temp] n
  have n_lo: "?xno / 1.003 \<le> ?n" and n_hi: "?n \<le> ?xno" by simp_all
  have "0 < ?xno / 1.003" using xno_pos by simp
  then have n_pos: "0 < ?n" using n_lo by (rule less_le_trans)
  from recovered_axis_bounds[OF a1_1 temp] ax
  have "0.999 * ?a1 \<le> ?a" and "?a \<le> ?a1 / 0.997" by simp_all
  with a1 have a_lo: "1.01 \<le> ?a" and a_hi: "?a \<le> 1.029" by simp_all
  have p: "20 < ?p" "?p < 198" using a_lo a_hi by (simp_all add: per XKMPER_def)
  have near: "\<not> period (elems s1) \<ge> 225"
  proof -
    have "TWOPI < 225 * (?xno / 1.003)" by (simp add: xno TWOPI_def PI_def MIN_PER_DAY_def)
    also have "\<dots> \<le> 225 * ?n" using n_lo by simp
    finally have "TWOPI / ?n < 225" using n_pos by (simp add: pos_divide_less_eq)
    then show ?thesis by (simp add: period)
  qed
  from Initialize_near_common[OF near, of theta2 betao2 betao eosq]
  obtain pinvsq tsi etasq eeta psisq coef1 c where
    k: "common s =
          Initialize_constants theta2 betao2 betao pinvsq tsi etasq eeta psisq coef1 (elems s1) c"
    and simple: "i_use_simple_model s = (?p < 220)"
    and pinvsq: "pinvsq = 1 / (?a * ?a * betao2 * betao2)"
    and tsi: "tsi = 1 / (?a - fst (Initialize_s4_qoms24 ?p))"
    and eta: "i_eta c = ?a * eccentricity (elems s1) * tsi"
    and etasq: "etasq = i_eta c * i_eta c"
    and eeta: "eeta = eccentricity (elems s1) * i_eta c"
    and psisq: "psisq = \<bar>1 - etasq\<bar>"
    and coef1: "coef1 = snd (Initialize_s4_qoms24 ?p) * pow tsi 4 / pow psisq 3.5"
    and cc: "i_cosio c = i_cosio (common s1)" "i_x3thm1 c = i_x3thm1 (common s1)"
    unfolding s_def by blast
  have el: "elems s = elems s1" by (simp add: s_def Initialize_common)
  have deep: "\<not> i_use_deep_space s" using near by (simp add: s_def Initialize_common)
  have z: "i_eta c = 0" "etasq = 0" "eeta = 0" "psisq = 1"
    by (simp_all add: eta etasq eeta psisq e1)
  have "XKMPER \<noteq> 0" by (simp add: XKMPER_def)
  then have a_eq: "?a = ?p / XKMPER + 1" by (simp add: per)
  from s4_qoms24_positive[OF p] have den: "0 < ?a - fst (Initialize_s4_qoms24 ?p)"
    and q: "0 < snd (Initialize_s4_qoms24 ?p)" by (simp_all add: a_eq)
  from den have tsi_pos: "0 < tsi" by (simp add: tsi)
  have "pow tsi 4 = tsi ^ 4" by (simp add: pow_def)
  moreover have "pow 1 3.5 = 1" by (simp add: pow_def)
  ultimately have "coef1 = snd (Initialize_s4_qoms24 ?p) * tsi ^ 4" by (simp add: coef1 z)
  with q tsi_pos have coef1_pos: "0 < coef1" by simp
  have a_pos: "0 < ?a" using a_lo by simp
  have "1 * 1 \<le> ?a * ?a" by (rule mult_mono) (use a_lo in simp_all)
  then have pinv: "0 < pinvsq" "pinvsq \<le> 1" by (simp_all add: pinvsq th)
  have c2: "i_x3thm1 c = 2" "i_cosio c = 1" by (simp_all add: cc c1)
  have a_ne: "?a \<noteq> 0" using a_lo by simp
  note f = constants_equatorial[where pinvsq = pinvsq and tsi = tsi and ?coef1.0 = coef1,
      OF th z(2,3,4) c2 z(1) e1(4) a_ne, folded k]
  have c4: "i_c4 (common s) = 24 * ?n * coef1 * CK2 * tsi"
    and c1v: "i_c1 (common s) = bstar (elems s1) * (coef1 * ?n * (?a + 12 * CK2 * tsi))"
    and rates: "i_xmdot (common s) + i_omgdot (common s) + i_xnodot (common s) =
           ?n * (1 + 6 * CK2 * pinvsq + 45 * CK2 * CK2 * pinvsq * pinvsq
                 + 10 * CK4 * pinvsq * pinvsq)"
    and xnodcf: "i_xnodcf (common s) = - (21 / 2) * CK2 * pinvsq * ?n * i_c1 (common s)"
    and t2cof: "i_t2cof (common s) = 3 / 2 * i_c1 (common s)"
    using f by simp_all
  have CK2: "0 < CK2" "CK2 \<le> 0.001" by (simp_all add: CK2_def XJ2_def AE_def)
  have CK4: "0 < CK4" by (simp add: CK4_def XJ4_def AE_def)
  have c4_pos: "0 < i_c4 (common s)"
    using n_pos coef1_pos CK2 tsi_pos by (simp add: c4)
  have c1_pos: "0 < i_c1 (common s)"
    using n_pos coef1_pos CK2 tsi_pos a_pos by (simp add: c1v e1 add_pos_pos)
  have rates_pos: "0 < i_xmdot (common s) + i_omgdot (common s) + i_xnodot (common s)"
    unfolding rates using n_pos CK2 CK4 pinv
    by (intro mult_pos_pos add_pos_nonneg) simp_all
  have "i_xnodcf (common s) + ?n * i_t2cof (common s)
          = ?n * i_c1 (common s) * (3 / 2 - 21 / 2 * (CK2 * pinvsq))"
    by (simp add: xnodcf t2cof algebra_simps)
  moreover have "CK2 * pinvsq \<le> 0.001 * 1"
    by (rule mult_mono) (use CK2 pinv in simp_all)
  ultimately have quad: "0 < i_xnodcf (common s) + ?n * i_t2cof (common s)"
    using n_pos c1_pos by simp
  show thesis
    by (rule that[of s])
      (use set deep simple p e1 n_pos c4_pos rates_pos quad in \<open>simp_all add: s_def[symmetric] el\<close>)
qed

text \<open>The eccentricity and \<open>xl\<close> after the drag update of the simple model.\<close>

lemma FindPositionSGP4_secular_simple:
  assumes "i_use_simple_model s"
  shows "secular_e (FindPositionSGP4_secular s t) =
           eccentricity (elems s) - bstar (elems s) * i_c4 (common s) * t"
    and "secular_xl (FindPositionSGP4_secular s t) =
           mean_anomoly (elems s) + argument_perigee (elems s) + ascending_node (elems s)
           + (i_xmdot (common s) + i_omgdot (common s) + i_xnodot (common s)) * t
           + (i_xnodcf (common s) + recovered_mean_motion (elems s) * i_t2cof (common s))
             * (t * t)"
  using assms by (simp_all add: FindPositionSGP4_secular_def Let_def algebra_simps)

lemma drag_object_facts:
  shows "SetTle tle_drag = Inr drag_object"
    and "\<not> i_use_deep_space drag_object"
    and "secular_e (FindPositionSGP4_secular drag_object drag_time) = - (1 / 1000)"
    and "0 < secular_xl (FindPositionSGP4_secular drag_object drag_time)"
proof -
  obtain s where s: "SetTle tle_drag = Inr s"
    and deep: "\<not> i_use_deep_space s" and simple: "i_use_simple_model s"
    and e: "eccentricity (elems s) = 0" and b: "bstar (elems s) = 1 / 10 ^ 4"
    and m: "mean_anomoly (elems s) = 1" "argument_perigee (elems s) = 0"
      "ascending_node (elems s) = 0"
    and c4: "0 < i_c4 (common s)"
    and rates: "0 < i_xmdot (common s) + i_omgdot (common s) + i_xnodot (common s)"
    and quad: "0 < i_xnodcf (common s) + recovered_mean_motion (elems s) * i_t2cof (common s)"
    by (rule drag_state)
  have obj: "drag_object = s" by (simp add: drag_object_def s)
  show "SetTle tle_drag = Inr drag_object" by (simp only: obj s)
  show "\<not> i_use_deep_space drag_object" by (simp only: obj deep) simp
  define bc where "bc = bstar (elems s) * i_c4 (common s)"
  have bc: "0 < bc" using c4 by (simp add: bc_def b)
  have t: "drag_time = (1 / 1000) / bc"
    by (simp only: drag_time_def obj bc_def)
  from bc have t_pos: "0 < drag_time" by (simp add: t)
  have "bc * drag_time = 1 / 1000" using bc by (simp add: t)
  then have "bstar (elems s) * i_c4 (common s) * drag_time = 1 / 1000"
    by (simp only: bc_def)
  then show "secular_e (FindPositionSGP4_secular drag_object drag_time) = - (1 / 1000)"
    by (simp add: obj FindPositionSGP4_secular_simple(1)[OF simple] e)
  have "0 \<le> (i_xmdot (common s) + i_omgdot (common s) + i_xnodot (common s)) * drag_time"
    using rates t_pos by simp
  moreover have "0 \<le> (i_xnodcf (common s) + recovered_mean_motion (elems s)
                          * i_t2cof (common s)) * (drag_time * drag_time)"
    using quad t_pos by simp
  ultimately show "0 < secular_xl (FindPositionSGP4_secular drag_object drag_time)"
    by (simp add: obj FindPositionSGP4_secular_simple(2)[OF simple] m)
qed

text \<open>The drag update of \<^verbatim>\<open>FindPositionSDP4\<close> at the epoch, for the geosynchronous object.\<close>

lemma geosynchronous_object_epoch:
  "\<exists>s' xmdf xn. FindPositionSDP4_secular geosynchronous_object 0 =
       Some (s', (xmdf, 0, 0, 0, 0, xn), 1, 0, 0) \<and> 0 < xn"
proof -
  obtain s where s: "SetTle tle_geosynchronous = Inr s"
    using circular_accepted[of 1] by (auto simp: tle_geosynchronous_def)
  note g = geosynchronous_state[OF s]
  have obj: "geosynchronous_object = s" by (simp add: geosynchronous_object_def s)
  from SetTle_unfolded_locals[of tle_geosynchronous] s
  obtain s1 theta2 betao2 betao eosq where
    init: "s = Initialize theta2 betao2 betao eosq s1"
    and e1: "ascending_node (elems s1) = 0" "argument_perigee (elems s1) = 0"
      "eccentricity (elems s1) = 0" "inclination (elems s1) = 0"
    by (auto simp: tle_geosynchronous_def circular_tle_def split: if_splits)
  have el: "elems s = elems s1" by (simp add: init Initialize_common)
  have int: "DeepSpaceSecular_integrate 0 s = Some (DeepSpaceSecular_restart s)"
    by (simp add: DeepSpaceSecular_integrate_def Let_def restart_fields STEP_def)
  have xni: "d_xni (integ (DeepSpaceSecular_restart s)) = recovered_mean_motion (elems s)"
    by (simp add: DeepSpaceSecular_restart_def Let_def)
  have "\<exists>xmdf. FindPositionSDP4_secular s 0 =
       Some (DeepSpaceSecular_restart s,
             (xmdf, 0, 0, 0, 0, recovered_mean_motion (elems s)), 1, 0, 0)"
    using g(2)
    by (simp add: FindPositionSDP4_secular_def DeepSpaceSecular_def int Let_def xni
        restart_fields el e1)
  with g(4) show ?thesis by (simp only: obj) blast
qed

section \<open>Kepler's equation is solved without a convergence error\<close>

text \<open>
  Claim C10: the Newton-Raphson loop of \<^verbatim>\<open>CalculateFinalPositionVelocity\<close> never reports
  that it did not converge. From its start the loop makes at least one and at most 10
  iterations; it exits before the tenth only when the test \<open>\<bar>f\<bar> < 10\<^sup>-\<^sup>1\<^sup>2\<close> has succeeded;
  when the test never succeeds it exits at the counter 10, and the routine goes on with
  the variables of the tenth iteration. The only exceptions of the routine are those of
  the checks #4 and #6 that follow the loop.
\<close>

theorem kepler_loop_never_fails:
  "\<exists>j k. kepler_loop capu axn ayn mx 0 (kepler_start capu) = (j, k)
     \<and> 1 \<le> j \<and> j \<le> 10
     \<and> k = kepler_iterations capu axn ayn mx j (kepler_start capu)
     \<and> (j < 10 \<longrightarrow> \<not> kepler_running k \<and> \<bar>capu - epw k + esine k\<bar> < 1 / 10 ^ 12)
     \<and> (kepler_running k \<longrightarrow> j = 10)
     \<and> throws_only
          {SatelliteException ''Error: #4 (pl < 0.0)'',
           SatelliteException ''Error: #6 Satellite decayed (rk < 1.0)''}
          (CalculateFinalPositionVelocity s tsince e a omega xl xnode xincl xlcof aycof
             x3thm1 x1mth2 x7thm1 cosio sinio)"
proof -
  obtain j k where loop: "kepler_loop capu axn ayn mx 0 (kepler_start capu) = (j, k)"
    by (cases "kepler_loop capu axn ayn mx 0 (kepler_start capu)")
  note inv = kepler_loop_from_start[OF loop]
  from inv have "j < 10 \<longrightarrow> \<not> kepler_running k \<and> \<bar>capu - epw k + esine k\<bar> < 1 / 10 ^ 12"
    by auto
  with loop inv CalculateFinalPositionVelocity_throws show ?thesis by blast
qed

theorem kepler_loop_never_fails_witness:
  "\<exists>j k. kepler_loop 0 0 0 0 0 (kepler_start 0) = (j, k)
     \<and> j = 1 \<and> j < 10 \<and> \<not> kepler_running k \<and> \<bar>0 - epw k + esine k\<bar> < 1 / 10 ^ 12
     \<and> throws_only
          {SatelliteException ''Error: #4 (pl < 0.0)'',
           SatelliteException ''Error: #6 Satellite decayed (rk < 1.0)''}
          (CalculateFinalPositionVelocity ResetGlobalVariables 0 0 (- 1) 0 0 0 0 0 0 0 0 0 0 0)
     \<and> CalculateFinalPositionVelocity ResetGlobalVariables 0 0 (- 1) 0 0 0 0 0 0 0 0 0 0 0
         = Inl (SatelliteException ''Error: #4 (pl < 0.0)'')"
proof -
  have once: "kepler_loop 0 0 0 0 0 (kepler_start 0) =
      (1, (kepler_start 0)\<lparr>sinepw := sin 0, cosepw := cos 0, ecose := 0 * cos 0 + 0 * sin 0,
            esine := 0 * sin 0 - 0 * cos 0, kepler_running := False\<rparr>)"
    by (rule kepler_loop_at_once) simp
  have "fmod 0 TWOPI = 0" by (simp add: fmod_def)
  then have "CalculateFinalPositionVelocity ResetGlobalVariables 0 0 (- 1) 0 0 0 0 0 0 0 0 0 0 0
         = Inl (SatelliteException ''Error: #4 (pl < 0.0)'')"
    by (simp add: CalculateFinalPositionVelocity_def once)
  with kepler_loop_never_fails[of 0 0 0 0 ResetGlobalVariables 0 0 "- 1" 0 0 0 0 0 0 0 0 0 0 0]
    once
  show ?thesis by auto
qed

section \<open>The eccentricity after the drag update\<close>

lemma FindPositionSGP4_validation:
  assumes "FindPositionSGP4_secular s t = (a, e, omega, xl, xnode, xincl)" and "0 < xl"
  shows "(FindPositionSGP4 s t = Inl (SatelliteException ''Error: #1 (e >= 1.0 || e < -0.001)'')
            \<longleftrightarrow> e \<ge> 1 \<or> e < - (1 / 10 ^ 3))
     \<and> (\<not> (e \<ge> 1 \<or> e < - (1 / 10 ^ 3)) \<longrightarrow>
          FindPositionSGP4 s t =
            CalculateFinalPositionVelocity s t
              (if - (1 / 10 ^ 3) \<le> e \<and> e < 1 / 10 ^ 6 then 1 / 10 ^ 6 else e)
              a omega xl xnode xincl (i_xlcof (common s)) (i_aycof (common s))
              (i_x3thm1 (common s)) (i_x1mth2 (common s)) (i_x7thm1 (common s))
              (i_cosio (common s)) (i_sinio (common s)))"
proof -
  note near = FindPositionSGP4_checked[OF assms]
  have n1: "FindPositionSGP4 s t = Inl (SatelliteException ''Error: #1 (e >= 1.0 || e < -0.001)'')
            \<longleftrightarrow> e \<ge> 1 \<or> e < - (1 / 10 ^ 3)"
  proof (cases "e \<ge> 1 \<or> e < - (1 / 10 ^ 3)")
    case True
    then show ?thesis by (simp add: near)
  next
    case False
    then have "FindPositionSGP4 s t =
        CalculateFinalPositionVelocity s t (if e < 1 / 10 ^ 6 then 1 / 10 ^ 6 else e)
             a omega xl xnode xincl (i_xlcof (common s)) (i_aycof (common s))
             (i_x3thm1 (common s)) (i_x1mth2 (common s)) (i_x7thm1 (common s))
             (i_cosio (common s)) (i_sinio (common s))"
      by (simp only: near if_False)
    with CalculateFinalPositionVelocity_Inl[of s t "if e < 1 / 10 ^ 6 then 1 / 10 ^ 6 else e"
        a omega xl xnode xincl "i_xlcof (common s)" "i_aycof (common s)"
        "i_x3thm1 (common s)" "i_x1mth2 (common s)" "i_x7thm1 (common s)"
        "i_cosio (common s)" "i_sinio (common s)"]
    have "FindPositionSGP4 s t
            \<noteq> Inl (SatelliteException ''Error: #1 (e >= 1.0 || e < -0.001)'')"
      by auto
    with False show ?thesis by simp
  qed
  have n2: "\<not> (e \<ge> 1 \<or> e < - (1 / 10 ^ 3)) \<longrightarrow>
          FindPositionSGP4 s t =
            CalculateFinalPositionVelocity s t
              (if - (1 / 10 ^ 3) \<le> e \<and> e < 1 / 10 ^ 6 then 1 / 10 ^ 6 else e)
              a omega xl xnode xincl (i_xlcof (common s)) (i_aycof (common s))
              (i_x3thm1 (common s)) (i_x1mth2 (common s)) (i_x7thm1 (common s))
              (i_cosio (common s)) (i_sinio (common s))"
    by (auto simp: near)
  from n1 n2 show ?thesis by (intro conjI)
qed

lemma FindPositionSDP4_validation:
  assumes "FindPositionSDP4_secular s t =
           Some (s', (xmdf, omgadf, dnode, de, dincl, xn), tempa, tempe, templ)"
    and "0 < xn"
  shows "(FindPositionSDP4 s t =
            Some (s', Inl (SatelliteException ''Error: #1 (e >= 1.0 || e < -0.001)''))
            \<longleftrightarrow> de - tempe \<ge> 1 \<or> de - tempe < - (1 / 10 ^ 3))
     \<and> (\<not> (de - tempe \<ge> 1 \<or> de - tempe < - (1 / 10 ^ 3)) \<longrightarrow>
          FindPositionSDP4 s t =
            Some (s', FindPositionSDP4_periodics s' t (pow (XKE / xn) TWOTHIRD * pow tempa 2)
              (if - (1 / 10 ^ 3) \<le> de - tempe \<and> de - tempe < 1 / 10 ^ 6 then 1 / 10 ^ 6
               else de - tempe)
              dincl omgadf dnode (xmdf + recovered_mean_motion (elems s') * templ)))"
proof -
  note deep = FindPositionSDP4_checked[OF assms]
  have d1: "FindPositionSDP4 s t =
            Some (s', Inl (SatelliteException ''Error: #1 (e >= 1.0 || e < -0.001)''))
            \<longleftrightarrow> de - tempe \<ge> 1 \<or> de - tempe < - (1 / 10 ^ 3)"
  proof (cases "de - tempe \<ge> 1 \<or> de - tempe < - (1 / 10 ^ 3)")
    case True
    then show ?thesis by (simp add: deep)
  next
    case False
    let ?r = "FindPositionSDP4_periodics s' t (pow (XKE / xn) TWOTHIRD * pow tempa 2)
            (if de - tempe < 1 / 10 ^ 6 then 1 / 10 ^ 6 else de - tempe)
            dincl omgadf dnode (xmdf + recovered_mean_motion (elems s') * templ)"
    from False have call: "FindPositionSDP4 s t = Some (s', ?r)" by (simp only: deep if_False)
    have "?r \<noteq> Inl (SatelliteException ''Error: #1 (e >= 1.0 || e < -0.001)'')"
      using FindPositionSDP4_periodics_Inl[of s' t "pow (XKE / xn) TWOTHIRD * pow tempa 2"
        "if de - tempe < 1 / 10 ^ 6 then 1 / 10 ^ 6 else de - tempe"
        dincl omgadf dnode "xmdf + recovered_mean_motion (elems s') * templ"]
      by auto
    with False call show ?thesis by simp
  qed
  have d2: "\<not> (de - tempe \<ge> 1 \<or> de - tempe < - (1 / 10 ^ 3)) \<longrightarrow>
          FindPositionSDP4 s t =
            Some (s', FindPositionSDP4_periodics s' t (pow (XKE / xn) TWOTHIRD * pow tempa 2)
              (if - (1 / 10 ^ 3) \<le> de - tempe \<and> de - tempe < 1 / 10 ^ 6 then 1 / 10 ^ 6
               else de - tempe)
              dincl omgadf dnode (xmdf + recovered_mean_motion (elems s') * templ))"
    by (auto simp: deep)
  from d1 d2 show ?thesis by (intro conjI)
qed

text \<open>
  Claim C6, amended: in each model, once the check before has passed (\<open>xl > 0\<close> in
  \<^verbatim>\<open>FindPositionSGP4\<close>, \<open>xn > 0\<close> in \<^verbatim>\<open>FindPositionSDP4\<close>), the call throws the exception #1
  exactly when the eccentricity \<open>e\<close> after the drag update has \<open>e \<ge> 1\<close> or \<open>e < - 10\<^sup>-\<^sup>3\<close>;
  otherwise the computation goes on with \<open>10\<^sup>-\<^sup>6\<close> in place of \<open>e\<close> exactly when
  \<open>- 10\<^sup>-\<^sup>3 \<le> e < 10\<^sup>-\<^sup>6\<close>, the lower end included, and with \<open>e\<close> itself when \<open>10\<^sup>-\<^sup>6 \<le> e < 1\<close>.
\<close>

theorem eccentricity_check_and_floor:
  "(FindPositionSGP4_secular s t = (a, e, omega, xl, xnode, xincl) \<and> 0 < xl \<longrightarrow>
      (FindPositionSGP4 s t = Inl (SatelliteException ''Error: #1 (e >= 1.0 || e < -0.001)'')
         \<longleftrightarrow> e \<ge> 1 \<or> e < - (1 / 10 ^ 3))
      \<and> (\<not> (e \<ge> 1 \<or> e < - (1 / 10 ^ 3)) \<longrightarrow>
           FindPositionSGP4 s t =
             CalculateFinalPositionVelocity s t
               (if - (1 / 10 ^ 3) \<le> e \<and> e < 1 / 10 ^ 6 then 1 / 10 ^ 6 else e)
               a omega xl xnode xincl (i_xlcof (common s)) (i_aycof (common s))
               (i_x3thm1 (common s)) (i_x1mth2 (common s)) (i_x7thm1 (common s))
               (i_cosio (common s)) (i_sinio (common s))))
   \<and> (FindPositionSDP4_secular s t =
         Some (s', (xmdf, omgadf, dnode, de, dincl, xn), tempa, tempe, templ) \<and> 0 < xn \<longrightarrow>
      (FindPositionSDP4 s t =
         Some (s', Inl (SatelliteException ''Error: #1 (e >= 1.0 || e < -0.001)''))
         \<longleftrightarrow> de - tempe \<ge> 1 \<or> de - tempe < - (1 / 10 ^ 3))
      \<and> (\<not> (de - tempe \<ge> 1 \<or> de - tempe < - (1 / 10 ^ 3)) \<longrightarrow>
           FindPositionSDP4 s t =
             Some (s', FindPositionSDP4_periodics s' t (pow (XKE / xn) TWOTHIRD * pow tempa 2)
               (if - (1 / 10 ^ 3) \<le> de - tempe \<and> de - tempe < 1 / 10 ^ 6 then 1 / 10 ^ 6
                else de - tempe)
               dincl omgadf dnode (xmdf + recovered_mean_motion (elems s') * templ))))"
proof (rule conjI; rule impI)
  assume "FindPositionSGP4_secular s t = (a, e, omega, xl, xnode, xincl) \<and> 0 < xl"
  then have "FindPositionSGP4_secular s t = (a, e, omega, xl, xnode, xincl)" and "0 < xl"
    by simp_all
  then show "(FindPositionSGP4 s t = Inl (SatelliteException ''Error: #1 (e >= 1.0 || e < -0.001)'')
         \<longleftrightarrow> e \<ge> 1 \<or> e < - (1 / 10 ^ 3))
      \<and> (\<not> (e \<ge> 1 \<or> e < - (1 / 10 ^ 3)) \<longrightarrow>
           FindPositionSGP4 s t =
             CalculateFinalPositionVelocity s t
               (if - (1 / 10 ^ 3) \<le> e \<and> e < 1 / 10 ^ 6 then 1 / 10 ^ 6 else e)
               a omega xl xnode xincl (i_xlcof (common s)) (i_aycof (common s))
               (i_x3thm1 (common s)) (i_x1mth2 (common s)) (i_x7thm1 (common s))
               (i_cosio (common s)) (i_sinio (common s)))"
    by (rule FindPositionSGP4_validation)
next
  assume "FindPositionSDP4_secular s t =
         Some (s', (xmdf, omgadf, dnode, de, dincl, xn), tempa, tempe, templ) \<and> 0 < xn"
  then have "FindPositionSDP4_secular s t =
         Some (s', (xmdf, omgadf, dnode, de, dincl, xn), tempa, tempe, templ)" and "0 < xn"
    by simp_all
  then show "(FindPositionSDP4 s t =
         Some (s', Inl (SatelliteException ''Error: #1 (e >= 1.0 || e < -0.001)''))
         \<longleftrightarrow> de - tempe \<ge> 1 \<or> de - tempe < - (1 / 10 ^ 3))
      \<and> (\<not> (de - tempe \<ge> 1 \<or> de - tempe < - (1 / 10 ^ 3)) \<longrightarrow>
           FindPositionSDP4 s t =
             Some (s', FindPositionSDP4_periodics s' t (pow (XKE / xn) TWOTHIRD * pow tempa 2)
               (if - (1 / 10 ^ 3) \<le> de - tempe \<and> de - tempe < 1 / 10 ^ 6 then 1 / 10 ^ 6
                else de - tempe)
               dincl omgadf dnode (xmdf + recovered_mean_motion (elems s') * templ)))"
    by (rule FindPositionSDP4_validation)
qed

theorem eccentricity_check_and_floor_witness:
  "SetTle tle_drag = Inr drag_object
   \<and> 0 < secular_xl (FindPositionSGP4_secular drag_object drag_time)
   \<and> secular_e (FindPositionSGP4_secular drag_object drag_time) = - (1 / 1000)
   \<and> FindPositionSGP4 drag_object drag_time =
       CalculateFinalPositionVelocity drag_object drag_time (1 / 10 ^ 6)
         (secular_a (FindPositionSGP4_secular drag_object drag_time))
         (secular_omega (FindPositionSGP4_secular drag_object drag_time))
         (secular_xl (FindPositionSGP4_secular drag_object drag_time))
         (secular_xnode (FindPositionSGP4_secular drag_object drag_time))
         (secular_xincl (FindPositionSGP4_secular drag_object drag_time))
         (i_xlcof (common drag_object)) (i_aycof (common drag_object))
         (i_x3thm1 (common drag_object)) (i_x1mth2 (common drag_object))
         (i_x7thm1 (common drag_object))
         (i_cosio (common drag_object)) (i_sinio (common drag_object))
   \<and> (\<exists>s' xmdf xn.
         FindPositionSDP4_secular geosynchronous_object 0 =
           Some (s', (xmdf, 0, 0, 0, 0, xn), 1, 0, 0)
         \<and> 0 < xn
         \<and> FindPositionSDP4 geosynchronous_object 0 =
             Some (s', FindPositionSDP4_periodics s' 0 (pow (XKE / xn) TWOTHIRD * pow 1 2)
               (1 / 10 ^ 6) 0 0 0 (xmdf + recovered_mean_motion (elems s') * 0)))"
proof -
  let ?r = "FindPositionSGP4_secular drag_object drag_time"
  note d = drag_object_facts
  have r: "?r = (secular_a ?r, secular_e ?r, secular_omega ?r, secular_xl ?r,
                 secular_xnode ?r, secular_xincl ?r)"
    by simp
  from eccentricity_check_and_floor[of drag_object drag_time "secular_a ?r" "secular_e ?r"
      "secular_omega ?r" "secular_xl ?r" "secular_xnode ?r" "secular_xincl ?r",
      THEN conjunct1] r d(4)
  have near: "FindPositionSGP4 drag_object drag_time =
       CalculateFinalPositionVelocity drag_object drag_time (1 / 10 ^ 6)
         (secular_a ?r) (secular_omega ?r) (secular_xl ?r) (secular_xnode ?r) (secular_xincl ?r)
         (i_xlcof (common drag_object)) (i_aycof (common drag_object))
         (i_x3thm1 (common drag_object)) (i_x1mth2 (common drag_object))
         (i_x7thm1 (common drag_object))
         (i_cosio (common drag_object)) (i_sinio (common drag_object))"
    by (simp add: d(3))
  from geosynchronous_object_epoch obtain s' xmdf xn where
    sec: "FindPositionSDP4_secular geosynchronous_object 0 =
           Some (s', (xmdf, 0, 0, 0, 0, xn), 1, 0, 0)" and xn: "0 < xn"
    by blast
  from eccentricity_check_and_floor[of geosynchronous_object 0 _ _ _ _ _ _
      s' xmdf 0 0 0 0 xn 1 0 0, THEN conjunct2] sec xn
  have deep: "FindPositionSDP4 geosynchronous_object 0 =
             Some (s', FindPositionSDP4_periodics s' 0 (pow (XKE / xn) TWOTHIRD * pow 1 2)
               (1 / 10 ^ 6) 0 0 0 (xmdf + recovered_mean_motion (elems s') * 0))"
    by simp
  from d(1,3,4) near sec xn deep show ?thesis by blast
qed

text \<open>
  Claim C6 as stated says that an eccentricity that passes the check and is outside
  the open interval from \<open>- 10\<^sup>-\<^sup>3\<close> to \<open>10\<^sup>-\<^sup>6\<close> is left as it is. For the object that
  \<^verbatim>\<open>SetTle\<close> makes for the element set \<open>tle_drag\<close>, a near-space one, and the time
  \<open>drag_time\<close>, the eccentricity after the drag update is \<open>- 10\<^sup>-\<^sup>3\<close>, which passes the
  check and is not inside that interval, and \<^verbatim>\<open>FindPosition\<close> goes on with \<open>10\<^sup>-\<^sup>6\<close>.
\<close>

theorem eccentricity_floor_at_lower_end:
  "\<not> isl (SetTle tle_drag)
   \<and> \<not> i_use_deep_space drag_object
   \<and> 0 < secular_xl (FindPositionSGP4_secular drag_object drag_time)
   \<and> secular_e (FindPositionSGP4_secular drag_object drag_time) = - (1 / 1000)
   \<and> \<not> (- (1 / 10 ^ 3) < (- (1 / 1000) :: real) \<and> (- (1 / 1000) :: real) < 1 / 10 ^ 6)
   \<and> FindPosition drag_object drag_time =
       Some (drag_object,
         CalculateFinalPositionVelocity drag_object drag_time (1 / 10 ^ 6)
           (secular_a (FindPositionSGP4_secular drag_object drag_time))
           (secular_omega (FindPositionSGP4_secular drag_object drag_time))
           (secular_xl (FindPositionSGP4_secular drag_object drag_time))
           (secular_xnode (FindPositionSGP4_secular drag_object drag_time))
           (secular_xincl (FindPositionSGP4_secular drag_object drag_time))
           (i_xlcof (common drag_object)) (i_aycof (common drag_object))
           (i_x3thm1 (common drag_object)) (i_x1mth2 (common drag_object))
           (i_x7thm1 (common drag_object))
           (i_cosio (common drag_object)) (i_sinio (common drag_object)))
   \<and> (1 / 10 ^ 6 :: real) \<noteq> - (1 / 1000)"
proof -
  let ?r = "FindPositionSGP4_secular drag_object drag_time"
  note d = drag_object_facts
  have r: "?r = (secular_a ?r, secular_e ?r, secular_omega ?r, secular_xl ?r,
                 secular_xnode ?r, secular_xincl ?r)"
    by simp
  from FindPositionSGP4_checked[OF r d(4)]
  have "FindPositionSGP4 drag_object drag_time =
       CalculateFinalPositionVelocity drag_object drag_time (1 / 10 ^ 6)
         (secular_a ?r) (secular_omega ?r) (secular_xl ?r) (secular_xnode ?r) (secular_xincl ?r)
         (i_xlcof (common drag_object)) (i_aycof (common drag_object))
         (i_x3thm1 (common drag_object)) (i_x1mth2 (common drag_object))
         (i_x7thm1 (common drag_object))
         (i_cosio (common drag_object)) (i_sinio (common drag_object))"
    by (simp add: d(3))
  with d show ?thesis by (simp add: FindPosition_def)
qed

section \<open>The eccentricity after the periodics\<close>

text \<open>
  Claim C9: \<^verbatim>\<open>FindPositionSDP4\<close> has one more check of the eccentricity, after
  \<^verbatim>\<open>DeepSpacePeriodics\<close> has changed it: the call throws the exception #3 exactly when the
  checks before have passed and the eccentricity after the periodics, computed from the
  one with the floor of \<open>10\<^sup>-\<^sup>6\<close>, is below 0 or above 1. \<^verbatim>\<open>FindPositionSGP4\<close> has no such
  check: its exceptions are #2, #1, #4 and #6 only, and the eccentricity after the drag
  update and the floor goes to \<^verbatim>\<open>CalculateFinalPositionVelocity\<close> as it is.
\<close>

theorem eccentricity_check_after_periodics:
  assumes "FindPositionSDP4_secular s t =
             Some (s', (xmdf, omgadf, xnode, e, xincl, xn), tempa, tempe, templ)"
  shows "(FindPositionSDP4 s t = Some (s', Inl (SatelliteException ''Error: #3 (e < 0.0 || e > 1.0)''))
          \<longleftrightarrow> 0 < xn \<and> \<not> (e - tempe \<ge> 1 \<or> e - tempe < - (1 / 10 ^ 3))
              \<and> (let e1 = (if e - tempe < 1 / 10 ^ 6 then 1 / 10 ^ 6 else e - tempe);
                      e2 = fst (DeepSpacePeriodics t e1 xincl omgadf xnode
                                  (xmdf + recovered_mean_motion (elems s') * templ) s')
                  in e2 < 0 \<or> e2 > 1))
     \<and> throws_only
         {SatelliteException ''Error: #2 (xl <= 0.0)'',
          SatelliteException ''Error: #1 (e >= 1.0 || e < -0.001)'',
          SatelliteException ''Error: #4 (pl < 0.0)'',
          SatelliteException ''Error: #6 Satellite decayed (rk < 1.0)''}
         (FindPositionSGP4 s t)
     \<and> (\<forall>a ne omega xl nnode nincl.
          FindPositionSGP4_secular s t = (a, ne, omega, xl, nnode, nincl) \<and> 0 < xl
          \<and> \<not> (ne \<ge> 1 \<or> ne < - (1 / 10 ^ 3)) \<longrightarrow>
          FindPositionSGP4 s t =
            CalculateFinalPositionVelocity s t (if ne < 1 / 10 ^ 6 then 1 / 10 ^ 6 else ne)
              a omega xl nnode nincl (i_xlcof (common s)) (i_aycof (common s))
              (i_x3thm1 (common s)) (i_x1mth2 (common s)) (i_x7thm1 (common s))
              (i_cosio (common s)) (i_sinio (common s)))"
proof -
  have deep: "FindPositionSDP4 s t = Some (s', Inl (SatelliteException ''Error: #3 (e < 0.0 || e > 1.0)''))
          \<longleftrightarrow> 0 < xn \<and> \<not> (e - tempe \<ge> 1 \<or> e - tempe < - (1 / 10 ^ 3))
              \<and> (let e1 = (if e - tempe < 1 / 10 ^ 6 then 1 / 10 ^ 6 else e - tempe);
                      e2 = fst (DeepSpacePeriodics t e1 xincl omgadf xnode
                                  (xmdf + recovered_mean_motion (elems s') * templ) s')
                  in e2 < 0 \<or> e2 > 1)"
  proof (cases "0 < xn")
    case True
    note FindPositionSDP4_checked[OF assms True]
    then show ?thesis
      using True by (simp add: FindPositionSDP4_periodics_3 Let_def)
  next
    case False
    then show ?thesis by (simp add: FindPositionSDP4_def assms)
  qed
  have near: "\<forall>a ne omega xl nnode nincl.
          FindPositionSGP4_secular s t = (a, ne, omega, xl, nnode, nincl) \<and> 0 < xl
          \<and> \<not> (ne \<ge> 1 \<or> ne < - (1 / 10 ^ 3)) \<longrightarrow>
          FindPositionSGP4 s t =
            CalculateFinalPositionVelocity s t (if ne < 1 / 10 ^ 6 then 1 / 10 ^ 6 else ne)
              a omega xl nnode nincl (i_xlcof (common s)) (i_aycof (common s))
              (i_x3thm1 (common s)) (i_x1mth2 (common s)) (i_x7thm1 (common s))
              (i_cosio (common s)) (i_sinio (common s))"
    by (auto simp: FindPositionSGP4_checked)
  from deep FindPositionSGP4_throws near show ?thesis by (intro conjI)
qed

lemma boundary_object_near:
  "FindPositionSGP4_secular boundary_object (1 / 1000) = (1, - (1 / 1000), 0, 1, 0, 0)"
  by (simp add: FindPositionSGP4_secular_def boundary_object_def ResetGlobalVariables_def
      pow_def)

lemma boundary_object_deep:
  "FindPositionSDP4_secular boundary_object (1 / 1000) =
     Some (boundary_object, (1, 0, 0, 0, 0, 1), 1, 1 / 1000, 0)"
  by (simp add: FindPositionSDP4_secular_def DeepSpaceSecular_def boundary_object_def
      ResetGlobalVariables_def)

lemma boundary_object_common:
  "i_xlcof (common boundary_object) = 0" "i_aycof (common boundary_object) = 0"
  "i_x3thm1 (common boundary_object) = 0" "i_x1mth2 (common boundary_object) = 0"
  "i_x7thm1 (common boundary_object) = 0" "i_cosio (common boundary_object) = 0"
  "i_sinio (common boundary_object) = 0"
  "recovered_mean_motion (elems boundary_object) = 1"
  by (simp_all add: boundary_object_def ResetGlobalVariables_def)

lemma eccentric_object_deep:
  "FindPositionSDP4_secular eccentric_object 0 =
     Some (eccentric_object, (0, 0, 0, 0, 0, 1), 1, 0, 0)"
  by (simp add: FindPositionSDP4_secular_def DeepSpaceSecular_def eccentric_object_def
      ResetGlobalVariables_def)

lemma eccentric_object_periodics:
  "fst (DeepSpacePeriodics 0 em xinc omgasm xnodes xll eccentric_object) = em + 2"
  by (simp add: DeepSpacePeriodics_eccentricity DeepSpaceCalculateLunarSolarTerms_def
      solar_argument_def lunar_argument_def eccentric_object_def ResetGlobalVariables_def)

lemma eccentric_object_near:
  "FindPositionSGP4_secular eccentric_object 0 = (0, 0, 0, 0, 0, 0)"
  by (simp add: FindPositionSGP4_secular_def eccentric_object_def ResetGlobalVariables_def
      pow_def)

theorem eccentricity_check_after_periodics_witness:
  "FindPositionSDP4_secular eccentric_object 0 =
     Some (eccentric_object, (0, 0, 0, 0, 0, 1), 1, 0, 0)
   \<and> FindPositionSDP4 eccentric_object 0 =
       Some (eccentric_object, Inl (SatelliteException ''Error: #3 (e < 0.0 || e > 1.0)''))
   \<and> FindPositionSGP4_secular boundary_object (1 / 1000) = (1, - (1 / 1000), 0, 1, 0, 0)
   \<and> FindPositionSDP4_secular boundary_object (1 / 1000) =
       Some (boundary_object, (1, 0, 0, 0, 0, 1), 1, 1 / 1000, 0)
   \<and> FindPositionSGP4 boundary_object (1 / 1000) =
       CalculateFinalPositionVelocity boundary_object (1 / 1000) (1 / 10 ^ 6)
         1 0 1 0 0 0 0 0 0 0 0 0"
  using eccentricity_check_after_periodics[OF eccentric_object_deep]
    eccentricity_check_after_periodics[OF boundary_object_deep]
  by (simp add: eccentric_object_deep eccentric_object_periodics boundary_object_near
      boundary_object_deep boundary_object_common)

section \<open>The arguments of the lunar and solar periodics\<close>




section \<open>The loop of the resonance integrator with an exact clock\<close>

text \<open>
  With the time \<open>d_atime\<close> of the integrator a real number, as it is in this model, and a
  resonance, the loop of \<^verbatim>\<open>DeepSpaceSecular\<close> ends for every time \<open>t\<close> and \<^verbatim>\<open>DeepSpaceSecular\<close>
  returns; the object it interpolates from has \<open>\<bar>t - d_atime\<bar> < 720\<close>. From the object \<open>s0\<close>
  after the restart test, the loop makes \<open>n\<close> steps of \<open>delt\<close>, which is 720 or -720 minutes
  by the side of \<open>t\<close>; it does not pass \<open>t\<close>, and each step adds \<open>delt\<close> to \<open>d_atime\<close> and takes
  720 minutes off its distance to \<open>t\<close>. The source keeps \<open>d_atime_\<close> in a double, where adding
  720 is exact only below \<open>2\<^sup>5\<^sup>7\<close> and changes nothing from \<open>2\<^sup>6\<^sup>3\<close> on: there this does not hold
  of the source.
\<close>

lemma integrator_loop_exact_clock:
  assumes "d_resonance_flag s"
  shows "\<exists>s' v n. DeepSpaceSecular t xll omgasm xnodes em xinc xn s = Some (s', v)
     \<and> DeepSpaceSecular_integrate t s = Some s'
     \<and> \<bar>t - d_atime (integ s')\<bar> < STEP
     \<and> (let s0 = (if \<bar>t\<bar> < STEP \<or> t * d_atime (integ s) \<le> 0 \<or> \<bar>t\<bar> < \<bar>d_atime (integ s)\<bar>
                   then DeepSpaceSecular_restart s else s);
             delt = (if 0 \<le> t - d_atime (integ s0) then STEP else - STEP)
         in s' = (DeepSpaceSecular_step delt ^^ n) s0
            \<and> STEP * real n \<le> \<bar>t - d_atime (integ s0)\<bar>
            \<and> d_atime (integ s') = d_atime (integ s0) + real n * delt
            \<and> (\<forall>j<n. d_atime (integ ((DeepSpaceSecular_step delt ^^ Suc j) s0))
                        = d_atime (integ ((DeepSpaceSecular_step delt ^^ j) s0)) + delt
                      \<and> \<bar>t - d_atime (integ ((DeepSpaceSecular_step delt ^^ Suc j) s0))\<bar>
                        = \<bar>t - d_atime (integ ((DeepSpaceSecular_step delt ^^ j) s0))\<bar> - STEP))"
proof -
  define s0 where "s0 = (if \<bar>t\<bar> < STEP \<or> t * d_atime (integ s) \<le> 0
                            \<or> \<bar>t\<bar> < \<bar>d_atime (integ s)\<bar>
                         then DeepSpaceSecular_restart s else s)"
  define delt where "delt = (if 0 \<le> t - d_atime (integ s0) then STEP else - STEP)"
  obtain n where r: "run_from t s0 = Some ((DeepSpaceSecular_step delt ^^ n) s0)"
    and lo: "STEP * real n \<le> \<bar>t - d_atime (integ s0)\<bar>"
    unfolding delt_def by (rule run_from_steps)
  let ?s' = "(DeepSpaceSecular_step delt ^^ n) s0"
  have int: "DeepSpaceSecular_integrate t s = Some ?s'"
    using r by (simp only: integrate_run s0_def)
  from r have near: "\<bar>t - d_atime (integ ?s')\<bar> < STEP" by (rule run_from_near)
  have "\<exists>v. DeepSpaceSecular t xll omgasm xnodes em xinc xn s = Some (?s', v)"
    using assms by (simp add: DeepSpaceSecular_def int Let_def)
  then obtain v where sec: "DeepSpaceSecular t xll omgasm xnodes em xinc xn s = Some (?s', v)" ..
  have at: "d_atime (integ ?s') = d_atime (integ s0) + real n * delt" by (rule steps_atime)
  have each: "\<forall>j<n. d_atime (integ ((DeepSpaceSecular_step delt ^^ Suc j) s0))
                        = d_atime (integ ((DeepSpaceSecular_step delt ^^ j) s0)) + delt
                      \<and> \<bar>t - d_atime (integ ((DeepSpaceSecular_step delt ^^ Suc j) s0))\<bar>
                        = \<bar>t - d_atime (integ ((DeepSpaceSecular_step delt ^^ j) s0))\<bar> - STEP"
  proof (intro allI impI conjI)
    fix j assume j: "j < n"
    show "d_atime (integ ((DeepSpaceSecular_step delt ^^ Suc j) s0))
            = d_atime (integ ((DeepSpaceSecular_step delt ^^ j) s0)) + delt"
      by (simp add: step_atime)
    from j have "STEP * real (Suc j) \<le> STEP * real n" and "STEP * real j \<le> STEP * real n"
      by (simp_all add: STEP_def)
    with lo have a: "STEP * real (Suc j) \<le> \<bar>t - d_atime (integ s0)\<bar>"
      and b: "STEP * real j \<le> \<bar>t - d_atime (integ s0)\<bar>" by simp_all
    have "\<bar>t - d_atime (integ ((DeepSpaceSecular_step delt ^^ Suc j) s0))\<bar>
            = \<bar>(t - d_atime (integ s0)) - real (Suc j) * delt\<bar>"
      by (simp only: steps_atime diff_diff_eq)
    also have "\<dots> = \<bar>t - d_atime (integ s0)\<bar> - STEP * real (Suc j)"
      unfolding delt_def by (rule toward[OF a])
    finally have c: "\<bar>t - d_atime (integ ((DeepSpaceSecular_step delt ^^ Suc j) s0))\<bar>
            = \<bar>t - d_atime (integ s0)\<bar> - STEP * real (Suc j)" .
    have "\<bar>t - d_atime (integ ((DeepSpaceSecular_step delt ^^ j) s0))\<bar>
            = \<bar>(t - d_atime (integ s0)) - real j * delt\<bar>"
      by (simp only: steps_atime diff_diff_eq)
    also have "\<dots> = \<bar>t - d_atime (integ s0)\<bar> - STEP * real j"
      unfolding delt_def by (rule toward[OF b])
    finally have "\<bar>t - d_atime (integ ((DeepSpaceSecular_step delt ^^ j) s0))\<bar>
            = \<bar>t - d_atime (integ s0)\<bar> - STEP * real j" .
    with c show "\<bar>t - d_atime (integ ((DeepSpaceSecular_step delt ^^ Suc j) s0))\<bar>
            = \<bar>t - d_atime (integ ((DeepSpaceSecular_step delt ^^ j) s0))\<bar> - STEP"
      by (simp add: algebra_simps)
  qed
  from sec int near lo at each show ?thesis
    unfolding Let_def s0_def[symmetric] delt_def[symmetric] by blast
qed

section \<open>The result of a call does not depend on the calls before\<close>



end
